theory Spec2Isabelle
  imports Complex_Main "HOL-Library.Word"
begin

section \<open>Scalars: \<open>real_t\<close>\<close>

text \<open>
  The solvers compute in \<open>real_t\<close>, an IEEE-754 double. Their control flow depends on the
  special values: comparisons with a NaN are false, \<open>std::isfinite\<close> separates the finite
  values from the infinities and NaN. The model keeps the special values and the rules
  for them, and computes the finite values exactly (no rounding, one zero).
\<close>

datatype real_t = Fin real | PInf | NInf | NaN

fun isfinite :: "real_t \<Rightarrow> bool" where
  "isfinite (Fin a) = True"
| "isfinite PInf = False"
| "isfinite NInf = False"
| "isfinite NaN = False"

fun r_neg :: "real_t \<Rightarrow> real_t" where
  "r_neg (Fin a) = Fin (- a)"
| "r_neg PInf = NInf"
| "r_neg NInf = PInf"
| "r_neg NaN = NaN"

fun r_add :: "real_t \<Rightarrow> real_t \<Rightarrow> real_t" where
  "r_add NaN b = NaN"
| "r_add a NaN = NaN"
| "r_add PInf NInf = NaN"
| "r_add NInf PInf = NaN"
| "r_add PInf b = PInf"
| "r_add a PInf = PInf"
| "r_add NInf b = NInf"
| "r_add a NInf = NInf"
| "r_add (Fin a) (Fin b) = Fin (a + b)"

text \<open>The sign of a scalar, for the products and quotients with an infinity:
  \<open>Some True\<close> positive, \<open>Some False\<close> negative, \<open>None\<close> zero or NaN.\<close>

fun r_sign :: "real_t \<Rightarrow> bool option" where
  "r_sign (Fin a) = (if 0 < a then Some True else if a < 0 then Some False else None)"
| "r_sign PInf = Some True"
| "r_sign NInf = Some False"
| "r_sign NaN = None"

definition r_inf :: "bool \<Rightarrow> real_t" where
  "r_inf pos = (if pos then PInf else NInf)"

fun r_mul :: "real_t \<Rightarrow> real_t \<Rightarrow> real_t" where
  "r_mul (Fin a) (Fin b) = Fin (a * b)"
| "r_mul NaN b = NaN"
| "r_mul a NaN = NaN"
| "r_mul a b =
     (case (r_sign a, r_sign b) of
        (Some sa, Some sb) \<Rightarrow> r_inf (sa = sb)
      | _ \<Rightarrow> NaN)"

fun r_div :: "real_t \<Rightarrow> real_t \<Rightarrow> real_t" where
  "r_div NaN b = NaN"
| "r_div a NaN = NaN"
| "r_div (Fin a) (Fin b) =
     (if b \<noteq> 0 then Fin (a / b)
      else if 0 < a then PInf else if a < 0 then NInf else NaN)"
| "r_div (Fin a) b = Fin 0"
| "r_div a (Fin b) = (if 0 \<le> b then a else r_neg a)"
| "r_div a b = NaN"

fun r_lt :: "real_t \<Rightarrow> real_t \<Rightarrow> bool" where
  "r_lt NaN b = False"
| "r_lt a NaN = False"
| "r_lt (Fin a) (Fin b) = (a < b)"
| "r_lt a NInf = False"
| "r_lt PInf b = False"
| "r_lt NInf b = True"
| "r_lt a PInf = True"

fun r_eq :: "real_t \<Rightarrow> real_t \<Rightarrow> bool" where
  "r_eq NaN b = False"
| "r_eq a NaN = False"
| "r_eq a b = (a = b)"

fun r_abs :: "real_t \<Rightarrow> real_t" where
  "r_abs (Fin a) = Fin \<bar>a\<bar>"
| "r_abs PInf = PInf"
| "r_abs NInf = PInf"
| "r_abs NaN = NaN"

fun r_sqrt :: "real_t \<Rightarrow> real_t" where
  "r_sqrt (Fin a) = (if a < 0 then NaN else Fin (sqrt a))"
| "r_sqrt PInf = PInf"
| "r_sqrt NInf = NaN"
| "r_sqrt NaN = NaN"

text \<open>The C++ operators on \<open>real_t\<close>. \<open>a > b\<close> is \<open>b < a\<close> and \<open>a \<ge> b\<close> is \<open>b \<le> a\<close>, as
  in IEEE-754; \<open>a \<noteq> b\<close> of C++ is \<open>r_ne\<close>, true when an operand is NaN.\<close>

instantiation real_t :: "{plus, minus, uminus, times, inverse, abs, ord}"
begin

definition plus_real_t :: "real_t \<Rightarrow> real_t \<Rightarrow> real_t" where
  "plus_real_t a b = r_add a b"

definition uminus_real_t :: "real_t \<Rightarrow> real_t" where
  "uminus_real_t a = r_neg a"

definition minus_real_t :: "real_t \<Rightarrow> real_t \<Rightarrow> real_t" where
  "minus_real_t a b = r_add a (r_neg b)"

definition times_real_t :: "real_t \<Rightarrow> real_t \<Rightarrow> real_t" where
  "times_real_t a b = r_mul a b"

definition divide_real_t :: "real_t \<Rightarrow> real_t \<Rightarrow> real_t" where
  "divide_real_t a b = r_div a b"

definition inverse_real_t :: "real_t \<Rightarrow> real_t" where
  "inverse_real_t a = r_div (Fin 1) a"

definition abs_real_t :: "real_t \<Rightarrow> real_t" where
  "abs_real_t a = r_abs a"

definition less_real_t :: "real_t \<Rightarrow> real_t \<Rightarrow> bool" where
  "less_real_t a b = r_lt a b"

definition less_eq_real_t :: "real_t \<Rightarrow> real_t \<Rightarrow> bool" where
  "less_eq_real_t a b = (r_lt a b \<or> r_eq a b)"

instance ..

end

definition r_ne :: "real_t \<Rightarrow> real_t \<Rightarrow> bool" where
  "r_ne a b = (\<not> r_eq a b)"

text \<open>\<open>std::numeric_limits<real_t>::epsilon()\<close> of a double.\<close>

definition epsilon :: real_t where
  "epsilon = Fin (1 / 2 ^ 52)"

section \<open>Vectors\<close>

text \<open>
  \<open>vec\<close> is a dense Eigen vector, \<open>mat\<close> a dense matrix, held by columns. The Eigen
  operations the solvers use are written out componentwise; every vector of a solve has
  the length it was allocated with.
\<close>

type_synonym vec = "real_t list"
type_synonym mat = "vec list"

definition vadd :: "vec \<Rightarrow> vec \<Rightarrow> vec" where
  "vadd u v = map2 (+) u v"

definition vsub :: "vec \<Rightarrow> vec \<Rightarrow> vec" where
  "vsub u v = map2 (-) u v"

definition scal :: "real_t \<Rightarrow> vec \<Rightarrow> vec" where
  "scal c v = map (\<lambda>a. c * a) v"

definition vscale :: "vec \<Rightarrow> real_t \<Rightarrow> vec" where
  "vscale v c = map (\<lambda>a. a * c) v"

definition cwiseAbs :: "vec \<Rightarrow> vec" where
  "cwiseAbs v = map abs v"

definition r_max :: "real_t \<Rightarrow> real_t \<Rightarrow> real_t" where
  "r_max a b = (if a < b then b else a)"

definition cwiseMax :: "vec \<Rightarrow> real_t \<Rightarrow> vec" where
  "cwiseMax v c = map (\<lambda>a. r_max a c) v"

definition dot :: "vec \<Rightarrow> vec \<Rightarrow> real_t" where
  "dot u v = foldl (+) (Fin 0) (map2 (*) u v)"

definition squaredNorm :: "vec \<Rightarrow> real_t" where
  "squaredNorm v = foldl (+) (Fin 0) (map (\<lambda>a. a * a) v)"

definition norm_vec :: "vec \<Rightarrow> real_t" where
  "norm_vec v = r_sqrt (squaredNorm v)"

definition allFinite :: "vec \<Rightarrow> bool" where
  "allFinite v = list_all isfinite v"

definition vec_eq :: "vec \<Rightarrow> vec \<Rightarrow> bool" where
  "vec_eq u v = list_all2 r_eq u v"


section \<open>Parameters, status and statistics\<close>

type_synonym u32 = "32 word"

text \<open>Durations (\<open>std::chrono\<close>) are integer tick counts, in microseconds.\<close>

type_synonym duration = int

datatype SolverStatus =
  Unknown | Converged | MaxTime | MaxIter | NotFinite | NoProgress | Interrupted

text \<open>What a call can end in besides returning: the \<open>std::logic_error\<close> after the main
  loop, the remainder by zero of \<open>k % lbfgs_mem\<close>, a matrix column that does not exist.\<close>

datatype error = LogicError | DivisionByZero | IndexOutOfRange

record LipschitzParams =
  L_eps :: real_t
  L_delta :: real_t
  Lgamma_factor :: real_t

text \<open>\<open>PGAParams\<close> of \<open>pga.hpp\<close>. \<open>PANOCParams\<close> is declared in \<open>decl/panoc.hpp\<close>; its
  fields are the ones \<open>panoc.hpp\<close> reads, and it has those of \<open>PGAParams\<close> among them.\<close>

record PGAParams =
  Lipschitz :: LipschitzParams
  max_iter :: u32
  max_time :: duration
  print_interval :: u32

record PANOCParams = PGAParams +
  lbfgs_mem :: u32
  tau_min :: real_t
  quadratic_upperbound_threshold :: real_t
  update_lipschitz_in_linesearch :: bool
  alternative_linesearch_cond :: bool
  anderson_acceleration :: u32

record Stats =
  iterations :: u32
  final_eps :: real_t
  elapsed_time :: duration
  status :: SolverStatus
  linesearch_failures :: u32
  lbfgs_failures :: u32
  lbfgs_rejected :: u32

section \<open>What the solvers call\<close>

text \<open>
  The problem and the helper functions of \<open>detail::\<close> (\<open>panoc-helpers.hpp\<close>) are
  parameters of the model: one field for each helper, applied to the arguments the
  solver's wrappers pass (\<open>x\<close>, then \<open>y\<close> and \<open>\<Sigma>\<close> where the wrapper captures them), and
  returning what the helper returns and writes. The steady clock and the stop signal are
  inputs too: their readings at the exit check of iteration \<open>k\<close>. \<open>indeterminate\<close> is what
  an Eigen vector holds after \<open>vec v(n)\<close>, and \<open>indeterminate_duration\<close> what the
  default-initialised \<open>elapsed_time\<close> holds.
\<close>

record detail =
  prob_n :: u32
  prob_m :: u32
  calc_psi_yhat :: "vec \<Rightarrow> vec \<Rightarrow> vec \<Rightarrow> real_t \<times> vec"
  calc_psi_grad_psi :: "vec \<Rightarrow> vec \<Rightarrow> vec \<Rightarrow> real_t \<times> vec"
  calc_grad_psi :: "vec \<Rightarrow> vec \<Rightarrow> vec \<Rightarrow> vec"
  calc_grad_psi_from_yhat :: "vec \<Rightarrow> vec \<Rightarrow> vec"
  calc_xhat :: "real_t \<Rightarrow> vec \<Rightarrow> vec \<Rightarrow> vec \<times> vec"
  calc_err_z :: "vec \<Rightarrow> vec \<Rightarrow> vec \<Rightarrow> vec"
  calc_error_stop_crit :: "vec \<Rightarrow> real_t \<Rightarrow> vec \<Rightarrow> vec \<Rightarrow> real_t"
  time_elapsed_at :: "u32 \<Rightarrow> duration"
  stop_requested_at :: "u32 \<Rightarrow> bool"
  indeterminate :: real_t
  indeterminate_duration :: duration

definition uninit_vec :: "'a detail_scheme \<Rightarrow> u32 \<Rightarrow> vec" where
  "uninit_vec env len = replicate (unat len) (indeterminate env)"

definition new_Stats :: "'a detail_scheme \<Rightarrow> Stats" where
  "new_Stats env =
     \<lparr>iterations = 0, final_eps = PInf, elapsed_time = indeterminate_duration env,
      status = Unknown, linesearch_failures = 0, lbfgs_failures = 0, lbfgs_rejected = 0\<rparr>"

section \<open>The exit block\<close>

text \<open>The conditional chain that both solvers end their exit block with (\<open>panoc.hpp\<close>
  lines 238 to 243, \<open>pga.hpp\<close> lines 226 to 231).\<close>

definition exit_status :: "bool \<Rightarrow> bool \<Rightarrow> bool \<Rightarrow> bool \<Rightarrow> bool \<Rightarrow> SolverStatus" where
  "exit_status conv out_of_time out_of_iter not_finite max_no_progress =
     (if conv then Converged
      else if out_of_time then MaxTime
      else if out_of_iter then MaxIter
      else if not_finite then NotFinite
      else if max_no_progress then NoProgress
      else Interrupted)"

section \<open>The variables of a solve\<close>

text \<open>
  The variables both solvers declare: the reference arguments \<open>x\<close>, \<open>y\<close>, \<open>err_z\<close>
  (\<open>arg_x\<close>, \<open>arg_y\<close>, \<open>arg_err_z\<close>), the statistics \<open>s\<close>, and the iterate \<open>x\<^sub>k\<close> with what
  is kept about it. A subscript \<open>k\<close> is written \<open>_k\<close>, \<open>k+1\<close> is \<open>_k1\<close>, a hat \<open>hat\<close>.
\<close>

record solve_state =
  arg_x :: vec
  arg_y :: vec
  arg_err_z :: vec
  stats :: Stats
  x_k :: vec
  xhat_k :: vec
  p_k :: vec
  grad_psi_k :: vec
  psi_k :: real_t
  L_k :: real_t
  gamma_k :: real_t
  no_progress :: u32
  psi_xhat_k :: real_t
  grad_psi_kTp_k :: real_t
  norm_sq_p_k :: real_t
  eps_k :: real_t

section \<open>PGA (\<open>pga.hpp\<close>)\<close>

record pga_state = solve_state +
  yhat_k :: vec
  grad_psi_xhat_k :: vec

text \<open>Lines 91 to 98: the vectors of a call.\<close>

definition pga_alloc :: "'a detail_scheme \<Rightarrow> vec \<Rightarrow> vec \<Rightarrow> vec \<Rightarrow> pga_state" where
  "pga_alloc env x y err_z =
     \<lparr>arg_x = x, arg_y = y, arg_err_z = err_z, stats = new_Stats env,
      x_k = x,
      xhat_k = uninit_vec env (prob_n env),
      p_k = uninit_vec env (prob_n env),
      grad_psi_k = uninit_vec env (prob_n env),
      psi_k = indeterminate env, L_k = indeterminate env, gamma_k = indeterminate env,
      no_progress = 0,
      psi_xhat_k = indeterminate env, grad_psi_kTp_k = indeterminate env,
      norm_sq_p_k = indeterminate env, eps_k = indeterminate env,
      yhat_k = uninit_vec env (prob_m env),
      grad_psi_xhat_k = uninit_vec env (prob_n env)\<rparr>"

text \<open>Lines 139 to 150: the finite difference estimate. The caller's \<open>x\<close> is moved by \<open>h\<close>.\<close>

definition pga_estimate :: "'a detail_scheme \<Rightarrow> PGAParams \<Rightarrow> vec \<Rightarrow> pga_state \<Rightarrow> pga_state" where
  "pga_estimate env params \<Sigma> st =
     (let h = cwiseMax (cwiseAbs (vscale (arg_x st) (L_eps (Lipschitz params))))
                (L_delta (Lipschitz params));
          st = st\<lparr>arg_x := vadd (arg_x st) h\<rparr>;
          st = st\<lparr>grad_psi_xhat_k := calc_grad_psi env (arg_x st) (arg_y st) \<Sigma>\<rparr>;
          r = calc_psi_grad_psi env (x_k st) (arg_y st) \<Sigma>;
          st = st\<lparr>psi_k := fst r, grad_psi_k := snd r\<rparr>
      in st\<lparr>L_k := norm_vec (vsub (grad_psi_xhat_k st) (grad_psi_k st)) / norm_vec h\<rparr>)"

text \<open>Lines 182 to 193: the step size is halved until the quadratic upper bound holds.\<close>

definition pga_qub_cond :: "pga_state \<Rightarrow> bool" where
  "pga_qub_cond st =
     (psi_xhat_k st >
        psi_k st + Fin 0 + grad_psi_kTp_k st + Fin (1/2) * L_k st * norm_sq_p_k st)"

definition pga_prox :: "'a detail_scheme \<Rightarrow> vec \<Rightarrow> pga_state \<Rightarrow> pga_state" where
  "pga_prox env \<Sigma> st =
     (let r = calc_xhat env (gamma_k st) (x_k st) (grad_psi_k st);
          st = st\<lparr>xhat_k := fst r, p_k := snd r\<rparr>;
          r = calc_psi_yhat env (xhat_k st) (arg_y st) \<Sigma>;
          st = st\<lparr>psi_xhat_k := fst r, yhat_k := snd r\<rparr>
      in st\<lparr>grad_psi_kTp_k := dot (grad_psi_k st) (p_k st),
            norm_sq_p_k := squaredNorm (p_k st)\<rparr>)"

definition pga_qub_body :: "'a detail_scheme \<Rightarrow> vec \<Rightarrow> pga_state \<Rightarrow> pga_state" where
  "pga_qub_body env \<Sigma> st =
     pga_prox env \<Sigma> (st\<lparr>L_k := L_k st * Fin 2, gamma_k := gamma_k st / Fin 2\<rparr>)"

partial_function (option) pga_qub_loop ::
  "'a detail_scheme \<Rightarrow> vec \<Rightarrow> pga_state \<Rightarrow> pga_state option" where
  "pga_qub_loop env \<Sigma> st =
     (if pga_qub_cond st then pga_qub_loop env \<Sigma> (pga_qub_body env \<Sigma> st) else Some st)"

text \<open>Lines 195 to 200: the gradient in \<open>x\<^sub>k\<close> hat and the stop criterion.\<close>

definition pga_stop_crit :: "'a detail_scheme \<Rightarrow> pga_state \<Rightarrow> pga_state" where
  "pga_stop_crit env st =
     (let st = st\<lparr>grad_psi_xhat_k := calc_grad_psi_from_yhat env (xhat_k st) (yhat_k st)\<rparr>
      in st\<lparr>eps_k := calc_error_stop_crit env (p_k st) (gamma_k st)
                        (grad_psi_xhat_k st) (grad_psi_k st)\<rparr>)"

text \<open>Lines 206 to 214: the exit flags of iteration \<open>k\<close>.\<close>

definition out_of_time :: "'a detail_scheme \<Rightarrow> 'b PGAParams_scheme \<Rightarrow> u32 \<Rightarrow> bool" where
  "out_of_time env params k = (time_elapsed_at env k > max_time params)"

definition out_of_iter :: "'b PGAParams_scheme \<Rightarrow> u32 \<Rightarrow> bool" where
  "out_of_iter params k = (k = max_iter params)"

definition interrupted :: "'a detail_scheme \<Rightarrow> u32 \<Rightarrow> bool" where
  "interrupted env k = stop_requested_at env k"

definition not_finite :: "'c solve_state_scheme \<Rightarrow> bool" where
  "not_finite st = (\<not> isfinite (eps_k st))"

definition conv :: "real_t \<Rightarrow> 'c solve_state_scheme \<Rightarrow> bool" where
  "conv \<epsilon> st = (eps_k st \<le> \<epsilon>)"

definition pga_max_no_progress :: "pga_state \<Rightarrow> bool" where
  "pga_max_no_progress st = (no_progress st > 1)"

definition pga_exit :: "'a detail_scheme \<Rightarrow> PGAParams \<Rightarrow> real_t \<Rightarrow> u32 \<Rightarrow> pga_state \<Rightarrow> bool" where
  "pga_exit env params \<epsilon> k st =
     (conv \<epsilon> st \<or> out_of_iter params k \<or> out_of_time env params k \<or> not_finite st \<or>
      interrupted env k \<or> pga_max_no_progress st)"

text \<open>Lines 220 to 232: the results are written and the statistics filled in.\<close>

definition pga_exit_block ::
  "'a detail_scheme \<Rightarrow> PGAParams \<Rightarrow> vec \<Rightarrow> real_t \<Rightarrow> u32 \<Rightarrow> pga_state \<Rightarrow> pga_state" where
  "pga_exit_block env params \<Sigma> \<epsilon> k st =
     (let st' = st\<lparr>arg_err_z := calc_err_z env (xhat_k st) (arg_y st) \<Sigma>\<rparr>;
          st' = st'\<lparr>arg_x := xhat_k st'\<rparr>;
          st' = st'\<lparr>arg_y := yhat_k st'\<rparr>
      in st'\<lparr>stats := (stats st')
              \<lparr>iterations := k, final_eps := eps_k st,
               elapsed_time := time_elapsed_at env k,
               status := exit_status (conv \<epsilon> st) (out_of_time env params k)
                           (out_of_iter params k) (not_finite st)
                           (pga_max_no_progress st)\<rparr>\<rparr>)"

text \<open>Lines 235 to 242: the no-progress counter and the step to \<open>k + 1\<close>.\<close>

definition pga_advance :: "pga_state \<Rightarrow> pga_state" where
  "pga_advance st =
     (let st = (if vec_eq (x_k st) (xhat_k st)
                then st\<lparr>no_progress := no_progress st + 1\<rparr>
                else st\<lparr>no_progress := 0\<rparr>);
          st = st\<lparr>x_k := xhat_k st, xhat_k := x_k st\<rparr>;
          st = st\<lparr>grad_psi_k := grad_psi_xhat_k st, grad_psi_xhat_k := grad_psi_k st\<rparr>
      in st\<lparr>psi_k := psi_xhat_k st\<rparr>)"

text \<open>Lines 164 to 244: the main loop, from iteration \<open>k\<close> on.\<close>

partial_function (option) pga_loop ::
  "'a detail_scheme \<Rightarrow> PGAParams \<Rightarrow> vec \<Rightarrow> real_t \<Rightarrow> u32 \<Rightarrow> pga_state
   \<Rightarrow> (error + pga_state) option" where
  "pga_loop env params \<Sigma> \<epsilon> k st =
     (if k \<le> max_iter params then
        Option.bind (pga_qub_loop env \<Sigma> (pga_prox env \<Sigma> st)) (\<lambda>st.
          let st = pga_stop_crit env st in
          if pga_exit env params \<epsilon> k st
          then Some (Inr (pga_exit_block env params \<Sigma> \<epsilon> k st))
          else pga_loop env params \<Sigma> \<epsilon> (k + 1) (pga_advance st))
      else Some (Inl LogicError))"

text \<open>\<open>PGA::operator()\<close>: \<open>None\<close> is a call that does not return.\<close>

definition PGA_call ::
  "'a detail_scheme \<Rightarrow> PGAParams \<Rightarrow> vec \<Rightarrow> real_t \<Rightarrow> vec \<Rightarrow> vec \<Rightarrow> vec
   \<Rightarrow> (error + pga_state) option" where
  "PGA_call env params \<Sigma> \<epsilon> x y err_z =
     (let st = pga_estimate env params \<Sigma> (pga_alloc env x y err_z) in
      if L_k st < epsilon then
        pga_loop env params \<Sigma> \<epsilon> 0
          (st\<lparr>L_k := epsilon, gamma_k := Lgamma_factor (Lipschitz params) / epsilon\<rparr>)
      else if \<not> isfinite (L_k st) then
        Some (Inr (st\<lparr>stats := (stats st)\<lparr>status := NotFinite\<rparr>\<rparr>))
      else
        pga_loop env params \<Sigma> \<epsilon> 0
          (st\<lparr>gamma_k := Lgamma_factor (Lipschitz params) / L_k st\<rparr>))"


section \<open>PANOC (\<open>panoc.hpp\<close>)\<close>

text \<open>
  What \<open>PANOCSolver::operator()\<close> calls besides the helpers: the projection on the
  feasible set, the direction provider (a state \<open>'d\<close> and the functions of
  \<open>PANOCDirection\<close>), and for Anderson acceleration \<open>minimize_update_anderson\<close> and the
  \<open>LimitedMemoryQR\<close> (a state \<open>'q\<close>). Each function takes the state and the arguments of
  the call, and returns what the call returns and writes.
\<close>

record ('d, 'q) panoc_env = detail +
  project :: "vec \<Rightarrow> vec"
  dir_resize :: "'d \<Rightarrow> u32 \<Rightarrow> u32 \<Rightarrow> 'd"
  dir_initialize :: "'d \<Rightarrow> vec \<Rightarrow> vec \<Rightarrow> vec \<Rightarrow> vec \<Rightarrow> 'd"
  dir_apply :: "'d \<Rightarrow> vec \<Rightarrow> vec \<Rightarrow> vec \<Rightarrow> vec \<Rightarrow> 'd \<times> vec"
  dir_update :: "'d \<Rightarrow> vec \<Rightarrow> vec \<Rightarrow> vec \<Rightarrow> vec \<Rightarrow> vec \<Rightarrow> real_t \<Rightarrow> bool \<times> 'd"
  dir_changed_gamma :: "'d \<Rightarrow> real_t \<Rightarrow> real_t \<Rightarrow> 'd"
  dir_reset :: "'d \<Rightarrow> 'd"
  minimize_update_anderson ::
    "'q \<Rightarrow> mat \<Rightarrow> vec \<Rightarrow> vec \<Rightarrow> vec \<Rightarrow> vec \<Rightarrow> vec \<Rightarrow> 'q \<times> mat \<times> vec \<times> vec"
  new_qr :: 'q
  qr_resize :: "'q \<Rightarrow> u32 \<Rightarrow> u32 \<Rightarrow> 'q"
  qr_num_columns :: "'q \<Rightarrow> nat"
  qr_ring_tail :: "'q \<Rightarrow> nat"
  qr_reset :: "'q \<Rightarrow> 'q"
  qr_scale_R :: "'q \<Rightarrow> real_t \<Rightarrow> 'q"

record ('d, 'q) panoc_state = solve_state +
  x_k1 :: vec
  xhat_k1 :: vec
  yhat_xhat_k :: vec
  yhat_xhat_k1 :: vec
  p_k1 :: vec
  q_k :: vec
  grad_hat_psi_k :: vec
  grad_psi_k1 :: vec
  direction_provider :: 'd
  r_aa_km1 :: vec
  r_aa_k :: vec
  y_aa_k :: vec
  x_aa_k :: vec
  g_aa_k :: vec
  gamma_aa_LS :: vec
  yhat_aa_k :: vec
  G_aa :: mat
  qr :: 'q
  sigma_k :: real_t
  phi_k :: real_t
  old_gamma_k :: real_t
  anderson_accepted :: bool
  tau :: real_t
  sigma_norm_gamma_inv_p_k :: real_t
  phi_k1 :: real_t
  psi_k1 :: real_t
  psi_xhat_k1 :: real_t
  grad_psi_k1Tp_k1 :: real_t
  norm_sq_p_k1 :: real_t
  L_k1 :: real_t
  sigma_k1 :: real_t
  gamma_k1 :: real_t
  ls_cond :: real_t
  norm_sq_p_k1_k :: real_t

text \<open>Line 69: the memory of the Anderson acceleration.\<close>

definition m_aa :: "'a detail_scheme \<Rightarrow> PANOCParams \<Rightarrow> u32" where
  "m_aa env params = min (anderson_acceleration params) (prob_n env)"

text \<open>Lines 49 to 66: the vectors of a call, before the Anderson vectors are sized.\<close>

definition panoc_alloc ::
  "('d, 'q) panoc_env \<Rightarrow> PANOCParams \<Rightarrow> 'd \<Rightarrow> vec \<Rightarrow> vec \<Rightarrow> vec \<Rightarrow> ('d, 'q) panoc_state" where
  "panoc_alloc env params dp x y err_z =
     \<lparr>arg_x = x, arg_y = y, arg_err_z = err_z, stats = new_Stats env,
      x_k = x,
      xhat_k = uninit_vec env (prob_n env),
      p_k = uninit_vec env (prob_n env),
      grad_psi_k = uninit_vec env (prob_n env),
      psi_k = indeterminate env, L_k = indeterminate env, gamma_k = indeterminate env,
      no_progress = 0,
      psi_xhat_k = indeterminate env, grad_psi_kTp_k = indeterminate env,
      norm_sq_p_k = indeterminate env, eps_k = indeterminate env,
      x_k1 = uninit_vec env (prob_n env),
      xhat_k1 = uninit_vec env (prob_n env),
      yhat_xhat_k = uninit_vec env (prob_m env),
      yhat_xhat_k1 = uninit_vec env (prob_m env),
      p_k1 = uninit_vec env (prob_n env),
      q_k = uninit_vec env (prob_n env),
      grad_hat_psi_k = uninit_vec env (prob_n env),
      grad_psi_k1 = uninit_vec env (prob_n env),
      direction_provider = dir_resize env dp (prob_n env) (lbfgs_mem params),
      r_aa_km1 = [], r_aa_k = [], y_aa_k = [], x_aa_k = [], g_aa_k = [],
      gamma_aa_LS = [], yhat_aa_k = [], G_aa = [], qr = new_qr env,
      sigma_k = indeterminate env, phi_k = indeterminate env,
      old_gamma_k = indeterminate env, anderson_accepted = False,
      tau = indeterminate env, sigma_norm_gamma_inv_p_k = indeterminate env,
      phi_k1 = indeterminate env, psi_k1 = indeterminate env,
      psi_xhat_k1 = indeterminate env, grad_psi_k1Tp_k1 = indeterminate env,
      norm_sq_p_k1 = indeterminate env, L_k1 = indeterminate env,
      sigma_k1 = indeterminate env, gamma_k1 = indeterminate env,
      ls_cond = indeterminate env, norm_sq_p_k1_k = indeterminate env\<rparr>"

text \<open>Lines 68 to 79: the Anderson vectors, the history matrix and the QR factorisation.\<close>

definition anderson_alloc ::
  "('d, 'q) panoc_env \<Rightarrow> PANOCParams \<Rightarrow> ('d, 'q) panoc_state \<Rightarrow> ('d, 'q) panoc_state" where
  "anderson_alloc env params st =
     (if anderson_acceleration params \<noteq> 0 then
        st\<lparr>r_aa_km1 := uninit_vec env (prob_n env),
           r_aa_k := uninit_vec env (prob_n env),
           y_aa_k := uninit_vec env (prob_n env),
           x_aa_k := uninit_vec env (prob_n env),
           g_aa_k := uninit_vec env (prob_n env),
           gamma_aa_LS := uninit_vec env (m_aa env params),
           yhat_aa_k := uninit_vec env (prob_m env),
           G_aa := replicate (unat (m_aa env params)) (uninit_vec env (prob_n env)),
           qr := qr_resize env (qr st) (prob_n env) (m_aa env params)\<rparr>
      else st)"

text \<open>Lines 116 to 125.\<close>

definition anderson_changed_gamma ::
  "('d, 'q) panoc_env \<Rightarrow> PANOCParams \<Rightarrow> real_t \<Rightarrow> real_t \<Rightarrow> ('d, 'q) panoc_state
   \<Rightarrow> ('d, 'q) panoc_state" where
  "anderson_changed_gamma env params g old_g st =
     (if anderson_acceleration params \<noteq> 0 then
        st\<lparr>qr := qr_scale_R env (qr st) (g / old_g),
           r_aa_km1 := vscale (r_aa_km1 st) (g / old_g)\<rparr>
      else st)"

text \<open>Lines 130 to 140: the finite difference estimate of the Lipschitz constant.\<close>

definition panoc_estimate ::
  "('d, 'q) panoc_env \<Rightarrow> PANOCParams \<Rightarrow> vec \<Rightarrow> ('d, 'q) panoc_state \<Rightarrow> ('d, 'q) panoc_state" where
  "panoc_estimate env params \<Sigma> st =
     (let h = cwiseMax (cwiseAbs (vscale (x_k st) (L_eps (Lipschitz params))))
                (L_delta (Lipschitz params));
          st = st\<lparr>x_k1 := vadd (x_k st) h\<rparr>;
          st = st\<lparr>grad_psi_k1 := calc_grad_psi env (x_k1 st) (arg_y st) \<Sigma>\<rparr>;
          r = calc_psi_grad_psi env (x_k st) (arg_y st) \<Sigma>;
          st = st\<lparr>psi_k := fst r, grad_psi_k := snd r\<rparr>
      in st\<lparr>L_k := norm_vec (vsub (grad_psi_k1 st) (grad_psi_k st)) / norm_vec h\<rparr>)"

text \<open>Lines 148 to 164: the step size and the first projected gradient step.\<close>

definition panoc_first_step ::
  "('d, 'q) panoc_env \<Rightarrow> PANOCParams \<Rightarrow> vec \<Rightarrow> ('d, 'q) panoc_state \<Rightarrow> ('d, 'q) panoc_state" where
  "panoc_first_step env params \<Sigma> st =
     (let st = st\<lparr>gamma_k := Lgamma_factor (Lipschitz params) / L_k st\<rparr>;
          st = st\<lparr>sigma_k := gamma_k st * (Fin 1 - gamma_k st * L_k st) / Fin 2\<rparr>;
          r = calc_xhat env (gamma_k st) (x_k st) (grad_psi_k st);
          st = st\<lparr>xhat_k := fst r, p_k := snd r\<rparr>;
          r = calc_psi_yhat env (xhat_k st) (arg_y st) \<Sigma>;
          st = st\<lparr>psi_xhat_k := fst r, yhat_xhat_k := snd r\<rparr>;
          st = st\<lparr>grad_psi_kTp_k := dot (grad_psi_k st) (p_k st)\<rparr>;
          st = st\<lparr>norm_sq_p_k := squaredNorm (p_k st)\<rparr>;
          st = st\<lparr>phi_k := psi_k st + Fin 1 / (Fin 2 * gamma_k st) * norm_sq_p_k st
                             + grad_psi_kTp_k st\<rparr>
      in st\<lparr>no_progress := 0\<rparr>)"

text \<open>Lines 174 to 189: the quadratic upper bound loop on the variables of \<open>k\<close>.\<close>

definition panoc_qub_cond :: "PANOCParams \<Rightarrow> ('d, 'q) panoc_state \<Rightarrow> bool" where
  "panoc_qub_cond params st =
     (psi_xhat_k st - psi_k st > grad_psi_kTp_k st + Fin (1/2) * L_k st * norm_sq_p_k st \<and>
      \<bar>grad_psi_kTp_k st / psi_k st\<bar> > quadratic_upperbound_threshold params)"

definition panoc_qub_body ::
  "('d, 'q) panoc_env \<Rightarrow> vec \<Rightarrow> ('d, 'q) panoc_state \<Rightarrow> ('d, 'q) panoc_state" where
  "panoc_qub_body env \<Sigma> st =
     (let st = st\<lparr>L_k := L_k st * Fin 2\<rparr>;
          st = st\<lparr>sigma_k := sigma_k st / Fin 2\<rparr>;
          st = st\<lparr>gamma_k := gamma_k st / Fin 2\<rparr>;
          r = calc_xhat env (gamma_k st) (x_k st) (grad_psi_k st);
          st = st\<lparr>xhat_k := fst r, p_k := snd r\<rparr>;
          st = st\<lparr>grad_psi_kTp_k := dot (grad_psi_k st) (p_k st)\<rparr>;
          st = st\<lparr>norm_sq_p_k := squaredNorm (p_k st)\<rparr>;
          r = calc_psi_yhat env (xhat_k st) (arg_y st) \<Sigma>
      in st\<lparr>psi_xhat_k := fst r, yhat_xhat_k := snd r\<rparr>)"

partial_function (option) panoc_qub_loop ::
  "('d, 'q) panoc_env \<Rightarrow> PANOCParams \<Rightarrow> vec \<Rightarrow> ('d, 'q) panoc_state
   \<Rightarrow> ('d, 'q) panoc_state option" where
  "panoc_qub_loop env params \<Sigma> st =
     (if panoc_qub_cond params st
      then panoc_qub_loop env params \<Sigma> (panoc_qub_body env \<Sigma> st)
      else Some st)"

text \<open>Lines 172 to 190.\<close>

definition panoc_qub ::
  "('d, 'q) panoc_env \<Rightarrow> PANOCParams \<Rightarrow> vec \<Rightarrow> u32 \<Rightarrow> ('d, 'q) panoc_state
   \<Rightarrow> ('d, 'q) panoc_state option" where
  "panoc_qub env params \<Sigma> k st =
     (let st = st\<lparr>old_gamma_k := gamma_k st\<rparr> in
      if k = 0 \<or> update_lipschitz_in_linesearch params = False
      then panoc_qub_loop env params \<Sigma> st
      else Some st)"

text \<open>Lines 193 to 206: the direction provider is told of a new step size, or
  initialised; the gradient in \<open>x\<^sub>k\<close> hat and the stop criterion.\<close>

definition panoc_stop_crit ::
  "('d, 'q) panoc_env \<Rightarrow> PANOCParams \<Rightarrow> u32 \<Rightarrow> ('d, 'q) panoc_state \<Rightarrow> ('d, 'q) panoc_state" where
  "panoc_stop_crit env params k st =
     (let st = (if k > 0 \<and> r_ne (gamma_k st) (old_gamma_k st)
                then anderson_changed_gamma env params (gamma_k st) (old_gamma_k st)
                       (st\<lparr>direction_provider :=
                            dir_changed_gamma env (direction_provider st)
                              (gamma_k st) (old_gamma_k st)\<rparr>)
                else st);
          st = (if k = 0
                then st\<lparr>direction_provider :=
                          dir_initialize env (direction_provider st)
                            (x_k st) (xhat_k st) (p_k st) (grad_psi_k st)\<rparr>
                else st);
          st = st\<lparr>grad_hat_psi_k :=
                    calc_grad_psi_from_yhat env (xhat_k st) (yhat_xhat_k st)\<rparr>
      in st\<lparr>eps_k := calc_error_stop_crit env (p_k st) (gamma_k st)
                        (grad_hat_psi_k st) (grad_psi_k st)\<rparr>)"

text \<open>Lines 216 to 224: the exit flags that are not those of PGA.\<close>

definition panoc_max_no_progress :: "PANOCParams \<Rightarrow> ('d, 'q) panoc_state \<Rightarrow> bool" where
  "panoc_max_no_progress params st = (no_progress st > lbfgs_mem params)"

definition panoc_exit ::
  "('d, 'q) panoc_env \<Rightarrow> PANOCParams \<Rightarrow> real_t \<Rightarrow> u32 \<Rightarrow> ('d, 'q) panoc_state \<Rightarrow> bool" where
  "panoc_exit env params \<epsilon> k st =
     (conv \<epsilon> st \<or> out_of_iter params k \<or> out_of_time env params k \<or> not_finite st \<or>
      interrupted env k \<or> panoc_max_no_progress params st)"

text \<open>Lines 230 to 244: the results are written when the solver has converged, was
  interrupted, or is asked to; the statistics are filled in.\<close>

definition panoc_exit_block ::
  "('d, 'q) panoc_env \<Rightarrow> PANOCParams \<Rightarrow> vec \<Rightarrow> real_t \<Rightarrow> bool \<Rightarrow> u32
   \<Rightarrow> ('d, 'q) panoc_state \<Rightarrow> ('d, 'q) panoc_state" where
  "panoc_exit_block env params \<Sigma> \<epsilon> always_overwrite_results k st =
     (let st' = (if conv \<epsilon> st \<or> interrupted env k \<or> always_overwrite_results then
                   (let st' = st\<lparr>arg_err_z := calc_err_z env (xhat_k st) (arg_y st) \<Sigma>\<rparr>;
                        st' = st'\<lparr>arg_x := xhat_k st'\<rparr>
                    in st'\<lparr>arg_y := yhat_xhat_k st'\<rparr>)
                 else st)
      in st'\<lparr>stats := (stats st')
              \<lparr>iterations := k, final_eps := eps_k st,
               elapsed_time := time_elapsed_at env k,
               status := exit_status (conv \<epsilon> st) (out_of_time env params k)
                           (out_of_iter params k) (not_finite st)
                           (panoc_max_no_progress params st)\<rparr>\<rparr>)"

text \<open>Lines 248 and 249: the quasi-Newton step.\<close>

definition panoc_apply ::
  "('d, 'q) panoc_env \<Rightarrow> u32 \<Rightarrow> ('d, 'q) panoc_state \<Rightarrow> ('d, 'q) panoc_state" where
  "panoc_apply env k st =
     (if k > 0 then
        (let r = dir_apply env (direction_provider st) (x_k st) (xhat_k st) (p_k st) (q_k st)
         in st\<lparr>direction_provider := fst r, q_k := snd r\<rparr>)
      else st)"


text \<open>Lines 254 to 296: Anderson acceleration. The accelerated point is accepted when the
  objective in its projection is smaller than in \<open>x\<^sub>k\<close> hat.\<close>

definition anderson_first ::
  "('d, 'q) panoc_env \<Rightarrow> ('d, 'q) panoc_state \<Rightarrow> error + ('d, 'q) panoc_state" where
  "anderson_first env st =
     (let st = st\<lparr>r_aa_km1 := scal (- gamma_k st) (grad_psi_k st)\<rparr>;
          st = st\<lparr>y_aa_k := vadd (x_k st) (r_aa_km1 st)\<rparr>
      in if G_aa st = [] then Inl IndexOutOfRange
         else Inr (st\<lparr>G_aa := (G_aa st)[0 := y_aa_k st]\<rparr>))"

definition anderson_minimize ::
  "('d, 'q) panoc_env \<Rightarrow> ('d, 'q) panoc_state \<Rightarrow> error + ('d, 'q) panoc_state" where
  "anderson_minimize env st =
     (let st = st\<lparr>g_aa_k := vsub (x_k st) (scal (gamma_k st) (grad_psi_k st))\<rparr>;
          st = st\<lparr>r_aa_k := vsub (g_aa_k st) (y_aa_k st)\<rparr>;
          r = minimize_update_anderson env (qr st) (G_aa st) (r_aa_k st) (r_aa_km1 st)
                (g_aa_k st) (gamma_aa_LS st) (y_aa_k st);
          st = st\<lparr>qr := fst r, G_aa := fst (snd r), gamma_aa_LS := fst (snd (snd r)),
                  y_aa_k := snd (snd (snd r))\<rparr>
      in if qr_num_columns env (qr st) > length (gamma_aa_LS st) then Inl IndexOutOfRange
         else if \<not> allFinite (take (qr_num_columns env (qr st)) (gamma_aa_LS st)) then
           (let newest_g_idx = qr_ring_tail env (qr st) in
            if newest_g_idx \<noteq> 0 then
              (if newest_g_idx < length (G_aa st)
               then Inr (st\<lparr>G_aa := (G_aa st)[0 := G_aa st ! newest_g_idx],
                            qr := qr_reset env (qr st)\<rparr>)
               else Inl IndexOutOfRange)
            else Inr (st\<lparr>qr := qr_reset env (qr st)\<rparr>))
         else Inr st)"

definition anderson_accept ::
  "('d, 'q) panoc_env \<Rightarrow> vec \<Rightarrow> ('d, 'q) panoc_state \<Rightarrow> ('d, 'q) panoc_state" where
  "anderson_accept env \<Sigma> st =
     (let st = st\<lparr>x_aa_k := project env (y_aa_k st)\<rparr>;
          r = calc_psi_yhat env (x_aa_k st) (arg_y st) \<Sigma>;
          psi_aa_k1 = fst r;
          st = st\<lparr>yhat_aa_k := snd r\<rparr>;
          st = st\<lparr>anderson_accepted := (psi_aa_k1 < psi_xhat_k st)\<rparr>
      in if anderson_accepted st then
           (let st = st\<lparr>xhat_k := x_aa_k st, x_aa_k := xhat_k st\<rparr>;
                st = st\<lparr>p_k := vsub (xhat_k st) (x_k st)\<rparr>;
                st = st\<lparr>psi_xhat_k := psi_aa_k1\<rparr>
            in st\<lparr>grad_hat_psi_k :=
                     calc_grad_psi_from_yhat env (xhat_k st) (yhat_aa_k st)\<rparr>)
         else st)"

definition panoc_anderson ::
  "('d, 'q) panoc_env \<Rightarrow> PANOCParams \<Rightarrow> vec \<Rightarrow> u32 \<Rightarrow> ('d, 'q) panoc_state
   \<Rightarrow> error + ('d, 'q) panoc_state" where
  "panoc_anderson env params \<Sigma> k st =
     (let st = st\<lparr>anderson_accepted := False\<rparr> in
      if anderson_acceleration params \<noteq> 0 then
        (if k = 0 then anderson_first env st
         else (case anderson_minimize env st of
                 Inl e \<Rightarrow> Inl e
               | Inr st \<Rightarrow> Inr (anderson_accept env \<Sigma> st)))
      else Inr st)"

text \<open>Lines 299 to 312: the line search starts from the quasi-Newton step, when there
  is a finite one.\<close>

definition linesearch_init ::
  "('d, 'q) panoc_env \<Rightarrow> u32 \<Rightarrow> ('d, 'q) panoc_state \<Rightarrow> ('d, 'q) panoc_state" where
  "linesearch_init env k st =
     (let st = st\<lparr>tau := Fin 1\<rparr>;
          st = st\<lparr>sigma_norm_gamma_inv_p_k :=
                    sigma_k st * norm_sq_p_k st / (gamma_k st * gamma_k st)\<rparr>
      in if k = 0 then st\<lparr>tau := Fin 0\<rparr>
         else if \<not> allFinite (q_k st) then
           st\<lparr>tau := Fin 0,
              stats := (stats st)\<lparr>lbfgs_failures := lbfgs_failures (stats st) + 1\<rparr>,
              direction_provider := dir_reset env (direction_provider st)\<rparr>
         else st)"

text \<open>Lines 316 to 338: the candidate \<open>x\<^sub>k\<^sub>+\<^sub>1\<close> of a pass of the line search, and the
  projected gradient step from it.\<close>

definition linesearch_candidate ::
  "('d, 'q) panoc_env \<Rightarrow> PANOCParams \<Rightarrow> vec \<Rightarrow> ('d, 'q) panoc_state \<Rightarrow> ('d, 'q) panoc_state" where
  "linesearch_candidate env params \<Sigma> st =
     (let st = st\<lparr>L_k1 := L_k st\<rparr>;
          st = st\<lparr>sigma_k1 := sigma_k st\<rparr>;
          st = st\<lparr>gamma_k1 := gamma_k st\<rparr>;
          st = (if tau st / Fin 2 < tau_min params then
                  (let st = st\<lparr>x_k1 := xhat_k st, xhat_k := x_k1 st\<rparr>;
                       st = st\<lparr>psi_k1 := psi_xhat_k st\<rparr>
                   in st\<lparr>grad_psi_k1 := grad_hat_psi_k st,
                         grad_hat_psi_k := grad_psi_k1 st\<rparr>)
                else
                  (let st = st\<lparr>x_k1 := vadd (vadd (x_k st) (scal (Fin 1 - tau st) (p_k st)))
                                          (scal (tau st) (q_k st))\<rparr>;
                       r = calc_psi_grad_psi env (x_k1 st) (arg_y st) \<Sigma>
                   in st\<lparr>psi_k1 := fst r, grad_psi_k1 := snd r\<rparr>));
          r = calc_xhat env (gamma_k1 st) (x_k1 st) (grad_psi_k1 st);
          st = st\<lparr>xhat_k1 := fst r, p_k1 := snd r\<rparr>;
          r = calc_psi_yhat env (xhat_k1 st) (arg_y st) \<Sigma>;
          st = st\<lparr>psi_xhat_k1 := fst r, yhat_xhat_k1 := snd r\<rparr>;
          st = st\<lparr>grad_psi_k1Tp_k1 := dot (grad_psi_k1 st) (p_k1 st)\<rparr>;
          st = st\<lparr>norm_sq_p_k1 := squaredNorm (p_k1 st)\<rparr>
      in st\<lparr>norm_sq_p_k1_k := norm_sq_p_k1 st\<rparr>)"

text \<open>Lines 343 to 358: the quadratic upper bound loop on the variables of \<open>k + 1\<close>.\<close>

definition panoc_qub_cond_k1 :: "PANOCParams \<Rightarrow> ('d, 'q) panoc_state \<Rightarrow> bool" where
  "panoc_qub_cond_k1 params st =
     (psi_xhat_k1 st - psi_k1 st >
        grad_psi_k1Tp_k1 st + Fin (1/2) * L_k1 st * norm_sq_p_k1 st \<and>
      \<bar>grad_psi_k1Tp_k1 st / psi_k1 st\<bar> > quadratic_upperbound_threshold params)"

definition panoc_qub_body_k1 ::
  "('d, 'q) panoc_env \<Rightarrow> vec \<Rightarrow> ('d, 'q) panoc_state \<Rightarrow> ('d, 'q) panoc_state" where
  "panoc_qub_body_k1 env \<Sigma> st =
     (let st = st\<lparr>L_k1 := L_k1 st * Fin 2\<rparr>;
          st = st\<lparr>sigma_k1 := sigma_k1 st / Fin 2\<rparr>;
          st = st\<lparr>gamma_k1 := gamma_k1 st / Fin 2\<rparr>;
          r = calc_xhat env (gamma_k1 st) (x_k1 st) (grad_psi_k1 st);
          st = st\<lparr>xhat_k1 := fst r, p_k1 := snd r\<rparr>;
          st = st\<lparr>grad_psi_k1Tp_k1 := dot (grad_psi_k1 st) (p_k1 st)\<rparr>;
          st = st\<lparr>norm_sq_p_k1 := squaredNorm (p_k1 st)\<rparr>;
          r = calc_psi_yhat env (xhat_k1 st) (arg_y st) \<Sigma>
      in st\<lparr>psi_xhat_k1 := fst r, yhat_xhat_k1 := snd r\<rparr>)"

partial_function (option) panoc_qub_loop_k1 ::
  "('d, 'q) panoc_env \<Rightarrow> PANOCParams \<Rightarrow> vec \<Rightarrow> ('d, 'q) panoc_state
   \<Rightarrow> ('d, 'q) panoc_state option" where
  "panoc_qub_loop_k1 env params \<Sigma> st =
     (if panoc_qub_cond_k1 params st
      then panoc_qub_loop_k1 env params \<Sigma> (panoc_qub_body_k1 env \<Sigma> st)
      else Some st)"

text \<open>Lines 340 to 364.\<close>

definition linesearch_qub ::
  "('d, 'q) panoc_env \<Rightarrow> PANOCParams \<Rightarrow> vec \<Rightarrow> ('d, 'q) panoc_state
   \<Rightarrow> ('d, 'q) panoc_state option" where
  "linesearch_qub env params \<Sigma> st =
     (if update_lipschitz_in_linesearch params = True then
        (let old_gamma_k1 = gamma_k1 st in
         Option.bind (panoc_qub_loop_k1 env params \<Sigma> st) (\<lambda>st.
           Some (if r_ne (gamma_k1 st) old_gamma_k1
                 then anderson_changed_gamma env params (gamma_k1 st) old_gamma_k1
                        (st\<lparr>direction_provider :=
                              dir_changed_gamma env (direction_provider st)
                                (gamma_k1 st) old_gamma_k1\<rparr>)
                 else st)))
      else Some st)"

text \<open>Lines 367 to 373: the forward-backward envelope and the line search condition.\<close>

definition linesearch_condition ::
  "PANOCParams \<Rightarrow> ('d, 'q) panoc_state \<Rightarrow> ('d, 'q) panoc_state" where
  "linesearch_condition params st =
     (let st = st\<lparr>phi_k1 := psi_k1 st + Fin 1 / (Fin 2 * gamma_k1 st) * norm_sq_p_k1 st
                             + grad_psi_k1Tp_k1 st\<rparr>;
          st = st\<lparr>tau := tau st / Fin 2\<rparr>;
          st = st\<lparr>ls_cond := phi_k1 st - (phi_k st - sigma_norm_gamma_inv_p_k st)\<rparr>
      in if alternative_linesearch_cond params
         then st\<lparr>ls_cond := ls_cond st -
                   (Fin (1/2) / gamma_k1 st - Fin (1/2) / gamma_k st) * norm_sq_p_k1_k st\<rparr>
         else st)"

text \<open>Lines 315 to 374: a pass of the line search, and the loop.\<close>

definition linesearch_pass ::
  "('d, 'q) panoc_env \<Rightarrow> PANOCParams \<Rightarrow> vec \<Rightarrow> ('d, 'q) panoc_state
   \<Rightarrow> ('d, 'q) panoc_state option" where
  "linesearch_pass env params \<Sigma> st =
     Option.bind (linesearch_qub env params \<Sigma> (linesearch_candidate env params \<Sigma> st))
       (\<lambda>st. Some (linesearch_condition params st))"

definition linesearch_again :: "PANOCParams \<Rightarrow> ('d, 'q) panoc_state \<Rightarrow> bool" where
  "linesearch_again params st = (ls_cond st > Fin 0 \<and> tau st \<ge> tau_min params)"

partial_function (option) linesearch_loop ::
  "('d, 'q) panoc_env \<Rightarrow> PANOCParams \<Rightarrow> vec \<Rightarrow> ('d, 'q) panoc_state
   \<Rightarrow> ('d, 'q) panoc_state option" where
  "linesearch_loop env params \<Sigma> st =
     Option.bind (linesearch_pass env params \<Sigma> st) (\<lambda>st.
       if linesearch_again params st then linesearch_loop env params \<Sigma> st else Some st)"

text \<open>Lines 377 to 383: a failed line search is counted, the direction provider updated.\<close>

definition linesearch_failed ::
  "PANOCParams \<Rightarrow> u32 \<Rightarrow> ('d, 'q) panoc_state \<Rightarrow> ('d, 'q) panoc_state" where
  "linesearch_failed params k st =
     (if tau st < tau_min params \<and> k \<noteq> 0
      then st\<lparr>stats := (stats st)
                \<lparr>linesearch_failures := linesearch_failures (stats st) + 1\<rparr>\<rparr>
      else st)"

definition panoc_update_direction ::
  "('d, 'q) panoc_env \<Rightarrow> ('d, 'q) panoc_state \<Rightarrow> ('d, 'q) panoc_state" where
  "panoc_update_direction env st =
     (let r = dir_update env (direction_provider st) (x_k st) (x_k1 st) (p_k st) (p_k1 st)
                (grad_psi_k1 st) (gamma_k1 st)
      in st\<lparr>direction_provider := snd r,
            stats := (stats st)
              \<lparr>lbfgs_rejected := lbfgs_rejected (stats st) + (if fst r then 0 else 1)\<rparr>\<rparr>)"

text \<open>Lines 386 and 387: the no-progress counter. The remainder \<open>k % lbfgs_mem\<close> is
  evaluated when the counter is zero, and has no value when \<open>lbfgs_mem\<close> is zero.\<close>

definition panoc_no_progress ::
  "PANOCParams \<Rightarrow> u32 \<Rightarrow> ('d, 'q) panoc_state \<Rightarrow> error + ('d, 'q) panoc_state" where
  "panoc_no_progress params k st =
     (if no_progress st > 0 then
        Inr (st\<lparr>no_progress :=
                  (if vec_eq (x_k st) (x_k1 st) then no_progress st + 1 else 0)\<rparr>)
      else if lbfgs_mem params = 0 then Inl DivisionByZero
      else if k mod lbfgs_mem params = 0 then
        Inr (st\<lparr>no_progress :=
                  (if vec_eq (x_k st) (x_k1 st) then no_progress st + 1 else 0)\<rparr>)
      else Inr st)"

text \<open>Lines 390 to 397.\<close>

definition anderson_update ::
  "PANOCParams \<Rightarrow> u32 \<Rightarrow> ('d, 'q) panoc_state \<Rightarrow> ('d, 'q) panoc_state" where
  "anderson_update params k st =
     (if k > 0 \<and> anderson_acceleration params \<noteq> 0 then
        (let st = (if anderson_accepted st then st
                   else st\<lparr>y_aa_k := g_aa_k st, g_aa_k := y_aa_k st\<rparr>)
         in st\<lparr>r_aa_k := r_aa_km1 st, r_aa_km1 := r_aa_k st\<rparr>)
      else st)"

text \<open>Lines 400 to 414: the step to \<open>k + 1\<close>.\<close>

definition panoc_advance :: "('d, 'q) panoc_state \<Rightarrow> ('d, 'q) panoc_state" where
  "panoc_advance st =
     (let st = st\<lparr>L_k := L_k1 st\<rparr>;
          st = st\<lparr>sigma_k := sigma_k1 st\<rparr>;
          st = st\<lparr>gamma_k := gamma_k1 st\<rparr>;
          st = st\<lparr>psi_k := psi_k1 st\<rparr>;
          st = st\<lparr>psi_xhat_k := psi_xhat_k1 st\<rparr>;
          st = st\<lparr>phi_k := phi_k1 st\<rparr>;
          st = st\<lparr>x_k := x_k1 st, x_k1 := x_k st\<rparr>;
          st = st\<lparr>xhat_k := xhat_k1 st, xhat_k1 := xhat_k st\<rparr>;
          st = st\<lparr>yhat_xhat_k := yhat_xhat_k1 st, yhat_xhat_k1 := yhat_xhat_k st\<rparr>;
          st = st\<lparr>p_k := p_k1 st, p_k1 := p_k st\<rparr>;
          st = st\<lparr>grad_psi_k := grad_psi_k1 st, grad_psi_k1 := grad_psi_k st\<rparr>;
          st = st\<lparr>grad_psi_kTp_k := grad_psi_k1Tp_k1 st\<rparr>
      in st\<lparr>norm_sq_p_k := norm_sq_p_k1 st\<rparr>)"

text \<open>Lines 248 to 414: iteration \<open>k\<close> after the exit check.\<close>

definition panoc_step ::
  "('d, 'q) panoc_env \<Rightarrow> PANOCParams \<Rightarrow> vec \<Rightarrow> u32 \<Rightarrow> ('d, 'q) panoc_state
   \<Rightarrow> (error + ('d, 'q) panoc_state) option" where
  "panoc_step env params \<Sigma> k st =
     (case panoc_anderson env params \<Sigma> k (panoc_apply env k st) of
        Inl e \<Rightarrow> Some (Inl e)
      | Inr st \<Rightarrow>
          Option.bind (linesearch_loop env params \<Sigma> (linesearch_init env k st)) (\<lambda>st.
            case panoc_no_progress params k
                   (panoc_update_direction env (linesearch_failed params k st)) of
              Inl e \<Rightarrow> Some (Inl e)
            | Inr st \<Rightarrow> Some (Inr (panoc_advance (anderson_update params k st)))))"

text \<open>Lines 168 to 416: the main loop, from iteration \<open>k\<close> on.\<close>

partial_function (option) panoc_loop ::
  "('d, 'q) panoc_env \<Rightarrow> PANOCParams \<Rightarrow> vec \<Rightarrow> real_t \<Rightarrow> bool \<Rightarrow> u32
   \<Rightarrow> ('d, 'q) panoc_state \<Rightarrow> (error + ('d, 'q) panoc_state) option" where
  "panoc_loop env params \<Sigma> \<epsilon> always_overwrite_results k st =
     (if k \<le> max_iter params then
        Option.bind (panoc_qub env params \<Sigma> k st) (\<lambda>st.
          let st = panoc_stop_crit env params k st in
          if panoc_exit env params \<epsilon> k st
          then Some (Inr (panoc_exit_block env params \<Sigma> \<epsilon> always_overwrite_results k st))
          else Option.bind (panoc_step env params \<Sigma> k st) (\<lambda>r.
                 case r of
                   Inl e \<Rightarrow> Some (Inl e)
                 | Inr st \<Rightarrow>
                     panoc_loop env params \<Sigma> \<epsilon> always_overwrite_results (k + 1) st))
      else Some (Inl LogicError))"

text \<open>\<open>PANOCSolver::operator()\<close>, for the direction provider \<open>dp\<close> of the solver: \<open>None\<close> is
  a call that does not return.\<close>

definition PANOC_call ::
  "('d, 'q) panoc_env \<Rightarrow> PANOCParams \<Rightarrow> 'd \<Rightarrow> vec \<Rightarrow> real_t \<Rightarrow> bool \<Rightarrow> vec \<Rightarrow> vec \<Rightarrow> vec
   \<Rightarrow> (error + ('d, 'q) panoc_state) option" where
  "PANOC_call env params dp \<Sigma> \<epsilon> always_overwrite_results x y err_z =
     (let st = panoc_estimate env params \<Sigma>
                 (anderson_alloc env params (panoc_alloc env params dp x y err_z)) in
      if L_k st < epsilon then
        panoc_loop env params \<Sigma> \<epsilon> always_overwrite_results 0
          (panoc_first_step env params \<Sigma> (st\<lparr>L_k := epsilon\<rparr>))
      else if \<not> isfinite (L_k st) then
        Some (Inr (st\<lparr>stats := (stats st)\<lparr>status := NotFinite\<rparr>\<rparr>))
      else
        panoc_loop env params \<Sigma> \<epsilon> always_overwrite_results 0
          (panoc_first_step env params \<Sigma> st))"


section \<open>The points of a solve\<close>

text \<open>
  The states a loop passes through. \<open>loop_points cond body s0 s\<close>: a \<open>while (cond) body\<close>
  loop entered in \<open>s0\<close> is at its head in \<open>s\<close>. \<open>linesearch_passes\<close>: the \<open>do\<close> loop of
  the line search starts a pass in \<open>s\<close>. \<open>panoc_iterates\<close>, \<open>pga_iterates\<close>: the main loop
  entered in \<open>st0\<close> starts iteration \<open>k\<close> in \<open>st\<close>.
\<close>

inductive loop_points :: "('s \<Rightarrow> bool) \<Rightarrow> ('s \<Rightarrow> 's) \<Rightarrow> 's \<Rightarrow> 's \<Rightarrow> bool"
  for cond body s0 where
  entry: "loop_points cond body s0 s0"
| pass: "loop_points cond body s0 s \<Longrightarrow> cond s \<Longrightarrow> loop_points cond body s0 (body s)"

inductive linesearch_passes ::
  "('d, 'q) panoc_env \<Rightarrow> PANOCParams \<Rightarrow> vec \<Rightarrow> ('d, 'q) panoc_state
   \<Rightarrow> ('d, 'q) panoc_state \<Rightarrow> bool"
  for env params \<Sigma> s0 where
  first_pass: "linesearch_passes env params \<Sigma> s0 s0"
| next_pass:
    "linesearch_passes env params \<Sigma> s0 s \<Longrightarrow>
     linesearch_pass env params \<Sigma> s = Some s' \<Longrightarrow>
     linesearch_again params s' \<Longrightarrow>
     linesearch_passes env params \<Sigma> s0 s'"

inductive panoc_iterates ::
  "('d, 'q) panoc_env \<Rightarrow> PANOCParams \<Rightarrow> vec \<Rightarrow> real_t \<Rightarrow> ('d, 'q) panoc_state
   \<Rightarrow> u32 \<Rightarrow> ('d, 'q) panoc_state \<Rightarrow> bool"
  for env params \<Sigma> \<epsilon> st0 where
  panoc_first: "panoc_iterates env params \<Sigma> \<epsilon> st0 0 st0"
| panoc_next:
    "panoc_iterates env params \<Sigma> \<epsilon> st0 k st \<Longrightarrow>
     k \<le> max_iter params \<Longrightarrow>
     panoc_qub env params \<Sigma> k st = Some st1 \<Longrightarrow>
     \<not> panoc_exit env params \<epsilon> k (panoc_stop_crit env params k st1) \<Longrightarrow>
     panoc_step env params \<Sigma> k (panoc_stop_crit env params k st1) = Some (Inr st2) \<Longrightarrow>
     panoc_iterates env params \<Sigma> \<epsilon> st0 (k + 1) st2"

inductive pga_iterates ::
  "'a detail_scheme \<Rightarrow> PGAParams \<Rightarrow> vec \<Rightarrow> real_t \<Rightarrow> pga_state \<Rightarrow> u32 \<Rightarrow> pga_state \<Rightarrow> bool"
  for env params \<Sigma> \<epsilon> st0 where
  pga_first: "pga_iterates env params \<Sigma> \<epsilon> st0 0 st0"
| pga_next:
    "pga_iterates env params \<Sigma> \<epsilon> st0 k st \<Longrightarrow>
     k \<le> max_iter params \<Longrightarrow>
     pga_qub_loop env \<Sigma> (pga_prox env \<Sigma> st) = Some st1 \<Longrightarrow>
     \<not> pga_exit env params \<epsilon> k (pga_stop_crit env st1) \<Longrightarrow>
     pga_iterates env params \<Sigma> \<epsilon> st0 (k + 1) (pga_advance (pga_stop_crit env st1))"

text \<open>The state after the Lipschitz estimate, and the state the main loop is entered in
  when the estimate is finite or below \<open>epsilon\<close>.\<close>

definition panoc_estimated ::
  "('d, 'q) panoc_env \<Rightarrow> PANOCParams \<Rightarrow> 'd \<Rightarrow> vec \<Rightarrow> vec \<Rightarrow> vec \<Rightarrow> vec
   \<Rightarrow> ('d, 'q) panoc_state" where
  "panoc_estimated env params dp \<Sigma> x y err_z =
     panoc_estimate env params \<Sigma>
       (anderson_alloc env params (panoc_alloc env params dp x y err_z))"

definition panoc_entry ::
  "('d, 'q) panoc_env \<Rightarrow> PANOCParams \<Rightarrow> 'd \<Rightarrow> vec \<Rightarrow> vec \<Rightarrow> vec \<Rightarrow> vec
   \<Rightarrow> ('d, 'q) panoc_state" where
  "panoc_entry env params dp \<Sigma> x y err_z =
     (let st = panoc_estimated env params dp \<Sigma> x y err_z
      in panoc_first_step env params \<Sigma>
           (if L_k st < epsilon then st\<lparr>L_k := epsilon\<rparr> else st))"

definition pga_estimated ::
  "'a detail_scheme \<Rightarrow> PGAParams \<Rightarrow> vec \<Rightarrow> vec \<Rightarrow> vec \<Rightarrow> vec \<Rightarrow> pga_state" where
  "pga_estimated env params \<Sigma> x y err_z =
     pga_estimate env params \<Sigma> (pga_alloc env x y err_z)"

definition pga_entry ::
  "'a detail_scheme \<Rightarrow> PGAParams \<Rightarrow> vec \<Rightarrow> vec \<Rightarrow> vec \<Rightarrow> vec \<Rightarrow> pga_state" where
  "pga_entry env params \<Sigma> x y err_z =
     (let st = pga_estimated env params \<Sigma> x y err_z;
          st = (if L_k st < epsilon then st\<lparr>L_k := epsilon\<rparr> else st)
      in st\<lparr>gamma_k := Lgamma_factor (Lipschitz params) / L_k st\<rparr>)"

text \<open>
  What the solvers keep about the iterate (section 3 of the specification): the projected
  gradient step from \<open>x\<^sub>k\<close> with the step size and the gradient held for it, the
  objective and the multiplier estimate in \<open>x\<^sub>k\<close> hat, the inner product and the squared
  norm of the step. \<open>panoc_cached_k1\<close> is the same of the variables of \<open>k + 1\<close>.
\<close>

definition panoc_cached :: "('d, 'q) panoc_env \<Rightarrow> vec \<Rightarrow> ('d, 'q) panoc_state \<Rightarrow> bool" where
  "panoc_cached env \<Sigma> st =
     (xhat_k st = fst (calc_xhat env (gamma_k st) (x_k st) (grad_psi_k st)) \<and>
      p_k st = snd (calc_xhat env (gamma_k st) (x_k st) (grad_psi_k st)) \<and>
      psi_xhat_k st = fst (calc_psi_yhat env (xhat_k st) (arg_y st) \<Sigma>) \<and>
      yhat_xhat_k st = snd (calc_psi_yhat env (xhat_k st) (arg_y st) \<Sigma>) \<and>
      grad_psi_kTp_k st = dot (grad_psi_k st) (p_k st) \<and>
      norm_sq_p_k st = squaredNorm (p_k st))"

definition panoc_cached_k1 :: "('d, 'q) panoc_env \<Rightarrow> vec \<Rightarrow> ('d, 'q) panoc_state \<Rightarrow> bool" where
  "panoc_cached_k1 env \<Sigma> st =
     (xhat_k1 st = fst (calc_xhat env (gamma_k1 st) (x_k1 st) (grad_psi_k1 st)) \<and>
      p_k1 st = snd (calc_xhat env (gamma_k1 st) (x_k1 st) (grad_psi_k1 st)) \<and>
      psi_xhat_k1 st = fst (calc_psi_yhat env (xhat_k1 st) (arg_y st) \<Sigma>) \<and>
      yhat_xhat_k1 st = snd (calc_psi_yhat env (xhat_k1 st) (arg_y st) \<Sigma>) \<and>
      grad_psi_k1Tp_k1 st = dot (grad_psi_k1 st) (p_k1 st) \<and>
      norm_sq_p_k1 st = squaredNorm (p_k1 st))"

definition pga_cached :: "'a detail_scheme \<Rightarrow> vec \<Rightarrow> pga_state \<Rightarrow> bool" where
  "pga_cached env \<Sigma> st =
     (xhat_k st = fst (calc_xhat env (gamma_k st) (x_k st) (grad_psi_k st)) \<and>
      p_k st = snd (calc_xhat env (gamma_k st) (x_k st) (grad_psi_k st)) \<and>
      psi_xhat_k st = fst (calc_psi_yhat env (xhat_k st) (arg_y st) \<Sigma>) \<and>
      yhat_k st = snd (calc_psi_yhat env (xhat_k st) (arg_y st) \<Sigma>) \<and>
      grad_psi_kTp_k st = dot (grad_psi_k st) (p_k st) \<and>
      norm_sq_p_k st = squaredNorm (p_k st))"

text \<open>The state after iteration \<open>k\<close> of PANOC, when the iteration is completed.\<close>

definition panoc_iterate ::
  "('d, 'q) panoc_env \<Rightarrow> PANOCParams \<Rightarrow> vec \<Rightarrow> u32 \<Rightarrow> ('d, 'q) panoc_state
   \<Rightarrow> ('d, 'q) panoc_state" where
  "panoc_iterate env params \<Sigma> k st =
     (case panoc_qub env params \<Sigma> k st of
        None \<Rightarrow> st
      | Some st1 \<Rightarrow>
          (case panoc_step env params \<Sigma> k (panoc_stop_crit env params k st1) of
             Some (Inr st2) \<Rightarrow> st2
           | _ \<Rightarrow> st))"

text \<open>The reference arguments of a call, as they are in a state.\<close>

definition args :: "'a solve_state_scheme \<Rightarrow> vec \<times> vec \<times> vec" where
  "args st = (arg_x st, arg_y st, arg_err_z st)"

text \<open>What the caller sees of a call: the status, and \<open>x\<close>, \<open>y\<close>, \<open>err_z\<close>.\<close>

definition outcome ::
  "(error + 'a solve_state_scheme) option \<Rightarrow> (error + SolverStatus \<times> vec \<times> vec \<times> vec) option" where
  "outcome r =
     map_option (map_sum id (\<lambda>st. (status (stats st), arg_x st, arg_y st, arg_err_z st))) r"

definition is_nan :: "real_t \<Rightarrow> bool" where
  "is_nan a = (a = NaN)"

section \<open>The initial estimate in the words of the specification\<close>

text \<open>Section 4.2 of the specification: the perturbation \<open>h\<^sub>i = max(|x\<^sub>0\<^sub>i| \<cdot> \<epsilon>\<^sub>L, \<delta>\<^sub>L)\<close>
  and \<open>L\<^sub>0 = \<parallel>\<nabla>\<psi>(x\<^sub>0 + h) - \<nabla>\<psi>(x\<^sub>0)\<parallel> / \<parallel>h\<parallel>\<close>.\<close>

definition spec_h :: "LipschitzParams \<Rightarrow> vec \<Rightarrow> vec" where
  "spec_h lip x0 = map (\<lambda>a. r_max (\<bar>a\<bar> * L_eps lip) (L_delta lip)) x0"

definition spec_L0 :: "'a detail_scheme \<Rightarrow> LipschitzParams \<Rightarrow> vec \<Rightarrow> vec \<Rightarrow> vec \<Rightarrow> real_t" where
  "spec_L0 env lip \<Sigma> x0 y =
     norm_vec (vsub (calc_grad_psi env (vadd x0 (spec_h lip x0)) y \<Sigma>)
                    (snd (calc_psi_grad_psi env x0 y \<Sigma>)))
       / norm_vec (spec_h lip x0)"

section \<open>The quadratic upper bound in the words of the specification\<close>

text \<open>Section 7 of the specification: after the quadratic upper bound loop,
  \<open>\<psi>(x hat) - \<psi>(x) \<le> \<langle>\<nabla>\<psi>(x), p\<rangle> + L \<parallel>p\<parallel>\<^sup>2 / 2\<close>, unless the guard
  \<open>|\<langle>\<nabla>\<psi>(x), p\<rangle> / \<psi>(x)| \<le> \<theta>\<close> ends the loop. \<open>qub_is_nan\<close>: one of the four values
  that the loop compares is not a number.\<close>

definition spec_qub ::
  "real_t \<Rightarrow> real_t \<Rightarrow> real_t \<Rightarrow> real_t \<Rightarrow> real_t \<Rightarrow> real_t \<Rightarrow> bool" where
  "spec_qub \<theta> \<psi>_xhat \<psi> gTp L norm_sq_p =
     (\<psi>_xhat - \<psi> \<le> gTp + Fin (1/2) * L * norm_sq_p \<or> \<bar>gTp / \<psi>\<bar> \<le> \<theta>)"

definition qub_is_nan ::
  "real_t \<Rightarrow> real_t \<Rightarrow> real_t \<Rightarrow> real_t \<Rightarrow> real_t \<Rightarrow> real_t \<Rightarrow> bool" where
  "qub_is_nan \<theta> \<psi>_xhat \<psi> gTp L norm_sq_p =
     (is_nan (\<psi>_xhat - \<psi>) \<or> is_nan (gTp + Fin (1/2) * L * norm_sq_p) \<or>
      is_nan \<bar>gTp / \<psi>\<bar> \<or> is_nan \<theta>)"

text \<open>The same of the variables of iteration \<open>k\<close> and of the variables of \<open>k + 1\<close>.\<close>

definition panoc_spec_qub :: "PANOCParams \<Rightarrow> ('d, 'q) panoc_state \<Rightarrow> bool" where
  "panoc_spec_qub params st =
     spec_qub (quadratic_upperbound_threshold params) (psi_xhat_k st) (psi_k st)
       (grad_psi_kTp_k st) (L_k st) (norm_sq_p_k st)"

definition panoc_qub_is_nan :: "PANOCParams \<Rightarrow> ('d, 'q) panoc_state \<Rightarrow> bool" where
  "panoc_qub_is_nan params st =
     qub_is_nan (quadratic_upperbound_threshold params) (psi_xhat_k st) (psi_k st)
       (grad_psi_kTp_k st) (L_k st) (norm_sq_p_k st)"

definition panoc_spec_qub_k1 :: "PANOCParams \<Rightarrow> ('d, 'q) panoc_state \<Rightarrow> bool" where
  "panoc_spec_qub_k1 params st =
     spec_qub (quadratic_upperbound_threshold params) (psi_xhat_k1 st) (psi_k1 st)
       (grad_psi_k1Tp_k1 st) (L_k1 st) (norm_sq_p_k1 st)"

definition panoc_qub_is_nan_k1 :: "PANOCParams \<Rightarrow> ('d, 'q) panoc_state \<Rightarrow> bool" where
  "panoc_qub_is_nan_k1 params st =
     qub_is_nan (quadratic_upperbound_threshold params) (psi_xhat_k1 st) (psi_k1 st)
       (grad_psi_k1Tp_k1 st) (L_k1 st) (norm_sq_p_k1 st)"

section \<open>An example problem\<close>

text \<open>
  Minimise \<open>x\<^sup>4 / 4\<close> over the reals, with one constraint that every \<open>x\<close> meets. The objective
  has a value for \<open>x \<le> ub\<close> and is NaN beyond. The direction provider proposes the
  projected gradient step; the Anderson step extrapolates the last residual. The clock
  reads \<open>elapsed\<close> and the stop signal \<open>stop\<close> at every exit check.
\<close>

definition example_psi :: "real_t \<Rightarrow> vec \<Rightarrow> real_t" where
  "example_psi ub v =
     (if list_ex (\<lambda>a. ub < a) v then NaN
      else foldl (+) (Fin 0) (map (\<lambda>a. a * a * a * a / Fin 4) v))"

definition example_grad :: "vec \<Rightarrow> vec" where
  "example_grad v = map (\<lambda>a. a * a * a) v"

definition norm_inf :: "vec \<Rightarrow> real_t" where
  "norm_inf v = foldl r_max (Fin 0) (cwiseAbs v)"

definition example_env :: "real_t \<Rightarrow> duration \<Rightarrow> bool \<Rightarrow> (unit, unit) panoc_env" where
  "example_env ub elapsed stop =
     \<lparr>prob_n = 1, prob_m = 1,
      calc_psi_yhat = (\<lambda>v y \<Sigma>. (example_psi ub v, map (\<lambda>a. Fin 0) y)),
      calc_psi_grad_psi = (\<lambda>v y \<Sigma>. (example_psi ub v, example_grad v)),
      calc_grad_psi = (\<lambda>v y \<Sigma>. example_grad v),
      calc_grad_psi_from_yhat = (\<lambda>v yhat. example_grad v),
      calc_xhat = (\<lambda>g v grad. (vsub v (scal g grad), vsub (vsub v (scal g grad)) v)),
      calc_err_z = (\<lambda>v y \<Sigma>. map2 (\<lambda>a b. - (a / b)) y \<Sigma>),
      calc_error_stop_crit =
        (\<lambda>p g grad_hat grad. norm_inf (vadd (scal (Fin 1 / g) p) (vsub grad grad_hat))),
      time_elapsed_at = (\<lambda>k. elapsed),
      stop_requested_at = (\<lambda>k. stop),
      indeterminate = NaN,
      indeterminate_duration = 0,
      project = (\<lambda>v. v),
      dir_resize = (\<lambda>d n mem. d),
      dir_initialize = (\<lambda>d v vhat p grad. d),
      dir_apply = (\<lambda>d v vhat p q. (d, p)),
      dir_update = (\<lambda>d v v1 p p1 grad1 g. (True, d)),
      dir_changed_gamma = (\<lambda>d g old_g. d),
      dir_reset = (\<lambda>d. d),
      minimize_update_anderson = (\<lambda>q G r r_prev g g_LS y. (q, G[0 := g], g_LS, vadd g r)),
      new_qr = (),
      qr_resize = (\<lambda>q n mem. q),
      qr_num_columns = (\<lambda>q. 0),
      qr_ring_tail = (\<lambda>q. 0),
      qr_reset = (\<lambda>q. q),
      qr_scale_R = (\<lambda>q c. q)\<rparr>"

definition example_params :: PANOCParams where
  "example_params =
     \<lparr>Lipschitz = \<lparr>L_eps = Fin (1 / 10 ^ 6), L_delta = Fin 1, Lgamma_factor = Fin (1/2)\<rparr>,
      max_iter = 100, max_time = 300000000, print_interval = 0,
      lbfgs_mem = 10, tau_min = Fin (1/256),
      quadratic_upperbound_threshold = Fin (1 / 10 ^ 10),
      update_lipschitz_in_linesearch = False, alternative_linesearch_cond = False,
      anderson_acceleration = 0\<rparr>"

definition example_pga_params :: PGAParams where
  "example_pga_params =
     \<lparr>Lipschitz = \<lparr>L_eps = Fin (1 / 10 ^ 6), L_delta = Fin 1, Lgamma_factor = Fin (1/2)\<rparr>,
      max_iter = 100, max_time = 300000000, print_interval = 0\<rparr>"


text \<open>PANOC on the example from \<open>x\<^sub>0 = -1\<close>, with Anderson acceleration: the state in which
  the main loop is entered, and the state in the second iteration (\<open>k = 1\<close>) when the
  quasi-Newton step has been computed.\<close>

definition example_first :: "(unit, unit) panoc_state" where
  "example_first =
     panoc_entry (example_env PInf 0 False) (example_params\<lparr>anderson_acceleration := 1\<rparr>) ()
       [Fin 1] [Fin (- 1)] [Fin 1] [Fin 7]"

definition example_second :: "(unit, unit) panoc_state" where
  "example_second =
     panoc_apply (example_env PInf 0 False) 1
       (panoc_stop_crit (example_env PInf 0 False)
          (example_params\<lparr>anderson_acceleration := 1\<rparr>) 1
          (the (panoc_qub (example_env PInf 0 False)
                  (example_params\<lparr>anderson_acceleration := 1\<rparr>) [Fin 1] 1
                  (panoc_iterate (example_env PInf 0 False)
                     (example_params\<lparr>anderson_acceleration := 1\<rparr>) [Fin 1] 0
                     example_first))))"

text \<open>The example when the line search of its second iteration begins (line 299).\<close>

definition example_search :: "(unit, unit) panoc_state" where
  "example_search =
     (case panoc_anderson (example_env PInf 0 False)
             (example_params\<lparr>anderson_acceleration := 1\<rparr>) [Fin 1] 1 example_second of
        Inr st \<Rightarrow> st
      | Inl e \<Rightarrow> example_second)"

section \<open>Unfolding the model\<close>

lemmas real_t_ops =
  plus_real_t_def uminus_real_t_def minus_real_t_def times_real_t_def divide_real_t_def
  abs_real_t_def less_real_t_def less_eq_real_t_def r_ne_def

lemmas vec_ops = vadd_def vsub_def scal_def vscale_def cwiseAbs_def cwiseMax_def r_max_def
  dot_def squaredNorm_def norm_vec_def allFinite_def vec_eq_def

lemmas flag_defs = conv_def out_of_time_def out_of_iter_def interrupted_def not_finite_def
  panoc_max_no_progress_def pga_max_no_progress_def panoc_exit_def pga_exit_def

lemmas example_defs = example_env_def example_psi_def example_grad_def norm_inf_def
  example_params_def example_pga_params_def

lemmas common_defs = uninit_vec_def new_Stats_def exit_status_def

lemmas panoc_block_defs =
  panoc_alloc_def anderson_alloc_def m_aa_def
  anderson_changed_gamma_def panoc_estimate_def panoc_first_step_def
  panoc_qub_cond_def panoc_qub_body_def panoc_qub_def panoc_stop_crit_def
  panoc_exit_block_def panoc_apply_def anderson_first_def
  anderson_minimize_def anderson_accept_def panoc_anderson_def linesearch_init_def
  linesearch_candidate_def panoc_qub_cond_k1_def panoc_qub_body_k1_def linesearch_qub_def
  linesearch_condition_def linesearch_pass_def linesearch_again_def linesearch_failed_def
  panoc_update_direction_def panoc_no_progress_def anderson_update_def panoc_advance_def
  panoc_step_def panoc_estimated_def panoc_entry_def

lemmas pga_block_defs =
  pga_alloc_def pga_estimate_def pga_qub_cond_def pga_prox_def
  pga_qub_body_def pga_stop_crit_def pga_exit_block_def pga_advance_def
  pga_estimated_def pga_entry_def

text \<open>The loops, one pass at a time.\<close>

lemma pga_qub_loop_unfold:
  "pga_qub_cond st \<Longrightarrow>
   pga_qub_loop env \<Sigma> st = pga_qub_loop env \<Sigma> (pga_qub_body env \<Sigma> st)"
  "\<not> pga_qub_cond st \<Longrightarrow> pga_qub_loop env \<Sigma> st = Some st"
  by (subst pga_qub_loop.simps, simp)+

lemma panoc_qub_loop_unfold:
  "panoc_qub_cond params st \<Longrightarrow>
   panoc_qub_loop env params \<Sigma> st = panoc_qub_loop env params \<Sigma> (panoc_qub_body env \<Sigma> st)"
  "\<not> panoc_qub_cond params st \<Longrightarrow> panoc_qub_loop env params \<Sigma> st = Some st"
  by (subst panoc_qub_loop.simps, simp)+

lemma panoc_qub_loop_k1_unfold:
  "panoc_qub_cond_k1 params st \<Longrightarrow>
   panoc_qub_loop_k1 env params \<Sigma> st =
     panoc_qub_loop_k1 env params \<Sigma> (panoc_qub_body_k1 env \<Sigma> st)"
  "\<not> panoc_qub_cond_k1 params st \<Longrightarrow> panoc_qub_loop_k1 env params \<Sigma> st = Some st"
  by (subst panoc_qub_loop_k1.simps, simp)+

lemma linesearch_loop_unfold:
  "linesearch_pass env params \<Sigma> st = Some st1 \<Longrightarrow> linesearch_again params st1 \<Longrightarrow>
   linesearch_loop env params \<Sigma> st = linesearch_loop env params \<Sigma> st1"
  "linesearch_pass env params \<Sigma> st = Some st1 \<Longrightarrow> \<not> linesearch_again params st1 \<Longrightarrow>
   linesearch_loop env params \<Sigma> st = Some st1"
  by (subst linesearch_loop.simps, simp)+

lemma panoc_loop_unfold:
  "k \<le> max_iter params \<Longrightarrow> panoc_qub env params \<Sigma> k st = Some st1 \<Longrightarrow>
   panoc_exit env params \<epsilon> k (panoc_stop_crit env params k st1) \<Longrightarrow>
   panoc_loop env params \<Sigma> \<epsilon> ow k st =
     Some (Inr (panoc_exit_block env params \<Sigma> \<epsilon> ow k (panoc_stop_crit env params k st1)))"
  "k \<le> max_iter params \<Longrightarrow> panoc_qub env params \<Sigma> k st = Some st1 \<Longrightarrow>
   \<not> panoc_exit env params \<epsilon> k (panoc_stop_crit env params k st1) \<Longrightarrow>
   panoc_step env params \<Sigma> k (panoc_stop_crit env params k st1) = Some (Inr st2) \<Longrightarrow>
   panoc_loop env params \<Sigma> \<epsilon> ow k st = panoc_loop env params \<Sigma> \<epsilon> ow (k + 1) st2"
  by (subst panoc_loop.simps, simp add: Let_def)+

lemma pga_loop_unfold:
  "k \<le> max_iter params \<Longrightarrow> pga_qub_loop env \<Sigma> (pga_prox env \<Sigma> st) = Some st1 \<Longrightarrow>
   pga_exit env params \<epsilon> k (pga_stop_crit env st1) \<Longrightarrow>
   pga_loop env params \<Sigma> \<epsilon> k st =
     Some (Inr (pga_exit_block env params \<Sigma> \<epsilon> k (pga_stop_crit env st1)))"
  "k \<le> max_iter params \<Longrightarrow> pga_qub_loop env \<Sigma> (pga_prox env \<Sigma> st) = Some st1 \<Longrightarrow>
   \<not> pga_exit env params \<epsilon> k (pga_stop_crit env st1) \<Longrightarrow>
   pga_loop env params \<Sigma> \<epsilon> k st =
     pga_loop env params \<Sigma> \<epsilon> (k + 1) (pga_advance (pga_stop_crit env st1))"
  by (subst pga_loop.simps, simp add: Let_def)+

section \<open>Invariants of the loops\<close>

text \<open>What holds when a loop is entered and is kept by every pass holds at every point
  of the loop, and when the loop is left.\<close>

lemma loop_points_invariant:
  assumes "loop_points cond body s0 s" and "I s0"
    and "\<And>s. I s \<Longrightarrow> cond s \<Longrightarrow> I (body s)"
  shows "I s"
  using assms by (induction rule: loop_points.induct) auto

lemma pga_qub_loop_points:
  assumes "pga_qub_loop env \<Sigma> st = Some st'"
  shows "loop_points pga_qub_cond (pga_qub_body env \<Sigma>) st st' \<and> \<not> pga_qub_cond st'"
proof -
  have "\<forall>s0. loop_points pga_qub_cond (pga_qub_body env \<Sigma>) s0 st \<longrightarrow>
          loop_points pga_qub_cond (pga_qub_body env \<Sigma>) s0 st' \<and> \<not> pga_qub_cond st'"
    using assms
  proof (induction rule: pga_qub_loop.raw_induct[rotated 1, consumes 1, case_names step])
    case (step loop env \<Sigma> st st')
    show ?case
    proof (cases "pga_qub_cond st")
      case True
      with step.hyps have "loop env \<Sigma> (pga_qub_body env \<Sigma> st) = Some st'" by simp
      from step.IH [OF this] True show ?thesis
        by (auto intro: loop_points.pass)
    next
      case False
      with step.hyps show ?thesis by auto
    qed
  qed
  then show ?thesis by (auto intro: loop_points.entry)
qed

lemma panoc_qub_loop_points:
  assumes "panoc_qub_loop env params \<Sigma> st = Some st'"
  shows "loop_points (panoc_qub_cond params) (panoc_qub_body env \<Sigma>) st st' \<and>
         \<not> panoc_qub_cond params st'"
proof -
  have "\<forall>s0. loop_points (panoc_qub_cond params) (panoc_qub_body env \<Sigma>) s0 st \<longrightarrow>
          loop_points (panoc_qub_cond params) (panoc_qub_body env \<Sigma>) s0 st' \<and>
          \<not> panoc_qub_cond params st'"
    using assms
  proof (induction rule: panoc_qub_loop.raw_induct[rotated 1, consumes 1, case_names step])
    case (step loop env params \<Sigma> st st')
    show ?case
    proof (cases "panoc_qub_cond params st")
      case True
      with step.hyps have "loop env params \<Sigma> (panoc_qub_body env \<Sigma> st) = Some st'" by simp
      from step.IH [OF this] True show ?thesis
        by (auto intro: loop_points.pass)
    next
      case False
      with step.hyps show ?thesis by auto
    qed
  qed
  then show ?thesis by (auto intro: loop_points.entry)
qed

lemma panoc_qub_loop_k1_points:
  assumes "panoc_qub_loop_k1 env params \<Sigma> st = Some st'"
  shows "loop_points (panoc_qub_cond_k1 params) (panoc_qub_body_k1 env \<Sigma>) st st' \<and>
         \<not> panoc_qub_cond_k1 params st'"
proof -
  have "\<forall>s0. loop_points (panoc_qub_cond_k1 params) (panoc_qub_body_k1 env \<Sigma>) s0 st \<longrightarrow>
          loop_points (panoc_qub_cond_k1 params) (panoc_qub_body_k1 env \<Sigma>) s0 st' \<and>
          \<not> panoc_qub_cond_k1 params st'"
    using assms
  proof (induction rule: panoc_qub_loop_k1.raw_induct[rotated 1, consumes 1, case_names step])
    case (step loop env params \<Sigma> st st')
    show ?case
    proof (cases "panoc_qub_cond_k1 params st")
      case True
      with step.hyps have "loop env params \<Sigma> (panoc_qub_body_k1 env \<Sigma> st) = Some st'"
        by simp
      from step.IH [OF this] True show ?thesis
        by (auto intro: loop_points.pass)
    next
      case False
      with step.hyps show ?thesis by auto
    qed
  qed
  then show ?thesis by (auto intro: loop_points.entry)
qed

lemma linesearch_loop_passes:
  assumes "linesearch_loop env params \<Sigma> st = Some st'"
  shows "\<exists>s. linesearch_passes env params \<Sigma> st s \<and>
             linesearch_pass env params \<Sigma> s = Some st' \<and> \<not> linesearch_again params st'"
proof -
  have "\<forall>s0. linesearch_passes env params \<Sigma> s0 st \<longrightarrow>
          (\<exists>s. linesearch_passes env params \<Sigma> s0 s \<and>
               linesearch_pass env params \<Sigma> s = Some st' \<and> \<not> linesearch_again params st')"
    using assms
  proof (induction rule: linesearch_loop.raw_induct[rotated 1, consumes 1, case_names step])
    case (step loop env params \<Sigma> st st')
    from step.hyps obtain st1 where pass: "linesearch_pass env params \<Sigma> st = Some st1"
      and rest: "(if linesearch_again params st1 then loop env params \<Sigma> st1 else Some st1)
                 = Some st'"
      by (auto split: Option.bind_splits)
    show ?case
    proof (cases "linesearch_again params st1")
      case True
      with rest have "loop env params \<Sigma> st1 = Some st'" by simp
      from step.IH [OF this] pass True show ?thesis
        by (blast intro: linesearch_passes.next_pass)
    next
      case False
      with rest pass show ?thesis by auto
    qed
  qed
  then show ?thesis by (blast intro: linesearch_passes.first_pass)
qed

lemma panoc_loop_iterates:
  assumes "panoc_loop env params \<Sigma> \<epsilon> ow k st = Some r"
  shows "\<forall>st0 st'. panoc_iterates env params \<Sigma> \<epsilon> st0 k st \<longrightarrow> r = Inr st' \<longrightarrow>
           (\<exists>k' s s1. panoc_iterates env params \<Sigma> \<epsilon> st0 k' s \<and> k' \<le> max_iter params \<and>
              panoc_qub env params \<Sigma> k' s = Some s1 \<and>
              panoc_exit env params \<epsilon> k' (panoc_stop_crit env params k' s1) \<and>
              st' = panoc_exit_block env params \<Sigma> \<epsilon> ow k'
                      (panoc_stop_crit env params k' s1))"
  using assms
proof (induction rule: panoc_loop.raw_induct[rotated 1, consumes 1, case_names step])
  case (step loop env params \<Sigma> \<epsilon> ow k st r)
  show ?case
  proof (intro allI impI)
    fix st0 st'
    assume it: "panoc_iterates env params \<Sigma> \<epsilon> st0 k st" and r: "r = Inr st'"
    from step.hyps r have k: "k \<le> max_iter params"
      by (auto split: if_splits)
    with step.hyps obtain s1 where qub: "panoc_qub env params \<Sigma> k st = Some s1"
      and rest: "(if panoc_exit env params \<epsilon> k (panoc_stop_crit env params k s1)
          then Some (Inr (panoc_exit_block env params \<Sigma> \<epsilon> ow k
                            (panoc_stop_crit env params k s1)))
          else Option.bind (panoc_step env params \<Sigma> k (panoc_stop_crit env params k s1))
                 (\<lambda>r. case r of Inl e \<Rightarrow> Some (Inl e)
                       | Inr st \<Rightarrow> loop env params \<Sigma> \<epsilon> ow (k + 1) st)) = Some r"
      by (auto simp: Let_def split: Option.bind_splits)
    show "\<exists>k' s s1. panoc_iterates env params \<Sigma> \<epsilon> st0 k' s \<and> k' \<le> max_iter params \<and>
              panoc_qub env params \<Sigma> k' s = Some s1 \<and>
              panoc_exit env params \<epsilon> k' (panoc_stop_crit env params k' s1) \<and>
              st' = panoc_exit_block env params \<Sigma> \<epsilon> ow k'
                      (panoc_stop_crit env params k' s1)"
    proof (cases "panoc_exit env params \<epsilon> k (panoc_stop_crit env params k s1)")
      case True
      with rest r have "st' = panoc_exit_block env params \<Sigma> \<epsilon> ow k
                                (panoc_stop_crit env params k s1)"
        by simp
      with it k qub True show ?thesis by blast
    next
      case False
      with rest r obtain st2 where
        stp: "panoc_step env params \<Sigma> k (panoc_stop_crit env params k s1) = Some (Inr st2)"
        and rec: "loop env params \<Sigma> \<epsilon> ow (k + 1) st2 = Some r"
        by (auto split: Option.bind_splits sum.splits)
      from it k qub False stp have "panoc_iterates env params \<Sigma> \<epsilon> st0 (k + 1) st2"
        by (rule panoc_iterates.panoc_next)
      with step.IH [OF rec] r show ?thesis by blast
    qed
  qed
qed

lemma pga_loop_iterates:
  assumes "pga_loop env params \<Sigma> \<epsilon> k st = Some r"
  shows "\<forall>st0 st'. pga_iterates env params \<Sigma> \<epsilon> st0 k st \<longrightarrow> r = Inr st' \<longrightarrow>
           (\<exists>k' s s1. pga_iterates env params \<Sigma> \<epsilon> st0 k' s \<and> k' \<le> max_iter params \<and>
              pga_qub_loop env \<Sigma> (pga_prox env \<Sigma> s) = Some s1 \<and>
              pga_exit env params \<epsilon> k' (pga_stop_crit env s1) \<and>
              st' = pga_exit_block env params \<Sigma> \<epsilon> k' (pga_stop_crit env s1))"
  using assms
proof (induction rule: pga_loop.raw_induct[rotated 1, consumes 1, case_names step])
  case (step loop env params \<Sigma> \<epsilon> k st r)
  show ?case
  proof (intro allI impI)
    fix st0 st'
    assume it: "pga_iterates env params \<Sigma> \<epsilon> st0 k st" and r: "r = Inr st'"
    from step.hyps r have k: "k \<le> max_iter params"
      by (auto split: if_splits)
    with step.hyps obtain s1 where qub: "pga_qub_loop env \<Sigma> (pga_prox env \<Sigma> st) = Some s1"
      and rest: "(if pga_exit env params \<epsilon> k (pga_stop_crit env s1)
          then Some (Inr (pga_exit_block env params \<Sigma> \<epsilon> k (pga_stop_crit env s1)))
          else loop env params \<Sigma> \<epsilon> (k + 1) (pga_advance (pga_stop_crit env s1))) = Some r"
      by (auto simp: Let_def split: Option.bind_splits)
    show "\<exists>k' s s1. pga_iterates env params \<Sigma> \<epsilon> st0 k' s \<and> k' \<le> max_iter params \<and>
              pga_qub_loop env \<Sigma> (pga_prox env \<Sigma> s) = Some s1 \<and>
              pga_exit env params \<epsilon> k' (pga_stop_crit env s1) \<and>
              st' = pga_exit_block env params \<Sigma> \<epsilon> k' (pga_stop_crit env s1)"
    proof (cases "pga_exit env params \<epsilon> k (pga_stop_crit env s1)")
      case True
      with rest r have "st' = pga_exit_block env params \<Sigma> \<epsilon> k (pga_stop_crit env s1)"
        by simp
      with it k qub True show ?thesis by blast
    next
      case False
      with rest have rec: "loop env params \<Sigma> \<epsilon> (k + 1) (pga_advance (pga_stop_crit env s1))
                           = Some r"
        by simp
      from it k qub False
      have "pga_iterates env params \<Sigma> \<epsilon> st0 (k + 1) (pga_advance (pga_stop_crit env s1))"
        by (rule pga_iterates.pga_next)
      with step.IH [OF rec] r show ?thesis by blast
    qed
  qed
qed

text \<open>A call that returns from its main loop has left it through the exit block of an
  iteration.\<close>

lemma panoc_loop_exit:
  assumes "panoc_loop env params \<Sigma> \<epsilon> ow 0 st0 = Some (Inr st')"
  obtains k s s1 where "panoc_iterates env params \<Sigma> \<epsilon> st0 k s" and "k \<le> max_iter params"
    and "panoc_qub env params \<Sigma> k s = Some s1"
    and "panoc_exit env params \<epsilon> k (panoc_stop_crit env params k s1)"
    and "st' = panoc_exit_block env params \<Sigma> \<epsilon> ow k (panoc_stop_crit env params k s1)"
  using panoc_loop_iterates [OF assms] panoc_iterates.panoc_first [of env params \<Sigma> \<epsilon> st0]
  by blast

lemma pga_loop_exit:
  assumes "pga_loop env params \<Sigma> \<epsilon> 0 st0 = Some (Inr st')"
  obtains k s s1 where "pga_iterates env params \<Sigma> \<epsilon> st0 k s" and "k \<le> max_iter params"
    and "pga_qub_loop env \<Sigma> (pga_prox env \<Sigma> s) = Some s1"
    and "pga_exit env params \<epsilon> k (pga_stop_crit env s1)"
    and "st' = pga_exit_block env params \<Sigma> \<epsilon> k (pga_stop_crit env s1)"
  using pga_loop_iterates [OF assms] pga_iterates.pga_first [of env params \<Sigma> \<epsilon> st0]
  by blast

section \<open>The returned status\<close>

lemma panoc_exit_block_simps:
  "eps_k (panoc_exit_block env params \<Sigma> \<epsilon> ow k st) = eps_k st"
  "no_progress (panoc_exit_block env params \<Sigma> \<epsilon> ow k st) = no_progress st"
  "iterations (stats (panoc_exit_block env params \<Sigma> \<epsilon> ow k st)) = k"
  "status (stats (panoc_exit_block env params \<Sigma> \<epsilon> ow k st)) =
     exit_status (conv \<epsilon> st) (out_of_time env params k) (out_of_iter params k)
       (not_finite st) (panoc_max_no_progress params st)"
  by (simp_all add: panoc_exit_block_def Let_def)

lemma pga_exit_block_simps:
  "eps_k (pga_exit_block env params \<Sigma> \<epsilon> k st) = eps_k st"
  "no_progress (pga_exit_block env params \<Sigma> \<epsilon> k st) = no_progress st"
  "iterations (stats (pga_exit_block env params \<Sigma> \<epsilon> k st)) = k"
  "status (stats (pga_exit_block env params \<Sigma> \<epsilon> k st)) =
     exit_status (conv \<epsilon> st) (out_of_time env params k) (out_of_iter params k)
       (not_finite st) (pga_max_no_progress st)"
  by (simp_all add: pga_exit_block_def Let_def)

text \<open>The example, stopped at its first exit check.\<close>

lemma example_panoc_first_exit:
  "\<exists>st'. panoc_loop (example_env PInf elapsed stop)
            (example_params\<lparr>max_iter := 0, max_time := 0\<rparr>) [Fin 1] (Fin (1/1000)) ow 0
            (panoc_entry (example_env PInf elapsed stop)
               (example_params\<lparr>max_iter := 0, max_time := 0\<rparr>) ()
               [Fin 1] [Fin (- 1)] [Fin 1] [Fin 7]) = Some (Inr st') \<and>
     eps_k st' = Fin (343 / 512) \<and> no_progress st' = 0 \<and> iterations (stats st') = 0 \<and>
     arg_x st' = (if stop \<or> ow then [Fin (- (7/8))] else [Fin (- 1)]) \<and>
     arg_y st' = (if stop \<or> ow then [Fin 0] else [Fin 1]) \<and>
     arg_err_z st' = (if stop \<or> ow then [Fin (- 1)] else [Fin 7])"
  by (simp add: panoc_loop.simps[of _ _ _ _ _ 0] common_defs panoc_block_defs example_defs
        Let_def vec_ops real_t_ops epsilon_def panoc_qub_loop_unfold flag_defs)

lemma example_pga_first_exit:
  "\<exists>st'. pga_loop (example_env PInf elapsed stop)
            (example_pga_params\<lparr>max_iter := 0, max_time := 0\<rparr>) [Fin 1] (Fin (1/1000)) 0
            (pga_entry (example_env PInf elapsed stop)
               (example_pga_params\<lparr>max_iter := 0, max_time := 0\<rparr>)
               [Fin 1] [Fin (- 1)] [Fin 1] [Fin 7]) = Some (Inr st') \<and>
     eps_k st' = Fin (343 / 512) \<and> no_progress st' = 0 \<and> iterations (stats st') = 0 \<and>
     arg_x st' = [Fin (- (7/8))] \<and> arg_y st' = [Fin 0] \<and> arg_err_z st' = [Fin (- 1)]"
  by (simp add: pga_loop.simps[of _ _ _ _ 0] common_defs pga_block_defs example_defs
        Let_def vec_ops real_t_ops epsilon_def pga_qub_loop_unfold flag_defs)

text \<open>
  C1, as amended. A call that returns from the main loop returns from the exit block of
  an iteration \<open>k\<close> in which one of the six exit flags holds, and its status is the first
  that applies of: converged, out of time, out of iterations, not finite, no progress,
  interrupted. The flags are those of the returned iteration: the exit block keeps
  \<open>eps_k\<close> and \<open>no_progress\<close>, and \<open>iterations\<close> is \<open>k\<close>.
\<close>

theorem exit_status_priority:
  "(panoc_loop env params \<Sigma> \<epsilon> ow 0 st0 = Some (Inr st') \<longrightarrow>
      panoc_exit env params \<epsilon> (iterations (stats st')) st' \<and>
      status (stats st') =
        (if conv \<epsilon> st' then Converged
         else if out_of_time env params (iterations (stats st')) then MaxTime
         else if out_of_iter params (iterations (stats st')) then MaxIter
         else if not_finite st' then NotFinite
         else if panoc_max_no_progress params st' then NoProgress
         else Interrupted)) \<and>
   (pga_loop penv pparams \<Sigma> \<epsilon> 0 pst0 = Some (Inr pst') \<longrightarrow>
      pga_exit penv pparams \<epsilon> (iterations (stats pst')) pst' \<and>
      status (stats pst') =
        (if conv \<epsilon> pst' then Converged
         else if out_of_time penv pparams (iterations (stats pst')) then MaxTime
         else if out_of_iter pparams (iterations (stats pst')) then MaxIter
         else if not_finite pst' then NotFinite
         else if pga_max_no_progress pst' then NoProgress
         else Interrupted))"
proof (intro conjI impI)
  assume "panoc_loop env params \<Sigma> \<epsilon> ow 0 st0 = Some (Inr st')"
  then obtain k s1 where
    ex: "panoc_exit env params \<epsilon> k (panoc_stop_crit env params k s1)"
    and st': "st' = panoc_exit_block env params \<Sigma> \<epsilon> ow k (panoc_stop_crit env params k s1)"
    by (rule panoc_loop_exit)
  from ex show "panoc_exit env params \<epsilon> (iterations (stats st')) st'"
    by (simp add: st' panoc_exit_block_simps flag_defs)
  show "status (stats st') =
        (if conv \<epsilon> st' then Converged
         else if out_of_time env params (iterations (stats st')) then MaxTime
         else if out_of_iter params (iterations (stats st')) then MaxIter
         else if not_finite st' then NotFinite
         else if panoc_max_no_progress params st' then NoProgress
         else Interrupted)"
    by (simp add: st' panoc_exit_block_simps flag_defs exit_status_def)
next
  assume "pga_loop penv pparams \<Sigma> \<epsilon> 0 pst0 = Some (Inr pst')"
  then obtain k s1 where
    ex: "pga_exit penv pparams \<epsilon> k (pga_stop_crit penv s1)"
    and st': "pst' = pga_exit_block penv pparams \<Sigma> \<epsilon> k (pga_stop_crit penv s1)"
    by (rule pga_loop_exit)
  from ex show "pga_exit penv pparams \<epsilon> (iterations (stats pst')) pst'"
    by (simp add: st' pga_exit_block_simps flag_defs)
  show "status (stats pst') =
        (if conv \<epsilon> pst' then Converged
         else if out_of_time penv pparams (iterations (stats pst')) then MaxTime
         else if out_of_iter pparams (iterations (stats pst')) then MaxIter
         else if not_finite pst' then NotFinite
         else if pga_max_no_progress pst' then NoProgress
         else Interrupted)"
    by (simp add: st' pga_exit_block_simps flag_defs exit_status_def)
qed

text \<open>The example with no iteration and no time left, and the stop signal set: both
  solvers return \<open>MaxTime\<close>.\<close>

theorem exit_status_priority_witness:
  "map_option (map_sum id (\<lambda>st. status (stats st)))
     (panoc_loop (example_env PInf 1 True) (example_params\<lparr>max_iter := 0, max_time := 0\<rparr>)
        [Fin 1] (Fin (1/1000)) False 0
        (panoc_entry (example_env PInf 1 True) (example_params\<lparr>max_iter := 0, max_time := 0\<rparr>)
           () [Fin 1] [Fin (- 1)] [Fin 1] [Fin 7])) = Some (Inr MaxTime) \<and>
   map_option (map_sum id (\<lambda>st. status (stats st)))
     (pga_loop (example_env PInf 1 True) (example_pga_params\<lparr>max_iter := 0, max_time := 0\<rparr>)
        [Fin 1] (Fin (1/1000)) 0
        (pga_entry (example_env PInf 1 True) (example_pga_params\<lparr>max_iter := 0, max_time := 0\<rparr>)
           [Fin 1] [Fin (- 1)] [Fin 1] [Fin 7])) = Some (Inr MaxTime)"
proof -
  obtain st' where run: "panoc_loop (example_env PInf 1 True)
        (example_params\<lparr>max_iter := 0, max_time := 0\<rparr>) [Fin 1] (Fin (1/1000)) False 0
        (panoc_entry (example_env PInf 1 True) (example_params\<lparr>max_iter := 0, max_time := 0\<rparr>)
           () [Fin 1] [Fin (- 1)] [Fin 1] [Fin 7]) = Some (Inr st')"
    and st': "eps_k st' = Fin (343 / 512)" "iterations (stats st') = 0"
    using example_panoc_first_exit [of 1 True False] by blast
  obtain pst' where prun: "pga_loop (example_env PInf 1 True)
        (example_pga_params\<lparr>max_iter := 0, max_time := 0\<rparr>) [Fin 1] (Fin (1/1000)) 0
        (pga_entry (example_env PInf 1 True) (example_pga_params\<lparr>max_iter := 0, max_time := 0\<rparr>)
           [Fin 1] [Fin (- 1)] [Fin 1] [Fin 7]) = Some (Inr pst')"
    and pst': "eps_k pst' = Fin (343 / 512)" "iterations (stats pst') = 0"
    using example_pga_first_exit [of 1 True] by blast
  from exit_status_priority [of "example_env PInf 1 True"
      "example_params\<lparr>max_iter := 0, max_time := 0\<rparr>" "[Fin 1]" "Fin (1/1000)" False
      "panoc_entry (example_env PInf 1 True) (example_params\<lparr>max_iter := 0, max_time := 0\<rparr>)
         () [Fin 1] [Fin (- 1)] [Fin 1] [Fin 7]" st'
      "example_env PInf 1 True" "example_pga_params\<lparr>max_iter := 0, max_time := 0\<rparr>"
      "pga_entry (example_env PInf 1 True) (example_pga_params\<lparr>max_iter := 0, max_time := 0\<rparr>)
         [Fin 1] [Fin (- 1)] [Fin 1] [Fin 7]" pst'] run prun
  have "status (stats st') = MaxTime" "status (stats pst') = MaxTime"
    by (simp_all add: st' pst' flag_defs example_defs real_t_ops)
  with run prun show ?thesis by simp
qed

text \<open>C1 as it is stated fails: with the iterations and the time both used up at the
  first exit check, PANOC returns \<open>MaxTime\<close>, not \<open>MaxIter\<close>.\<close>

theorem exit_status_priority_counterexample:
  "out_of_iter (example_params\<lparr>max_iter := 0, max_time := 0\<rparr>) 0 \<and>
   out_of_time (example_env PInf 1 False) (example_params\<lparr>max_iter := 0, max_time := 0\<rparr>) 0 \<and>
   outcome (PANOC_call (example_env PInf 1 False)
              (example_params\<lparr>max_iter := 0, max_time := 0\<rparr>) () [Fin 1] (Fin (1/1000)) False
              [Fin (- 1)] [Fin 1] [Fin 7])
     = Some (Inr (MaxTime, [Fin (- 1)], [Fin 1], [Fin 7]))"
  by (simp add: PANOC_call_def outcome_def panoc_loop.simps[of _ _ _ _ _ 0] common_defs
        panoc_block_defs example_defs Let_def vec_ops real_t_ops epsilon_def panoc_qub_loop_unfold flag_defs)

section \<open>The memory of the Anderson acceleration\<close>

text \<open>
  C10. When Anderson acceleration is on, the main loop is entered with a history matrix
  of \<open>min(anderson_acceleration, n)\<close> columns of length \<open>n\<close>, a coefficient vector of that
  length, and a QR factorisation resized to \<open>n\<close> by that number: a memory beyond the
  dimension of the problem is cut to the dimension.
\<close>

theorem anderson_memory_depth:
  assumes "anderson_acceleration params \<noteq> 0"
  shows "length (G_aa (panoc_entry env params dp \<Sigma> x y err_z))
           = unat (min (anderson_acceleration params) (prob_n env)) \<and>
         list_all (\<lambda>c. length c = unat (prob_n env))
           (G_aa (panoc_entry env params dp \<Sigma> x y err_z)) \<and>
         length (gamma_aa_LS (panoc_entry env params dp \<Sigma> x y err_z))
           = unat (min (anderson_acceleration params) (prob_n env)) \<and>
         qr (panoc_entry env params dp \<Sigma> x y err_z)
           = qr_resize env (new_qr env) (prob_n env)
               (min (anderson_acceleration params) (prob_n env)) \<and>
         (prob_n env < anderson_acceleration params \<longrightarrow>
            min (anderson_acceleration params) (prob_n env) = prob_n env)"
  using assms
  by (simp add: panoc_entry_def panoc_estimated_def panoc_first_step_def panoc_estimate_def
        anderson_alloc_def panoc_alloc_def m_aa_def uninit_vec_def Let_def list_all_length)

theorem anderson_memory_depth_witness:
  "anderson_acceleration (example_params\<lparr>anderson_acceleration := 5\<rparr>) \<noteq> 0 \<and>
   prob_n (example_env PInf 0 False) < anderson_acceleration
     (example_params\<lparr>anderson_acceleration := 5\<rparr>) \<and>
   length (G_aa (panoc_entry (example_env PInf 0 False)
     (example_params\<lparr>anderson_acceleration := 5\<rparr>) () [Fin 1] [Fin (- 1)] [Fin 1] [Fin 7])) = 1 \<and>
   length (gamma_aa_LS (panoc_entry (example_env PInf 0 False)
     (example_params\<lparr>anderson_acceleration := 5\<rparr>) () [Fin 1] [Fin (- 1)] [Fin 1] [Fin 7])) = 1"
proof -
  have h: "anderson_acceleration (example_params\<lparr>anderson_acceleration := 5\<rparr>) \<noteq> 0"
    by (simp add: example_params_def)
  from anderson_memory_depth [OF h, of "example_env PInf 0 False" "()" "[Fin 1]"
      "[Fin (- 1)]" "[Fin 1]" "[Fin 7]"]
  show ?thesis
    by (simp add: example_params_def example_env_def)
qed

section \<open>The initial Lipschitz estimate\<close>

text \<open>A norm is never negative, and neither is a quotient of norms: it is a finite value
  from zero on, or plus infinity, or NaN.\<close>

lemma r_sqrt_not_negative: "\<not> r_sqrt a < Fin 0"
  by (cases a) (simp_all add: real_t_ops)

lemma r_div_not_negative: "\<not> a < Fin 0 \<Longrightarrow> \<not> b < Fin 0 \<Longrightarrow> \<not> a / b < Fin 0"
  by (cases a; cases b) (auto simp: real_t_ops divide_less_0_iff)

lemma not_finite_not_below_epsilon: "\<not> a < Fin 0 \<Longrightarrow> \<not> isfinite a \<Longrightarrow> \<not> a < epsilon"
  by (cases a) (simp_all add: real_t_ops epsilon_def)

lemma estimate_not_negative: "\<not> norm_vec u / norm_vec v < Fin 0"
  by (simp add: norm_vec_def r_div_not_negative r_sqrt_not_negative)

lemma norm_vec_single: "norm_vec [Fin a] = Fin \<bar>a\<bar>"
  by (simp add: norm_vec_def squaredNorm_def real_t_ops)

text \<open>The absolute value of a product with a factor that is not negative.\<close>

lemma r_abs_mult: "\<not> e < Fin 0 \<Longrightarrow> \<bar>a * e\<bar> = \<bar>a\<bar> * e"
  by (cases a; cases e) (auto simp: real_t_ops r_inf_def abs_mult split: if_splits)

lemma code_h_spec_h:
  "\<not> L_eps lip < Fin 0 \<Longrightarrow>
   cwiseMax (cwiseAbs (vscale x0 (L_eps lip))) (L_delta lip) = spec_h lip x0"
  by (simp add: cwiseMax_def cwiseAbs_def vscale_def spec_h_def r_abs_mult)

lemma panoc_estimated_simps:
  "L_k (panoc_estimated env params dp \<Sigma> x y err_z) =
     norm_vec (vsub (calc_grad_psi env
         (vadd x (cwiseMax (cwiseAbs (vscale x (L_eps (Lipschitz params))))
                    (L_delta (Lipschitz params)))) y \<Sigma>)
       (snd (calc_psi_grad_psi env x y \<Sigma>)))
     / norm_vec (cwiseMax (cwiseAbs (vscale x (L_eps (Lipschitz params))))
                    (L_delta (Lipschitz params)))"
  "arg_x (panoc_estimated env params dp \<Sigma> x y err_z) = x"
  "arg_y (panoc_estimated env params dp \<Sigma> x y err_z) = y"
  "arg_err_z (panoc_estimated env params dp \<Sigma> x y err_z) = err_z"
  "stats (panoc_estimated env params dp \<Sigma> x y err_z) = new_Stats env"
  by (simp_all add: panoc_estimated_def panoc_estimate_def anderson_alloc_def
        panoc_alloc_def Let_def)

lemma pga_estimated_simps:
  "L_k (pga_estimated env params \<Sigma> x y err_z) =
     norm_vec (vsub (calc_grad_psi env
         (vadd x (cwiseMax (cwiseAbs (vscale x (L_eps (Lipschitz params))))
                    (L_delta (Lipschitz params)))) y \<Sigma>)
       (snd (calc_psi_grad_psi env x y \<Sigma>)))
     / norm_vec (cwiseMax (cwiseAbs (vscale x (L_eps (Lipschitz params))))
                    (L_delta (Lipschitz params)))"
  "arg_y (pga_estimated env params \<Sigma> x y err_z) = y"
  "arg_err_z (pga_estimated env params \<Sigma> x y err_z) = err_z"
  "stats (pga_estimated env params \<Sigma> x y err_z) = new_Stats env"
  by (simp_all add: pga_estimated_def pga_estimate_def pga_alloc_def Let_def)

text \<open>The two ways a call goes on after the estimate.\<close>

lemma PANOC_call_cases:
  "PANOC_call env params dp \<Sigma> \<epsilon> ow x y err_z =
     (if L_k (panoc_estimated env params dp \<Sigma> x y err_z) < epsilon \<or>
         isfinite (L_k (panoc_estimated env params dp \<Sigma> x y err_z))
      then panoc_loop env params \<Sigma> \<epsilon> ow 0 (panoc_entry env params dp \<Sigma> x y err_z)
      else Some (Inr ((panoc_estimated env params dp \<Sigma> x y err_z)
                        \<lparr>stats := (new_Stats env)\<lparr>status := NotFinite\<rparr>\<rparr>)))"
  by (simp add: PANOC_call_def panoc_entry_def panoc_estimated_simps(5) Let_def
        panoc_estimated_def [symmetric])

lemma PGA_call_cases:
  "PGA_call env params \<Sigma> \<epsilon> x y err_z =
     (if L_k (pga_estimated env params \<Sigma> x y err_z) < epsilon \<or>
         isfinite (L_k (pga_estimated env params \<Sigma> x y err_z))
      then pga_loop env params \<Sigma> \<epsilon> 0 (pga_entry env params \<Sigma> x y err_z)
      else Some (Inr ((pga_estimated env params \<Sigma> x y err_z)
                        \<lparr>stats := (new_Stats env)\<lparr>status := NotFinite\<rparr>\<rparr>)))"
  by (simp add: PGA_call_def pga_entry_def pga_estimated_simps(4) Let_def
        pga_estimated_def [symmetric])

lemma panoc_entry_L_k:
  "L_k (panoc_entry env params dp \<Sigma> x y err_z) =
     (if L_k (panoc_estimated env params dp \<Sigma> x y err_z) < epsilon then epsilon
      else L_k (panoc_estimated env params dp \<Sigma> x y err_z))"
  by (simp add: panoc_entry_def panoc_first_step_def Let_def)

lemma pga_entry_L_k:
  "L_k (pga_entry env params \<Sigma> x y err_z) =
     (if L_k (pga_estimated env params \<Sigma> x y err_z) < epsilon then epsilon
      else L_k (pga_estimated env params \<Sigma> x y err_z))"
  by (simp add: pga_entry_def Let_def)


text \<open>
  C3, as amended. Both solvers estimate \<open>L\<^sub>0 = \<parallel>\<nabla>\<psi>(x\<^sub>0 + h) - \<nabla>\<psi>(x\<^sub>0)\<parallel> / \<parallel>h\<parallel>\<close> with
  \<open>h\<^sub>i = max(|x\<^sub>0\<^sub>i \<cdot> \<epsilon>\<^sub>L|, \<delta>\<^sub>L)\<close>, which is the estimate of the specification when \<open>\<epsilon>\<^sub>L\<close> is
  not negative. An estimate that is not finite is never below the machine epsilon, and
  the call returns the state it is in with status \<open>NotFinite\<close> and no iteration; with any
  other estimate the main loop is entered, with the estimate raised to the machine
  epsilon when it is below.
\<close>

theorem initial_lipschitz_estimate:
  "(let h = map (\<lambda>a. r_max \<bar>a * L_eps (Lipschitz params)\<bar> (L_delta (Lipschitz params))) x;
        L0 = norm_vec (vsub (calc_grad_psi env (vadd x h) y \<Sigma>)
                            (snd (calc_psi_grad_psi env x y \<Sigma>))) / norm_vec h
    in L_k (panoc_estimated env params dp \<Sigma> x y err_z) = L0 \<and>
       (\<not> L_eps (Lipschitz params) < Fin 0 \<longrightarrow> L0 = spec_L0 env (Lipschitz params) \<Sigma> x y) \<and>
       (\<not> isfinite L0 \<longrightarrow> \<not> L0 < epsilon) \<and>
       PANOC_call env params dp \<Sigma> \<epsilon> ow x y err_z =
         (if isfinite L0
          then panoc_loop env params \<Sigma> \<epsilon> ow 0 (panoc_entry env params dp \<Sigma> x y err_z)
          else Some (Inr ((panoc_estimated env params dp \<Sigma> x y err_z)
                            \<lparr>stats := (new_Stats env)\<lparr>status := NotFinite\<rparr>\<rparr>))) \<and>
       L_k (panoc_entry env params dp \<Sigma> x y err_z) = (if L0 < epsilon then epsilon else L0)) \<and>
   (let h = map (\<lambda>a. r_max \<bar>a * L_eps (Lipschitz pparams)\<bar> (L_delta (Lipschitz pparams))) x;
        L0 = norm_vec (vsub (calc_grad_psi penv (vadd x h) y \<Sigma>)
                            (snd (calc_psi_grad_psi penv x y \<Sigma>))) / norm_vec h
    in L_k (pga_estimated penv pparams \<Sigma> x y err_z) = L0 \<and>
       (\<not> L_eps (Lipschitz pparams) < Fin 0 \<longrightarrow> L0 = spec_L0 penv (Lipschitz pparams) \<Sigma> x y) \<and>
       (\<not> isfinite L0 \<longrightarrow> \<not> L0 < epsilon) \<and>
       PGA_call penv pparams \<Sigma> \<epsilon> x y err_z =
         (if isfinite L0
          then pga_loop penv pparams \<Sigma> \<epsilon> 0 (pga_entry penv pparams \<Sigma> x y err_z)
          else Some (Inr ((pga_estimated penv pparams \<Sigma> x y err_z)
                            \<lparr>stats := (new_Stats penv)\<lparr>status := NotFinite\<rparr>\<rparr>))) \<and>
       L_k (pga_entry penv pparams \<Sigma> x y err_z) = (if L0 < epsilon then epsilon else L0))"
proof -
  have h: "map (\<lambda>a. r_max \<bar>a * L_eps lip\<bar> (L_delta lip)) x
           = cwiseMax (cwiseAbs (vscale x (L_eps lip))) (L_delta lip)"
    for lip :: LipschitzParams
    by (simp add: cwiseMax_def cwiseAbs_def vscale_def)
  have spec: "\<not> L_eps lip < Fin 0 \<Longrightarrow>
      norm_vec (vsub (calc_grad_psi e
          (vadd x (cwiseMax (cwiseAbs (vscale x (L_eps lip))) (L_delta lip))) y \<Sigma>)
        (snd (calc_psi_grad_psi e x y \<Sigma>)))
      / norm_vec (cwiseMax (cwiseAbs (vscale x (L_eps lip))) (L_delta lip))
      = spec_L0 e lip \<Sigma> x y" for lip :: LipschitzParams and e :: "'z detail_scheme"
    by (simp add: spec_L0_def code_h_spec_h)
  have fin: "\<not> isfinite (norm_vec u / norm_vec v) \<Longrightarrow> \<not> norm_vec u / norm_vec v < epsilon"
    for u v
    by (rule not_finite_not_below_epsilon [OF estimate_not_negative])
  have below: "norm_vec u / norm_vec v < epsilon \<Longrightarrow> isfinite (norm_vec u / norm_vec v)"
    for u v
    using fin by blast
  show ?thesis
    unfolding Let_def h
    by (intro conjI impI; (rule spec fin)?)
       (auto simp: panoc_estimated_simps pga_estimated_simps PANOC_call_cases PGA_call_cases
          panoc_entry_L_k pga_entry_L_k dest: below)
qed

theorem initial_lipschitz_estimate_witness:
  "\<not> L_eps (Lipschitz example_params) < Fin 0 \<and>
   \<not> L_eps (Lipschitz example_pga_params) < Fin 0 \<and>
   L_k (panoc_estimated (example_env PInf 0 False) example_params () [Fin 1]
          [Fin (- 1)] [Fin 1] [Fin 7]) = Fin 1 \<and>
   spec_L0 (example_env PInf 0 False) (Lipschitz example_params) [Fin 1] [Fin (- 1)] [Fin 1]
     = Fin 1 \<and>
   L_k (pga_estimated (example_env PInf 0 False) example_pga_params [Fin 1]
          [Fin (- 1)] [Fin 1] [Fin 7]) = Fin 1 \<and>
   spec_L0 (example_env PInf 0 False) (Lipschitz example_pga_params) [Fin 1] [Fin (- 1)]
     [Fin 1] = Fin 1 \<and>
   \<not> isfinite (L_k (panoc_estimated (example_env PInf 0 False)
       (example_params\<lparr>Lipschitz := (Lipschitz example_params)\<lparr>L_delta := Fin 0\<rparr>\<rparr>) () [Fin 1]
          [Fin 0] [Fin 1] [Fin 7])) \<and>
   \<not> L_k (panoc_estimated (example_env PInf 0 False)
       (example_params\<lparr>Lipschitz := (Lipschitz example_params)\<lparr>L_delta := Fin 0\<rparr>\<rparr>) () [Fin 1]
          [Fin 0] [Fin 1] [Fin 7]) < epsilon \<and>
   \<not> isfinite (L_k (pga_estimated (example_env PInf 0 False)
       (example_pga_params\<lparr>Lipschitz := (Lipschitz example_pga_params)\<lparr>L_delta := Fin 0\<rparr>\<rparr>)
          [Fin 1] [Fin 0] [Fin 1] [Fin 7])) \<and>
   \<not> L_k (pga_estimated (example_env PInf 0 False)
       (example_pga_params\<lparr>Lipschitz := (Lipschitz example_pga_params)\<lparr>L_delta := Fin 0\<rparr>\<rparr>)
          [Fin 1] [Fin 0] [Fin 1] [Fin 7]) < epsilon"
proof -
  have e: "\<not> L_eps (Lipschitz example_params) < Fin 0"
    "\<not> L_eps (Lipschitz example_pga_params) < Fin 0"
    by (simp_all add: example_defs real_t_ops)
  have L: "L_k (panoc_estimated (example_env PInf 0 False) example_params () [Fin 1]
          [Fin (- 1)] [Fin 1] [Fin 7]) = Fin 1"
    "L_k (pga_estimated (example_env PInf 0 False) example_pga_params [Fin 1]
          [Fin (- 1)] [Fin 1] [Fin 7]) = Fin 1"
    by (simp_all add: panoc_estimated_simps pga_estimated_simps example_defs
          vadd_def vsub_def vscale_def cwiseAbs_def cwiseMax_def r_max_def norm_vec_single
          real_t_ops)
  have N: "\<not> isfinite (L_k (panoc_estimated (example_env PInf 0 False)
       (example_params\<lparr>Lipschitz := (Lipschitz example_params)\<lparr>L_delta := Fin 0\<rparr>\<rparr>) () [Fin 1]
          [Fin 0] [Fin 1] [Fin 7]))"
    "\<not> isfinite (L_k (pga_estimated (example_env PInf 0 False)
       (example_pga_params\<lparr>Lipschitz := (Lipschitz example_pga_params)\<lparr>L_delta := Fin 0\<rparr>\<rparr>)
          [Fin 1] [Fin 0] [Fin 1] [Fin 7]))"
    by (simp_all add: panoc_estimated_simps pga_estimated_simps example_defs
          vadd_def vsub_def vscale_def cwiseAbs_def cwiseMax_def r_max_def norm_vec_single
          real_t_ops)
  note T0 = initial_lipschitz_estimate [of example_params "[Fin (- 1)]"
      "example_env PInf 0 False" "[Fin 1]" "[Fin 1]" "()" "[Fin 7]" "Fin (1/1000)" False
      example_pga_params "example_env PInf 0 False", unfolded Let_def]
  note T = T0 [THEN conjunct1] and T' = T0 [THEN conjunct2]
  note AS = trans [OF T [THEN conjunct1] T [THEN conjunct2, THEN conjunct1, THEN mp, OF e(1)]]
    trans [OF T' [THEN conjunct1] T' [THEN conjunct2, THEN conjunct1, THEN mp, OF e(2)]]
  from AS L have S: "spec_L0 (example_env PInf 0 False) (Lipschitz example_params) [Fin 1]
             [Fin (- 1)] [Fin 1] = Fin 1"
    "spec_L0 (example_env PInf 0 False) (Lipschitz example_pga_params) [Fin 1]
             [Fin (- 1)] [Fin 1] = Fin 1"
    by simp_all
  note U = initial_lipschitz_estimate [of
      "example_params\<lparr>Lipschitz := (Lipschitz example_params)\<lparr>L_delta := Fin 0\<rparr>\<rparr>" "[Fin 0]"
      "example_env PInf 0 False" "[Fin 1]" "[Fin 1]" "()" "[Fin 7]" "Fin (1/1000)" False
      "example_pga_params\<lparr>Lipschitz := (Lipschitz example_pga_params)\<lparr>L_delta := Fin 0\<rparr>\<rparr>"
      "example_env PInf 0 False", unfolded Let_def]
  note U1 = U [THEN conjunct1] and U2 = U [THEN conjunct2]
  note B = U1 [THEN conjunct2, THEN conjunct2, THEN conjunct1,
                folded U1 [THEN conjunct1], THEN mp, OF N(1)]
           U2 [THEN conjunct2, THEN conjunct2, THEN conjunct1,
                folded U2 [THEN conjunct1], THEN mp, OF N(2)]
  from e L N S B show ?thesis by blast
qed

text \<open>C3 as it is stated fails for a negative \<open>\<epsilon>\<^sub>L\<close>: with \<open>\<epsilon>\<^sub>L = -1\<close>, \<open>\<delta>\<^sub>L = 1/4\<close> and
  \<open>x\<^sub>0 = -1\<close> the solver perturbs by \<open>h = 1\<close> and estimates 1, where the formula of the
  claim perturbs by \<open>h = 1/4\<close> and gives \<open>37/16\<close>.\<close>

theorem initial_lipschitz_estimate_counterexample:
  "L_k (panoc_estimated (example_env PInf 0 False)
          (example_params\<lparr>Lipschitz :=
             \<lparr>L_eps = Fin (- 1), L_delta = Fin (1/4), Lgamma_factor = Fin (1/2)\<rparr>\<rparr>)
          () [Fin 1] [Fin (- 1)] [Fin 1] [Fin 7]) = Fin 1 \<and>
   spec_L0 (example_env PInf 0 False)
     \<lparr>L_eps = Fin (- 1), L_delta = Fin (1/4), Lgamma_factor = Fin (1/2)\<rparr>
     [Fin 1] [Fin (- 1)] [Fin 1] = Fin (37/16)"
  by (simp add: panoc_estimated_simps spec_L0_def spec_h_def example_defs
        vadd_def vsub_def vscale_def cwiseAbs_def cwiseMax_def r_max_def norm_vec_single
        real_t_ops)

section \<open>An estimate that is not finite\<close>

text \<open>
  C7, as amended. When the initial estimate is not finite, PANOC returns \<open>NotFinite\<close> with
  \<open>x\<close>, \<open>y\<close> and \<open>err_z\<close> as the caller passed them, whether it is asked to overwrite the
  results or not; PGA returns \<open>NotFinite\<close> with \<open>y\<close> and \<open>err_z\<close> as the caller passed them.
\<close>

theorem not_finite_estimate_outputs:
  "(\<not> isfinite (L_k (panoc_estimated env params dp \<Sigma> x y err_z)) \<longrightarrow>
      outcome (PANOC_call env params dp \<Sigma> \<epsilon> ow x y err_z)
        = Some (Inr (NotFinite, x, y, err_z))) \<and>
   (\<not> isfinite (L_k (pga_estimated penv pparams \<Sigma> x y err_z)) \<longrightarrow>
      map_option (map_sum id (\<lambda>st. (status (stats st), arg_y st, arg_err_z st)))
        (PGA_call penv pparams \<Sigma> \<epsilon> x y err_z) = Some (Inr (NotFinite, y, err_z)))"
proof (intro conjI impI)
  assume n: "\<not> isfinite (L_k (panoc_estimated env params dp \<Sigma> x y err_z))"
  then have "\<not> L_k (panoc_estimated env params dp \<Sigma> x y err_z) < epsilon"
    unfolding panoc_estimated_simps(1)
    by (rule not_finite_not_below_epsilon [OF estimate_not_negative])
  with n show "outcome (PANOC_call env params dp \<Sigma> \<epsilon> ow x y err_z)
                 = Some (Inr (NotFinite, x, y, err_z))"
    by (simp add: PANOC_call_cases outcome_def panoc_estimated_simps(2-4))
next
  assume n: "\<not> isfinite (L_k (pga_estimated penv pparams \<Sigma> x y err_z))"
  then have "\<not> L_k (pga_estimated penv pparams \<Sigma> x y err_z) < epsilon"
    unfolding pga_estimated_simps(1)
    by (rule not_finite_not_below_epsilon [OF estimate_not_negative])
  with n show "map_option (map_sum id (\<lambda>st. (status (stats st), arg_y st, arg_err_z st)))
        (PGA_call penv pparams \<Sigma> \<epsilon> x y err_z) = Some (Inr (NotFinite, y, err_z))"
    by (simp add: PGA_call_cases pga_estimated_simps(2-3))
qed

lemma example_not_finite_estimate:
  "\<not> isfinite (L_k (panoc_estimated (example_env PInf 0 False)
       (example_params\<lparr>Lipschitz := (Lipschitz example_params)\<lparr>L_delta := Fin 0\<rparr>\<rparr>) () [Fin 1]
          [Fin 0] [Fin 1] [Fin 7]))"
  "\<not> isfinite (L_k (pga_estimated (example_env PInf 0 False)
       (example_pga_params\<lparr>Lipschitz := (Lipschitz example_pga_params)\<lparr>L_delta := Fin 0\<rparr>\<rparr>)
          [Fin 1] [Fin 0] [Fin 1] [Fin 7]))"
  by (simp_all add: panoc_estimated_simps pga_estimated_simps example_defs
        vadd_def vsub_def vscale_def cwiseAbs_def cwiseMax_def r_max_def norm_vec_single
        real_t_ops)

theorem not_finite_estimate_outputs_witness:
  "outcome (PANOC_call (example_env PInf 0 False)
       (example_params\<lparr>Lipschitz := (Lipschitz example_params)\<lparr>L_delta := Fin 0\<rparr>\<rparr>) () [Fin 1]
       (Fin (1/1000)) False [Fin 0] [Fin 1] [Fin 7])
     = Some (Inr (NotFinite, [Fin 0], [Fin 1], [Fin 7])) \<and>
   map_option (map_sum id (\<lambda>st. (status (stats st), arg_y st, arg_err_z st)))
     (PGA_call (example_env PInf 0 False)
       (example_pga_params\<lparr>Lipschitz := (Lipschitz example_pga_params)\<lparr>L_delta := Fin 0\<rparr>\<rparr>)
       [Fin 1] (Fin (1/1000)) [Fin 0] [Fin 1] [Fin 7])
     = Some (Inr (NotFinite, [Fin 1], [Fin 7]))"
  using not_finite_estimate_outputs [of "example_env PInf 0 False"
      "example_params\<lparr>Lipschitz := (Lipschitz example_params)\<lparr>L_delta := Fin 0\<rparr>\<rparr>" "()"
      "[Fin 1]" "[Fin 0]" "[Fin 1]" "[Fin 7]" "Fin (1/1000)" False
      "example_env PInf 0 False"
      "example_pga_params\<lparr>Lipschitz := (Lipschitz example_pga_params)\<lparr>L_delta := Fin 0\<rparr>\<rparr>"]
    example_not_finite_estimate
  by blast

text \<open>C7 as it is stated fails: asked to overwrite the results, PANOC with an estimate
  that is not finite (here \<open>0 / 0\<close>, from \<open>x\<^sub>0 = 0\<close> and \<open>\<delta>\<^sub>L = 0\<close>) writes none. A written
  \<open>y\<close> would be \<open>[0]\<close> and a written \<open>err_z\<close> would be \<open>[-1]\<close>.\<close>

theorem not_finite_estimate_outputs_counterexample:
  "outcome (PANOC_call (example_env PInf 0 False)
       (example_params\<lparr>Lipschitz := (Lipschitz example_params)\<lparr>L_delta := Fin 0\<rparr>\<rparr>) () [Fin 1]
       (Fin (1/1000)) True [Fin 0] [Fin 1] [Fin 7])
     = Some (Inr (NotFinite, [Fin 0], [Fin 1], [Fin 7])) \<and>
   snd (calc_psi_yhat (example_env PInf 0 False) [Fin 0] [Fin 1] [Fin 1]) = [Fin 0] \<and>
   calc_err_z (example_env PInf 0 False) [Fin 0] [Fin 1] [Fin 1] = [Fin (- 1)]"
  by (simp add: PANOC_call_def outcome_def common_defs panoc_block_defs example_defs Let_def
        vadd_def vsub_def vscale_def cwiseAbs_def cwiseMax_def r_max_def norm_vec_single
        real_t_ops epsilon_def)

text \<open>On the same path PGA has moved the caller's \<open>x\<close> by \<open>h\<close>, and leaves it there.\<close>

lemma pga_not_finite_estimate_moves_x:
  "\<not> isfinite (L_k (pga_estimated env params \<Sigma> x y err_z)) \<Longrightarrow>
   map_option (map_sum id arg_x) (PGA_call env params \<Sigma> \<epsilon> x y err_z)
     = Some (Inr (vadd x (map (\<lambda>a. r_max \<bar>a * L_eps (Lipschitz params)\<bar>
                                   (L_delta (Lipschitz params))) x)))"
  using not_finite_not_below_epsilon [OF estimate_not_negative]
  by (auto simp: PGA_call_cases pga_estimated_simps(1) pga_estimated_def pga_estimate_def
        pga_alloc_def Let_def cwiseMax_def cwiseAbs_def vscale_def comp_def)

section \<open>What the solver holds about its iterate\<close>

text \<open>A function of the state that no pass of a loop changes has, when the loop is
  left, the value it had when the loop was entered.\<close>

lemma loop_points_frame:
  assumes "loop_points cond body s0 s" and "\<And>s. f (body s) = f s"
  shows "f s = f s0"
  using assms by (induction rule: loop_points.induct) auto

lemma pga_qub_loop_frame:
  assumes "pga_qub_loop env \<Sigma> st = Some st'"
    and "\<And>s. f (pga_qub_body env \<Sigma> s) = f s"
  shows "f st' = f st"
  using pga_qub_loop_points [OF assms(1)] assms(2) by (blast intro: loop_points_frame)

lemma panoc_qub_loop_frame:
  assumes "panoc_qub_loop env params \<Sigma> st = Some st'"
    and "\<And>s. f (panoc_qub_body env \<Sigma> s) = f s"
  shows "f st' = f st"
  using panoc_qub_loop_points [OF assms(1)] assms(2) by (blast intro: loop_points_frame)

lemma panoc_qub_loop_k1_frame:
  assumes "panoc_qub_loop_k1 env params \<Sigma> st = Some st'"
    and "\<And>s. f (panoc_qub_body_k1 env \<Sigma> s) = f s"
  shows "f st' = f st"
  using panoc_qub_loop_k1_points [OF assms(1)] assms(2) by (blast intro: loop_points_frame)

lemma args_eqD:
  "args st' = args st \<Longrightarrow> arg_x st' = arg_x st \<and> arg_y st' = arg_y st \<and>
     arg_err_z st' = arg_err_z st"
  by (simp add: args_def)

subsection \<open>PANOC\<close>

lemma panoc_qub_body_cached: "panoc_cached env \<Sigma> (panoc_qub_body env \<Sigma> st)"
  by (simp add: panoc_cached_def panoc_qub_body_def Let_def)

lemma panoc_qub_body_args: "args (panoc_qub_body env \<Sigma> st) = args st"
  by (simp add: args_def panoc_qub_body_def Let_def)

lemma panoc_qub_loop_cached:
  assumes "panoc_qub_loop env params \<Sigma> st = Some st'" and "panoc_cached env \<Sigma> st"
  shows "panoc_cached env \<Sigma> st'"
  using panoc_qub_loop_points [OF assms(1)] assms(2)
  by (blast intro: loop_points_invariant panoc_qub_body_cached)

lemma panoc_qub_cached:
  assumes "panoc_qub env params \<Sigma> k st = Some st'" and "panoc_cached env \<Sigma> st"
  shows "panoc_cached env \<Sigma> st'"
proof -
  from assms(2) have "panoc_cached env \<Sigma> (st\<lparr>old_gamma_k := gamma_k st\<rparr>)"
    by (simp add: panoc_cached_def)
  with assms(1) show ?thesis
    by (auto simp: panoc_qub_def Let_def split: if_splits intro: panoc_qub_loop_cached)
qed

lemma panoc_qub_args:
  assumes "panoc_qub env params \<Sigma> k st = Some st'"
  shows "args st' = args st"
proof -
  have "args st' = args (st\<lparr>old_gamma_k := gamma_k st\<rparr>)"
    using assms
    by (auto simp: panoc_qub_def Let_def split: if_splits
        intro: panoc_qub_loop_frame panoc_qub_body_args)
  then show ?thesis by (simp add: args_def)
qed

lemma panoc_stop_crit_cached:
  "panoc_cached env \<Sigma> st \<Longrightarrow> panoc_cached env \<Sigma> (panoc_stop_crit env params k st)"
  by (simp add: panoc_cached_def panoc_stop_crit_def anderson_changed_gamma_def Let_def)

lemma panoc_stop_crit_args: "args (panoc_stop_crit env params k st) = args st"
  by (simp add: args_def panoc_stop_crit_def anderson_changed_gamma_def Let_def)

lemma panoc_apply_args: "args (panoc_apply env k st) = args st"
  by (simp add: args_def panoc_apply_def Let_def)

text \<open>The Anderson step changes the Anderson variables and, when it is accepted, the
  projected gradient step: a function of the state that ignores those is kept.\<close>

lemma anderson_first_frame:
  assumes "anderson_first env st = Inr st'"
    and "\<And>s v. f (s\<lparr>r_aa_km1 := v\<rparr>) = f s" and "\<And>s v. f (s\<lparr>y_aa_k := v\<rparr>) = f s"
    and "\<And>s v. f (s\<lparr>G_aa := v\<rparr>) = f s"
  shows "f st' = f st"
  using assms(1) by (auto simp: anderson_first_def Let_def assms(2-) split: if_splits)

lemma anderson_minimize_frame:
  assumes "anderson_minimize env st = Inr st'"
    and "\<And>s v. f (s\<lparr>g_aa_k := v\<rparr>) = f s" and "\<And>s v. f (s\<lparr>r_aa_k := v\<rparr>) = f s"
    and "\<And>s v. f (s\<lparr>qr := v\<rparr>) = f s" and "\<And>s v. f (s\<lparr>G_aa := v\<rparr>) = f s"
    and "\<And>s v. f (s\<lparr>gamma_aa_LS := v\<rparr>) = f s" and "\<And>s v. f (s\<lparr>y_aa_k := v\<rparr>) = f s"
  shows "f st' = f st"
  using assms(1) by (auto simp: anderson_minimize_def Let_def assms(2-) split: if_splits)

lemma anderson_accept_frame:
  assumes "\<And>s v. f (s\<lparr>x_aa_k := v\<rparr>) = f s" and "\<And>s v. f (s\<lparr>yhat_aa_k := v\<rparr>) = f s"
    and "\<And>s v. f (s\<lparr>anderson_accepted := v\<rparr>) = f s" and "\<And>s v. f (s\<lparr>xhat_k := v\<rparr>) = f s"
    and "\<And>s v. f (s\<lparr>p_k := v\<rparr>) = f s" and "\<And>s v. f (s\<lparr>psi_xhat_k := v\<rparr>) = f s"
    and "\<And>s v. f (s\<lparr>grad_hat_psi_k := v\<rparr>) = f s"
  shows "f (anderson_accept env \<Sigma> st) = f st"
  by (simp add: anderson_accept_def Let_def assms)

lemma panoc_anderson_frame:
  assumes "panoc_anderson env params \<Sigma> k st = Inr st'"
    and "\<And>s v. f (s\<lparr>r_aa_km1 := v\<rparr>) = f s" and "\<And>s v. f (s\<lparr>y_aa_k := v\<rparr>) = f s"
    and "\<And>s v. f (s\<lparr>G_aa := v\<rparr>) = f s"
    and "\<And>s v. f (s\<lparr>g_aa_k := v\<rparr>) = f s" and "\<And>s v. f (s\<lparr>r_aa_k := v\<rparr>) = f s"
    and "\<And>s v. f (s\<lparr>qr := v\<rparr>) = f s"
    and "\<And>s v. f (s\<lparr>gamma_aa_LS := v\<rparr>) = f s"
    and "\<And>s v. f (s\<lparr>x_aa_k := v\<rparr>) = f s" and "\<And>s v. f (s\<lparr>yhat_aa_k := v\<rparr>) = f s"
    and "\<And>s v. f (s\<lparr>anderson_accepted := v\<rparr>) = f s" and "\<And>s v. f (s\<lparr>xhat_k := v\<rparr>) = f s"
    and "\<And>s v. f (s\<lparr>p_k := v\<rparr>) = f s" and "\<And>s v. f (s\<lparr>psi_xhat_k := v\<rparr>) = f s"
    and "\<And>s v. f (s\<lparr>grad_hat_psi_k := v\<rparr>) = f s"
  shows "f st' = f st"
proof -
  let ?s = "st\<lparr>anderson_accepted := False\<rparr>"
  have s: "f ?s = f st" by (rule assms)
  show ?thesis
  proof (cases "anderson_acceleration params = 0")
    case True
    with assms(1) s show ?thesis by (simp add: panoc_anderson_def Let_def)
  next
    case False
    show ?thesis
    proof (cases "k = 0")
      case True
      with False assms(1) have "anderson_first env ?s = Inr st'"
        by (simp add: panoc_anderson_def Let_def)
      from anderson_first_frame [of env ?s st' f, OF this assms(2-4)] s show ?thesis by simp
    next
      case k: False
      with False assms(1) obtain sm where m: "anderson_minimize env ?s = Inr sm"
        and st': "st' = anderson_accept env \<Sigma> sm"
        by (auto simp: panoc_anderson_def Let_def split: sum.splits)
      from anderson_minimize_frame [of env ?s sm f, OF m assms(5-7) assms(4) assms(8) assms(3)] s
        anderson_accept_frame [of f env \<Sigma> sm, OF assms(9-15)]
      show ?thesis by (simp add: st')
    qed
  qed
qed

lemma panoc_anderson_args:
  assumes "panoc_anderson env params \<Sigma> k st = Inr st'"
  shows "args st' = args st"
  by (rule panoc_anderson_frame [OF assms]; simp add: args_def)

lemma linesearch_init_args: "args (linesearch_init env k st) = args st"
  by (simp add: args_def linesearch_init_def Let_def)

lemma linesearch_candidate_args: "args (linesearch_candidate env params \<Sigma> st) = args st"
  by (simp add: args_def linesearch_candidate_def Let_def)

lemma linesearch_candidate_cached_k1:
  "panoc_cached_k1 env \<Sigma> (linesearch_candidate env params \<Sigma> st)"
  by (simp add: panoc_cached_k1_def linesearch_candidate_def Let_def)

lemma panoc_qub_body_k1_cached_k1: "panoc_cached_k1 env \<Sigma> (panoc_qub_body_k1 env \<Sigma> st)"
  by (simp add: panoc_cached_k1_def panoc_qub_body_k1_def Let_def)

lemma panoc_qub_body_k1_args: "args (panoc_qub_body_k1 env \<Sigma> st) = args st"
  by (simp add: args_def panoc_qub_body_k1_def Let_def)

lemma linesearch_qub_cached_k1:
  assumes "linesearch_qub env params \<Sigma> st = Some st'" and "panoc_cached_k1 env \<Sigma> st"
  shows "panoc_cached_k1 env \<Sigma> st'"
proof (cases "update_lipschitz_in_linesearch params")
  case True
  with assms(1) obtain s where loop: "panoc_qub_loop_k1 env params \<Sigma> st = Some s"
    and st': "st' = (if r_ne (gamma_k1 s) (gamma_k1 st)
                 then anderson_changed_gamma env params (gamma_k1 s) (gamma_k1 st)
                        (s\<lparr>direction_provider :=
                              dir_changed_gamma env (direction_provider s)
                                (gamma_k1 s) (gamma_k1 st)\<rparr>)
                 else s)"
    by (auto simp: linesearch_qub_def Let_def split: Option.bind_splits)
  from panoc_qub_loop_k1_points [OF loop] assms(2) have "panoc_cached_k1 env \<Sigma> s"
    by (blast intro: loop_points_invariant panoc_qub_body_k1_cached_k1)
  then show ?thesis
    by (simp add: st' panoc_cached_k1_def anderson_changed_gamma_def)
next
  case False
  with assms show ?thesis by (simp add: linesearch_qub_def)
qed

lemma linesearch_qub_args:
  assumes "linesearch_qub env params \<Sigma> st = Some st'"
  shows "args st' = args st"
proof (cases "update_lipschitz_in_linesearch params")
  case True
  with assms(1) obtain s where loop: "panoc_qub_loop_k1 env params \<Sigma> st = Some s"
    and st': "st' = (if r_ne (gamma_k1 s) (gamma_k1 st)
                 then anderson_changed_gamma env params (gamma_k1 s) (gamma_k1 st)
                        (s\<lparr>direction_provider :=
                              dir_changed_gamma env (direction_provider s)
                                (gamma_k1 s) (gamma_k1 st)\<rparr>)
                 else s)"
    by (auto simp: linesearch_qub_def Let_def split: Option.bind_splits)
  from loop have "args s = args st"
    by (rule panoc_qub_loop_k1_frame) (rule panoc_qub_body_k1_args)
  then show ?thesis
    by (simp add: st' args_def anderson_changed_gamma_def)
next
  case False
  with assms show ?thesis by (simp add: linesearch_qub_def)
qed

lemma linesearch_condition_cached_k1:
  "panoc_cached_k1 env \<Sigma> st \<Longrightarrow> panoc_cached_k1 env \<Sigma> (linesearch_condition params st)"
  by (simp add: panoc_cached_k1_def linesearch_condition_def Let_def)

lemma linesearch_condition_args: "args (linesearch_condition params st) = args st"
  by (simp add: args_def linesearch_condition_def Let_def)

lemma linesearch_pass_cached_k1:
  assumes "linesearch_pass env params \<Sigma> st = Some st'"
  shows "panoc_cached_k1 env \<Sigma> st'" and "args st' = args st"
proof -
  from assms obtain s where
    q: "linesearch_qub env params \<Sigma> (linesearch_candidate env params \<Sigma> st) = Some s"
    and st': "st' = linesearch_condition params s"
    by (auto simp: linesearch_pass_def split: Option.bind_splits)
  from linesearch_qub_cached_k1 [OF q linesearch_candidate_cached_k1]
  show "panoc_cached_k1 env \<Sigma> st'"
    by (simp add: st' linesearch_condition_cached_k1)
  from linesearch_qub_args [OF q] show "args st' = args st"
    by (simp add: st' linesearch_condition_args linesearch_candidate_args)
qed

lemma linesearch_passes_args:
  "linesearch_passes env params \<Sigma> s0 s \<Longrightarrow> args s = args s0"
  by (induction rule: linesearch_passes.induct) (simp_all add: linesearch_pass_cached_k1(2))

lemma linesearch_loop_cached_k1:
  assumes "linesearch_loop env params \<Sigma> st = Some st'"
  shows "panoc_cached_k1 env \<Sigma> st'" and "args st' = args st"
proof -
  from linesearch_loop_passes [OF assms] obtain s where
    p: "linesearch_passes env params \<Sigma> st s" and l: "linesearch_pass env params \<Sigma> s = Some st'"
    by blast
  from l show "panoc_cached_k1 env \<Sigma> st'" by (rule linesearch_pass_cached_k1)
  from linesearch_pass_cached_k1(2) [OF l] linesearch_passes_args [OF p]
  show "args st' = args st" by simp
qed

lemma linesearch_failed_cached_k1:
  "panoc_cached_k1 env \<Sigma> st \<Longrightarrow> panoc_cached_k1 env \<Sigma> (linesearch_failed params k st)"
  "args (linesearch_failed params k st) = args st"
  by (simp_all add: panoc_cached_k1_def args_def linesearch_failed_def)

lemma panoc_update_direction_cached_k1:
  "panoc_cached_k1 env \<Sigma> st \<Longrightarrow> panoc_cached_k1 env \<Sigma> (panoc_update_direction env st)"
  "args (panoc_update_direction env st) = args st"
  by (simp_all add: panoc_cached_k1_def args_def panoc_update_direction_def Let_def)

lemma panoc_no_progress_cached_k1:
  "panoc_no_progress params k st = Inr st' \<Longrightarrow> panoc_cached_k1 env \<Sigma> st \<Longrightarrow>
   panoc_cached_k1 env \<Sigma> st'"
  "panoc_no_progress params k st = Inr st' \<Longrightarrow> args st' = args st"
  by (auto simp: panoc_cached_k1_def args_def panoc_no_progress_def split: if_splits)

lemma anderson_update_cached_k1:
  "panoc_cached_k1 env \<Sigma> st \<Longrightarrow> panoc_cached_k1 env \<Sigma> (anderson_update params k st)"
  "args (anderson_update params k st) = args st"
  by (simp_all add: panoc_cached_k1_def args_def anderson_update_def Let_def)

lemma panoc_advance_cached:
  "panoc_cached_k1 env \<Sigma> st \<Longrightarrow> panoc_cached env \<Sigma> (panoc_advance st)"
  "args (panoc_advance st) = args st"
  by (simp_all add: panoc_cached_k1_def panoc_cached_def args_def panoc_advance_def Let_def)

text \<open>After an iteration the solver holds the projected gradient step from the new
  iterate, whatever it held before.\<close>

lemma panoc_step_cached:
  assumes "panoc_step env params \<Sigma> k st = Some (Inr st')"
  shows "panoc_cached env \<Sigma> st'" and "args st' = args st"
proof -
  from assms obtain sa sl sn where
    a: "panoc_anderson env params \<Sigma> k (panoc_apply env k st) = Inr sa"
    and l: "linesearch_loop env params \<Sigma> (linesearch_init env k sa) = Some sl"
    and n: "panoc_no_progress params k
              (panoc_update_direction env (linesearch_failed params k sl)) = Inr sn"
    and st': "st' = panoc_advance (anderson_update params k sn)"
    by (auto simp: panoc_step_def split: sum.splits Option.bind_splits)
  from linesearch_loop_cached_k1(1) [OF l]
  have "panoc_cached_k1 env \<Sigma> (panoc_update_direction env (linesearch_failed params k sl))"
    by (simp add: linesearch_failed_cached_k1 panoc_update_direction_cached_k1)
  from panoc_no_progress_cached_k1(1) [OF n this] show "panoc_cached env \<Sigma> st'"
    by (simp add: st' anderson_update_cached_k1 panoc_advance_cached)
  from panoc_no_progress_cached_k1(2) [OF n] linesearch_loop_cached_k1(2) [OF l]
    panoc_anderson_args [OF a]
  show "args st' = args st"
    by (simp add: st' anderson_update_cached_k1 panoc_advance_cached
          linesearch_failed_cached_k1 panoc_update_direction_cached_k1 linesearch_init_args
          panoc_apply_args)
qed

lemma panoc_entry_cached:
  "panoc_cached env \<Sigma> (panoc_entry env params dp \<Sigma> x y err_z)"
  "args (panoc_entry env params dp \<Sigma> x y err_z) = (x, y, err_z)"
  by (simp_all add: panoc_cached_def args_def panoc_entry_def panoc_first_step_def
        panoc_estimated_def panoc_estimate_def anderson_alloc_def panoc_alloc_def Let_def)

lemma panoc_iterates_cached:
  assumes "panoc_iterates env params \<Sigma> \<epsilon> st0 k st" and "panoc_cached env \<Sigma> st0"
  shows "panoc_cached env \<Sigma> st \<and> args st = args st0"
  using assms
proof (induction rule: panoc_iterates.induct)
  case panoc_first
  then show ?case by simp
next
  case (panoc_next k st st1 st2)
  from panoc_step_cached [OF panoc_next.hyps(5)] panoc_qub_args [OF panoc_next.hyps(3)]
    panoc_next.IH [OF panoc_next.prems]
  show ?case by (simp add: panoc_stop_crit_args)
qed

subsection \<open>PGA\<close>

lemma pga_prox_cached: "pga_cached env \<Sigma> (pga_prox env \<Sigma> st)"
  by (simp add: pga_cached_def pga_prox_def Let_def)

lemma pga_prox_args: "args (pga_prox env \<Sigma> st) = args st"
  by (simp add: args_def pga_prox_def Let_def)

lemma pga_qub_body_cached: "pga_cached env \<Sigma> (pga_qub_body env \<Sigma> st)"
  by (simp add: pga_qub_body_def pga_prox_cached)

lemma pga_qub_body_args: "args (pga_qub_body env \<Sigma> st) = args st"
  by (simp add: pga_qub_body_def pga_prox_args) (simp add: args_def)

lemma pga_qub_loop_cached:
  assumes "pga_qub_loop env \<Sigma> (pga_prox env \<Sigma> st) = Some st'"
  shows "pga_cached env \<Sigma> st'" and "args st' = args st"
proof -
  from pga_qub_loop_points [OF assms] pga_prox_cached [of env \<Sigma> st]
  show "pga_cached env \<Sigma> st'"
    by (blast intro: loop_points_invariant pga_qub_body_cached)
  from assms have "args st' = args (pga_prox env \<Sigma> st)"
    by (rule pga_qub_loop_frame) (rule pga_qub_body_args)
  then show "args st' = args st" by (simp add: pga_prox_args)
qed

lemma pga_stop_crit_cached:
  "pga_cached env \<Sigma> st \<Longrightarrow> pga_cached env \<Sigma> (pga_stop_crit env st)"
  "args (pga_stop_crit env st) = args st"
  by (simp_all add: pga_cached_def args_def pga_stop_crit_def Let_def)

lemma pga_advance_args: "args (pga_advance st) = args st"
  by (simp add: args_def pga_advance_def Let_def)

lemma pga_iterates_args:
  "pga_iterates env params \<Sigma> \<epsilon> st0 k st \<Longrightarrow> args st = args st0"
proof (induction rule: pga_iterates.induct)
  case pga_first
  show ?case by simp
next
  case (pga_next k st st1)
  from pga_qub_loop_cached(2) [OF pga_next.hyps(3)] pga_next.IH show ?case
    by (simp add: pga_advance_args pga_stop_crit_cached)
qed

lemma pga_entry_args:
  "arg_y (pga_entry env params \<Sigma> x y err_z) = y"
  "arg_err_z (pga_entry env params \<Sigma> x y err_z) = err_z"
  by (simp_all add: pga_entry_def pga_estimated_def pga_estimate_def pga_alloc_def Let_def)

section \<open>The results of a call\<close>

text \<open>
  C2, as amended. PANOC, returning from its main loop, has written the results when it
  has converged, or the stop signal is set (whatever the status), or it is asked to
  overwrite them: \<open>x\<close> is then the projected gradient step from the last iterate, \<open>y\<close> the
  multiplier estimate there and \<open>err_z\<close> the constraint error there, computed with the
  \<open>y\<close> of the caller; otherwise \<open>x\<close>, \<open>y\<close> and \<open>err_z\<close> are as the caller passed them. PGA,
  returning from its main loop, has written them in every case. The status is
  \<open>Converged\<close> exactly when the stop criterion is within the tolerance.
\<close>

theorem results_written:
  "(panoc_loop env params \<Sigma> \<epsilon> ow 0 (panoc_entry env params dp \<Sigma> x y err_z) = Some (Inr st') \<longrightarrow>
      (status (stats st') = Converged) = conv \<epsilon> st' \<and>
      (if conv \<epsilon> st' \<or> interrupted env (iterations (stats st')) \<or> ow
       then arg_x st' = fst (calc_xhat env (gamma_k st') (x_k st') (grad_psi_k st')) \<and>
            arg_y st' = snd (calc_psi_yhat env (arg_x st') y \<Sigma>) \<and>
            arg_err_z st' = calc_err_z env (arg_x st') y \<Sigma>
       else arg_x st' = x \<and> arg_y st' = y \<and> arg_err_z st' = err_z)) \<and>
   (pga_loop penv pparams \<Sigma> \<epsilon> 0 (pga_entry penv pparams \<Sigma> x y err_z) = Some (Inr pst') \<longrightarrow>
      (status (stats pst') = Converged) = conv \<epsilon> pst' \<and>
      arg_x pst' = fst (calc_xhat penv (gamma_k pst') (x_k pst') (grad_psi_k pst')) \<and>
      arg_y pst' = snd (calc_psi_yhat penv (arg_x pst') y \<Sigma>) \<and>
      arg_err_z pst' = calc_err_z penv (arg_x pst') y \<Sigma>)"
proof (intro conjI impI)
  assume run: "panoc_loop env params \<Sigma> \<epsilon> ow 0 (panoc_entry env params dp \<Sigma> x y err_z)
                 = Some (Inr st')"
  then obtain k s s1 where
    it: "panoc_iterates env params \<Sigma> \<epsilon> (panoc_entry env params dp \<Sigma> x y err_z) k s"
    and qub: "panoc_qub env params \<Sigma> k s = Some s1"
    and st': "st' = panoc_exit_block env params \<Sigma> \<epsilon> ow k (panoc_stop_crit env params k s1)"
    by (rule panoc_loop_exit)
  let ?e = "panoc_stop_crit env params k s1"
  from panoc_iterates_cached [OF it panoc_entry_cached(1)]
  have s: "panoc_cached env \<Sigma> s" "args s = (x, y, err_z)"
    by (simp_all add: panoc_entry_cached(2))
  from panoc_qub_cached [OF qub s(1)] have c: "panoc_cached env \<Sigma> ?e"
    by (rule panoc_stop_crit_cached)
  from panoc_qub_args [OF qub] s(2) have a: "args ?e = (x, y, err_z)"
    by (simp add: panoc_stop_crit_args)
  show "(status (stats st') = Converged) = conv \<epsilon> st'"
    by (simp add: st' panoc_exit_block_simps exit_status_def conv_def)
  show "if conv \<epsilon> st' \<or> interrupted env (iterations (stats st')) \<or> ow
       then arg_x st' = fst (calc_xhat env (gamma_k st') (x_k st') (grad_psi_k st')) \<and>
            arg_y st' = snd (calc_psi_yhat env (arg_x st') y \<Sigma>) \<and>
            arg_err_z st' = calc_err_z env (arg_x st') y \<Sigma>
       else arg_x st' = x \<and> arg_y st' = y \<and> arg_err_z st' = err_z"
    using c a
    by (simp add: st' panoc_exit_block_def panoc_cached_def args_def Let_def conv_def)
next
  assume run: "pga_loop penv pparams \<Sigma> \<epsilon> 0 (pga_entry penv pparams \<Sigma> x y err_z)
                 = Some (Inr pst')"
  then obtain k s s1 where
    it: "pga_iterates penv pparams \<Sigma> \<epsilon> (pga_entry penv pparams \<Sigma> x y err_z) k s"
    and qub: "pga_qub_loop penv \<Sigma> (pga_prox penv \<Sigma> s) = Some s1"
    and st': "pst' = pga_exit_block penv pparams \<Sigma> \<epsilon> k (pga_stop_crit penv s1)"
    by (rule pga_loop_exit)
  let ?e = "pga_stop_crit penv s1"
  from pga_qub_loop_cached(1) [OF qub] have c: "pga_cached penv \<Sigma> ?e"
    by (rule pga_stop_crit_cached)
  from pga_iterates_args [OF it] pga_qub_loop_cached(2) [OF qub]
  have a: "arg_y ?e = y"
    by (simp add: pga_stop_crit_cached(2) [THEN args_eqD] args_def pga_entry_args)
  show "(status (stats pst') = Converged) = conv \<epsilon> pst'"
    by (simp add: st' pga_exit_block_simps exit_status_def conv_def)
  from c a show "arg_x pst' = fst (calc_xhat penv (gamma_k pst') (x_k pst') (grad_psi_k pst'))"
    "arg_y pst' = snd (calc_psi_yhat penv (arg_x pst') y \<Sigma>)"
    "arg_err_z pst' = calc_err_z penv (arg_x pst') y \<Sigma>"
    by (simp_all add: st' pga_exit_block_def pga_cached_def Let_def)
qed

text \<open>The example with no iteration left: PANOC, not asked to overwrite and not
  interrupted, leaves the arguments; PGA writes them.\<close>

theorem results_written_witness:
  "map_option (map_sum id (\<lambda>st. (conv (Fin (1/1000)) st, arg_x st, arg_y st, arg_err_z st)))
     (panoc_loop (example_env PInf 0 False) (example_params\<lparr>max_iter := 0, max_time := 0\<rparr>)
        [Fin 1] (Fin (1/1000)) False 0
        (panoc_entry (example_env PInf 0 False) (example_params\<lparr>max_iter := 0, max_time := 0\<rparr>)
           () [Fin 1] [Fin (- 1)] [Fin 1] [Fin 7]))
     = Some (Inr (False, [Fin (- 1)], [Fin 1], [Fin 7])) \<and>
   map_option (map_sum id (\<lambda>st. (arg_y st, arg_err_z st)))
     (pga_loop (example_env PInf 0 False) (example_pga_params\<lparr>max_iter := 0, max_time := 0\<rparr>)
        [Fin 1] (Fin (1/1000)) 0
        (pga_entry (example_env PInf 0 False) (example_pga_params\<lparr>max_iter := 0, max_time := 0\<rparr>)
           [Fin 1] [Fin (- 1)] [Fin 1] [Fin 7]))
     = Some (Inr ([Fin 0], [Fin (- 1)]))"
proof -
  obtain st' where run: "panoc_loop (example_env PInf 0 False)
        (example_params\<lparr>max_iter := 0, max_time := 0\<rparr>) [Fin 1] (Fin (1/1000)) False 0
        (panoc_entry (example_env PInf 0 False) (example_params\<lparr>max_iter := 0, max_time := 0\<rparr>)
           () [Fin 1] [Fin (- 1)] [Fin 1] [Fin 7]) = Some (Inr st')"
    and st': "eps_k st' = Fin (343 / 512)" "iterations (stats st') = 0"
    using example_panoc_first_exit [of 0 False False] by blast
  obtain pst' where prun: "pga_loop (example_env PInf 0 False)
        (example_pga_params\<lparr>max_iter := 0, max_time := 0\<rparr>) [Fin 1] (Fin (1/1000)) 0
        (pga_entry (example_env PInf 0 False) (example_pga_params\<lparr>max_iter := 0, max_time := 0\<rparr>)
           [Fin 1] [Fin (- 1)] [Fin 1] [Fin 7]) = Some (Inr pst')"
    and pst': "arg_x pst' = [Fin (- (7/8))]"
    using example_pga_first_exit [of 0 False] by blast
  note T = results_written [of "example_env PInf 0 False"
      "example_params\<lparr>max_iter := 0, max_time := 0\<rparr>" "[Fin 1]" "Fin (1/1000)" False "()"
      "[Fin (- 1)]" "[Fin 1]" "[Fin 7]" st' "example_env PInf 0 False"
      "example_pga_params\<lparr>max_iter := 0, max_time := 0\<rparr>" pst']
  have c: "\<not> conv (Fin (1/1000)) st'"
    "\<not> interrupted (example_env PInf 0 False) (iterations (stats st'))"
    by (simp_all add: st' flag_defs example_defs real_t_ops)
  from T [THEN conjunct1, THEN mp, OF run] c
  have "arg_x st' = [Fin (- 1)] \<and> arg_y st' = [Fin 1] \<and> arg_err_z st' = [Fin 7]"
    by simp
  moreover from T [THEN conjunct2, THEN mp, OF prun]
  have "arg_y pst' = [Fin 0] \<and> arg_err_z pst' = [Fin (- 1)]"
    by (simp add: pst' example_defs real_t_ops)
  ultimately show ?thesis using run prun c by simp
qed

text \<open>C2 as it is stated fails. With no iteration left, and neither converged nor asked
  to overwrite: PGA returns \<open>MaxIter\<close> and has written \<open>x\<close>, \<open>y\<close> and \<open>err_z\<close>; PANOC with
  the stop signal set returns \<open>MaxIter\<close>, not \<open>Interrupted\<close>, and has written them.\<close>

theorem results_written_counterexample:
  "outcome (PGA_call (example_env PInf 0 False) (example_pga_params\<lparr>max_iter := 0\<rparr>)
              [Fin 1] (Fin (1/1000)) [Fin (- 1)] [Fin 1] [Fin 7])
     = Some (Inr (MaxIter, [Fin (- (7/8))], [Fin 0], [Fin (- 1)])) \<and>
   outcome (PANOC_call (example_env PInf 0 True) (example_params\<lparr>max_iter := 0\<rparr>) ()
              [Fin 1] (Fin (1/1000)) False [Fin (- 1)] [Fin 1] [Fin 7])
     = Some (Inr (MaxIter, [Fin (- (7/8))], [Fin 0], [Fin (- 1)]))"
  by (simp add: PGA_call_def PANOC_call_def outcome_def pga_loop.simps[of _ _ _ _ 0]
        panoc_loop.simps[of _ _ _ _ _ 0] common_defs pga_block_defs panoc_block_defs
        example_defs Let_def vec_ops real_t_ops epsilon_def pga_qub_loop_unfold
        panoc_qub_loop_unfold flag_defs)

section \<open>The frame of the line search\<close>

text \<open>A function of the state that the four steps of a pass do not change is not
  changed by the line search.\<close>

lemma linesearch_qub_frame:
  assumes "linesearch_qub env params \<Sigma> st = Some st'"
    and "\<And>s. f (panoc_qub_body_k1 env \<Sigma> s) = f s"
    and "\<And>s g old_g. f (anderson_changed_gamma env params g old_g
             (s\<lparr>direction_provider := dir_changed_gamma env (direction_provider s) g old_g\<rparr>))
           = f s"
  shows "f st' = f st"
proof (cases "update_lipschitz_in_linesearch params")
  case True
  with assms(1) obtain s where loop: "panoc_qub_loop_k1 env params \<Sigma> st = Some s"
    and st': "st' = (if r_ne (gamma_k1 s) (gamma_k1 st)
                 then anderson_changed_gamma env params (gamma_k1 s) (gamma_k1 st)
                        (s\<lparr>direction_provider :=
                              dir_changed_gamma env (direction_provider s)
                                (gamma_k1 s) (gamma_k1 st)\<rparr>)
                 else s)"
    by (auto simp: linesearch_qub_def Let_def split: Option.bind_splits)
  from loop assms(2) have "f s = f st"
    by (rule panoc_qub_loop_k1_frame)
  then show ?thesis
    by (simp add: st' assms(3))
next
  case False
  with assms(1) show ?thesis by (simp add: linesearch_qub_def)
qed

lemma linesearch_pass_frame:
  assumes "linesearch_pass env params \<Sigma> st = Some st'"
    and "\<And>s. f (linesearch_candidate env params \<Sigma> s) = f s"
    and "\<And>s. f (panoc_qub_body_k1 env \<Sigma> s) = f s"
    and "\<And>s g old_g. f (anderson_changed_gamma env params g old_g
             (s\<lparr>direction_provider := dir_changed_gamma env (direction_provider s) g old_g\<rparr>))
           = f s"
    and "\<And>s. f (linesearch_condition params s) = f s"
  shows "f st' = f st"
proof -
  from assms(1) obtain s where
    q: "linesearch_qub env params \<Sigma> (linesearch_candidate env params \<Sigma> st) = Some s"
    and st': "st' = linesearch_condition params s"
    by (auto simp: linesearch_pass_def split: Option.bind_splits)
  from linesearch_qub_frame [of env params \<Sigma> _ s f, OF q assms(3) assms(4)]
  show ?thesis
    by (simp add: st' assms(2) assms(5))
qed

lemma linesearch_passes_frame:
  assumes "linesearch_passes env params \<Sigma> st s"
    and "\<And>s. f (linesearch_candidate env params \<Sigma> s) = f s"
    and "\<And>s. f (panoc_qub_body_k1 env \<Sigma> s) = f s"
    and "\<And>s g old_g. f (anderson_changed_gamma env params g old_g
             (s\<lparr>direction_provider := dir_changed_gamma env (direction_provider s) g old_g\<rparr>))
           = f s"
    and "\<And>s. f (linesearch_condition params s) = f s"
  shows "f s = f st"
  using assms(1)
proof (induction rule: linesearch_passes.induct)
  case first_pass
  show ?case by simp
next
  case (next_pass s s')
  from linesearch_pass_frame [of env params \<Sigma> s s' f, OF next_pass.hyps(2) assms(2-5)]
    next_pass.IH
  show ?case by simp
qed

lemma linesearch_loop_frame:
  assumes "linesearch_loop env params \<Sigma> st = Some st'"
    and "\<And>s. f (linesearch_candidate env params \<Sigma> s) = f s"
    and "\<And>s. f (panoc_qub_body_k1 env \<Sigma> s) = f s"
    and "\<And>s g old_g. f (anderson_changed_gamma env params g old_g
             (s\<lparr>direction_provider := dir_changed_gamma env (direction_provider s) g old_g\<rparr>))
           = f s"
    and "\<And>s. f (linesearch_condition params s) = f s"
  shows "f st' = f st"
proof -
  from linesearch_loop_passes [OF assms(1)] obtain s where
    p: "linesearch_passes env params \<Sigma> st s" and l: "linesearch_pass env params \<Sigma> s = Some st'"
    by blast
  from linesearch_pass_frame [of env params \<Sigma> s st' f, OF l assms(2-5)]
    linesearch_passes_frame [of env params \<Sigma> st s f, OF p assms(2-5)]
  show ?thesis by simp
qed

text \<open>The line search changes neither the iterate, nor the step and the direction from
  it, nor the counter of iterations without progress, nor the statistics.\<close>

lemma linesearch_loop_keeps:
  assumes "linesearch_loop env params \<Sigma> st = Some st'"
  shows "x_k st' = x_k st" and "p_k st' = p_k st" and "q_k st' = q_k st"
    and "no_progress st' = no_progress st" and "stats st' = stats st"
    and "L_k st' = L_k st" and "gamma_k st' = gamma_k st"
  by (rule linesearch_loop_frame [OF assms];
      simp add: linesearch_candidate_def panoc_qub_body_k1_def anderson_changed_gamma_def
        linesearch_condition_def Let_def)+

section \<open>Iterations without progress\<close>

lemma panoc_step_no_progress:
  assumes "panoc_step env params \<Sigma> k st = Some (Inr st')"
  shows "no_progress st' =
           (if 0 < no_progress st \<or> k mod lbfgs_mem params = 0
            then (if vec_eq (x_k st) (x_k st') then no_progress st + 1 else 0)
            else no_progress st)"
proof -
  from assms obtain sa sl sn where
    a: "panoc_anderson env params \<Sigma> k (panoc_apply env k st) = Inr sa"
    and l: "linesearch_loop env params \<Sigma> (linesearch_init env k sa) = Some sl"
    and n: "panoc_no_progress params k
              (panoc_update_direction env (linesearch_failed params k sl)) = Inr sn"
    and st': "st' = panoc_advance (anderson_update params k sn)"
    by (auto simp: panoc_step_def split: sum.splits Option.bind_splits)
  let ?u = "panoc_update_direction env (linesearch_failed params k sl)"
  have "x_k sa = x_k (panoc_apply env k st)"
    "no_progress sa = no_progress (panoc_apply env k st)"
    by (rule panoc_anderson_frame [OF a]; simp)+
  then have sa: "x_k sa = x_k st" "no_progress sa = no_progress st"
    by (simp_all add: panoc_apply_def Let_def)
  from linesearch_loop_keeps [OF l] sa
  have u: "x_k ?u = x_k st" "no_progress ?u = no_progress st" "x_k1 ?u = x_k1 sl"
    by (simp_all add: panoc_update_direction_def linesearch_failed_def linesearch_init_def
          Let_def)
  from n have sn: "x_k sn = x_k ?u" "x_k1 sn = x_k1 ?u"
    "no_progress sn =
       (if 0 < no_progress ?u \<or> k mod lbfgs_mem params = 0
        then (if vec_eq (x_k ?u) (x_k1 ?u) then no_progress ?u + 1 else 0)
        else no_progress ?u)"
    by (auto simp: panoc_no_progress_def split: if_splits)
  have "x_k st' = x_k1 sn" "no_progress st' = no_progress sn"
    by (simp_all add: st' panoc_advance_def anderson_update_def Let_def)
  with sn u show ?thesis by simp
qed

text \<open>
  C8. An iteration of PANOC that is completed updates the counter when it is not zero or
  \<open>k mod lbfgs_mem\<close> is zero, to one more when the iterate and the next are equal
  component by component, and to zero when they are not; otherwise the counter is kept.
  The exit block is entered when the counter is above \<open>lbfgs_mem\<close>, with status
  \<open>NoProgress\<close> when no flag before it in the order of the status holds. PGA updates the
  counter in every iteration, comparing the iterate with the projected gradient step
  that becomes the next one, and exits when the counter is above 1.
\<close>

theorem no_progress_detection:
  "(panoc_step env params \<Sigma> k st = Some (Inr st') \<longrightarrow>
      no_progress st' =
        (if 0 < no_progress st \<or> k mod lbfgs_mem params = 0
         then (if vec_eq (x_k st) (x_k st') then no_progress st + 1 else 0)
         else no_progress st)) \<and>
   panoc_max_no_progress params st = (lbfgs_mem params < no_progress st) \<and>
   (panoc_max_no_progress params st \<longrightarrow> panoc_exit env params \<epsilon> k st) \<and>
   (status (stats (panoc_exit_block env params \<Sigma> \<epsilon> ow k st)) = NoProgress) =
     (\<not> conv \<epsilon> st \<and> \<not> out_of_time env params k \<and> \<not> out_of_iter params k \<and>
      \<not> not_finite st \<and> panoc_max_no_progress params st) \<and>
   no_progress (pga_advance pst) =
     (if vec_eq (x_k pst) (xhat_k pst) then no_progress pst + 1 else 0) \<and>
   x_k (pga_advance pst) = xhat_k pst \<and>
   pga_max_no_progress pst = (1 < no_progress pst) \<and>
   (pga_max_no_progress pst \<longrightarrow> pga_exit penv pparams \<epsilon> k pst) \<and>
   (status (stats (pga_exit_block penv pparams \<Sigma> \<epsilon> k pst)) = NoProgress) =
     (\<not> conv \<epsilon> pst \<and> \<not> out_of_time penv pparams k \<and> \<not> out_of_iter pparams k \<and>
      \<not> not_finite pst \<and> pga_max_no_progress pst)"
  by (intro conjI impI; (rule panoc_step_no_progress, assumption)?)
     (simp_all add: flag_defs panoc_exit_block_simps pga_exit_block_simps exit_status_def
        pga_advance_def Let_def)


text \<open>The example started in its minimiser, where the projected gradient step does not
  move: the first iteration counts one iteration without progress, in PANOC and in PGA.\<close>

lemma example_fixed_point_step:
  "\<exists>st'. panoc_step (example_env PInf 0 False) example_params [Fin 1] 0
            (panoc_stop_crit (example_env PInf 0 False) example_params 0
               (panoc_entry (example_env PInf 0 False) example_params ()
                  [Fin 1] [Fin 0] [Fin 1] [Fin 7])) = Some (Inr st') \<and>
         x_k st' = [Fin 0]"
  by (simp add: linesearch_loop.simps panoc_qub_loop_k1.simps common_defs panoc_block_defs
        example_defs Let_def vec_ops real_t_ops epsilon_def)

lemma example_fixed_point_state:
  "x_k (panoc_stop_crit (example_env PInf 0 False) example_params 0
          (panoc_entry (example_env PInf 0 False) example_params ()
             [Fin 1] [Fin 0] [Fin 1] [Fin 7])) = [Fin 0]"
  "no_progress (panoc_stop_crit (example_env PInf 0 False) example_params 0
          (panoc_entry (example_env PInf 0 False) example_params ()
             [Fin 1] [Fin 0] [Fin 1] [Fin 7])) = 0"
  "x_k (pga_prox (example_env PInf 0 False) [Fin 1]
          (pga_entry (example_env PInf 0 False) example_pga_params
             [Fin 1] [Fin 0] [Fin 1] [Fin 7])) = [Fin 0]"
  "xhat_k (pga_prox (example_env PInf 0 False) [Fin 1]
          (pga_entry (example_env PInf 0 False) example_pga_params
             [Fin 1] [Fin 0] [Fin 1] [Fin 7])) = [Fin 0]"
  "no_progress (pga_prox (example_env PInf 0 False) [Fin 1]
          (pga_entry (example_env PInf 0 False) example_pga_params
             [Fin 1] [Fin 0] [Fin 1] [Fin 7])) = 0"
  by (simp_all add: common_defs panoc_block_defs pga_block_defs example_defs Let_def vec_ops
        real_t_ops epsilon_def)

theorem no_progress_detection_witness:
  "map_option (map_sum id no_progress)
     (panoc_step (example_env PInf 0 False) example_params [Fin 1] 0
        (panoc_stop_crit (example_env PInf 0 False) example_params 0
           (panoc_entry (example_env PInf 0 False) example_params ()
              [Fin 1] [Fin 0] [Fin 1] [Fin 7]))) = Some (Inr 1) \<and>
   panoc_exit (example_env PInf 0 False) example_params (Fin (1/1000)) 0
     ((panoc_entry (example_env PInf 0 False) example_params ()
         [Fin 1] [Fin 0] [Fin 1] [Fin 7])\<lparr>no_progress := 11\<rparr>) \<and>
   no_progress (pga_advance (pga_prox (example_env PInf 0 False) [Fin 1]
     (pga_entry (example_env PInf 0 False) example_pga_params
        [Fin 1] [Fin 0] [Fin 1] [Fin 7]))) = 1 \<and>
   pga_exit (example_env PInf 0 False) example_pga_params (Fin (1/1000)) 0
     ((pga_entry (example_env PInf 0 False) example_pga_params
         [Fin 1] [Fin 0] [Fin 1] [Fin 7])\<lparr>no_progress := 2\<rparr>)"
proof -
  let ?E = "example_env PInf 0 False"
  let ?S = "panoc_stop_crit ?E example_params 0
              (panoc_entry ?E example_params () [Fin 1] [Fin 0] [Fin 1] [Fin 7])"
  let ?M = "(panoc_entry ?E example_params () [Fin 1] [Fin 0] [Fin 1] [Fin 7])
              \<lparr>no_progress := 11\<rparr>"
  let ?P = "pga_prox ?E [Fin 1] (pga_entry ?E example_pga_params [Fin 1] [Fin 0] [Fin 1] [Fin 7])"
  let ?N = "(pga_entry ?E example_pga_params [Fin 1] [Fin 0] [Fin 1] [Fin 7])
              \<lparr>no_progress := 2\<rparr>"
  obtain st' where step: "panoc_step ?E example_params [Fin 1] 0 ?S = Some (Inr st')"
    and x: "x_k st' = [Fin 0]"
    using example_fixed_point_step by blast
  note T = no_progress_detection [of ?E example_params "[Fin 1]" 0 ?S st' "Fin (1/1000)"
      False ?P ?E example_pga_params]
  have lm: "lbfgs_mem example_params = 10"
    by (simp add: example_params_def)
  from T [THEN conjunct1, THEN mp, OF step]
  have 1: "no_progress st' = 1"
    by (simp add: x example_fixed_point_state lm vec_eq_def)
  note U = no_progress_detection [of ?E example_params "[Fin 1]" 0 ?M st' "Fin (1/1000)"
      False ?N ?E example_pga_params]
  have m: "panoc_max_no_progress example_params ?M" "pga_max_no_progress ?N"
    by (simp_all add: flag_defs lm)
  from U [THEN conjunct2, THEN conjunct2, THEN conjunct1, THEN mp, OF m(1)]
  have 2: "panoc_exit ?E example_params (Fin (1/1000)) 0 ?M" .
  from T [THEN conjunct2, THEN conjunct2, THEN conjunct2, THEN conjunct2, THEN conjunct1]
  have 3: "no_progress (pga_advance ?P) = 1"
    by (simp add: example_fixed_point_state vec_eq_def)
  from U [THEN conjunct2, THEN conjunct2, THEN conjunct2, THEN conjunct2, THEN conjunct2,
      THEN conjunct2, THEN conjunct2, THEN conjunct1, THEN mp, OF m(2)]
  have 4: "pga_exit ?E example_pga_params (Fin (1/1000)) 0 ?N" .
  from step 1 2 3 4 show ?thesis by simp
qed

section \<open>Anderson acceleration\<close>

lemma anderson_minimize_keeps:
  assumes "anderson_minimize env st = Inr st'"
  shows "xhat_k st' = xhat_k st" and "p_k st' = p_k st" and "psi_xhat_k st' = psi_xhat_k st"
    and "grad_hat_psi_k st' = grad_hat_psi_k st" and "x_k st' = x_k st"
    and "arg_y st' = arg_y st" and "anderson_accepted st' = anderson_accepted st"
  by (rule anderson_minimize_frame [OF assms]; simp)+

lemma anderson_minimize_point:
  assumes "anderson_minimize env st = Inr st'"
  shows "y_aa_k st' =
     snd (snd (snd (minimize_update_anderson env (qr st) (G_aa st)
       (vsub (vsub (x_k st) (scal (gamma_k st) (grad_psi_k st))) (y_aa_k st)) (r_aa_km1 st)
       (vsub (x_k st) (scal (gamma_k st) (grad_psi_k st))) (gamma_aa_LS st) (y_aa_k st))))"
  using assms by (auto simp: anderson_minimize_def Let_def split: if_splits)

text \<open>
  C6. In an iteration \<open>k \<ge> 1\<close> with Anderson acceleration on, the accelerated point \<open>y\<close>
  that \<open>minimize_update_anderson\<close> returns is accepted exactly when the objective in its
  projection is below the one held for \<open>x\<^sub>k\<close> hat. When it is accepted, \<open>x\<^sub>k\<close> hat becomes
  the projection, \<open>p\<^sub>k\<close> the difference to \<open>x\<^sub>k\<close>, the objective held for \<open>x\<^sub>k\<close> hat the one
  in the projection, which is below the one before, and the gradient in \<open>x\<^sub>k\<close> hat is
  computed from the multiplier estimate in the projection. When it is rejected all
  four are kept.
\<close>

theorem anderson_acceptance:
  assumes "panoc_anderson env params \<Sigma> k st = Inr st'"
    and "k \<noteq> 0" and "anderson_acceleration params \<noteq> 0"
  shows "y_aa_k st' =
     snd (snd (snd (minimize_update_anderson env (qr st) (G_aa st)
       (vsub (vsub (x_k st) (scal (gamma_k st) (grad_psi_k st))) (y_aa_k st)) (r_aa_km1 st)
       (vsub (x_k st) (scal (gamma_k st) (grad_psi_k st))) (gamma_aa_LS st) (y_aa_k st)))) \<and>
    anderson_accepted st' =
      (fst (calc_psi_yhat env (project env (y_aa_k st')) (arg_y st) \<Sigma>) < psi_xhat_k st) \<and>
    (anderson_accepted st' \<longrightarrow>
       xhat_k st' = project env (y_aa_k st') \<and>
       p_k st' = vsub (xhat_k st') (x_k st) \<and>
       psi_xhat_k st' = fst (calc_psi_yhat env (xhat_k st') (arg_y st) \<Sigma>) \<and>
       grad_hat_psi_k st' =
         calc_grad_psi_from_yhat env (xhat_k st')
           (snd (calc_psi_yhat env (xhat_k st') (arg_y st) \<Sigma>)) \<and>
       psi_xhat_k st' < psi_xhat_k st) \<and>
    (\<not> anderson_accepted st' \<longrightarrow>
       xhat_k st' = xhat_k st \<and> p_k st' = p_k st \<and> psi_xhat_k st' = psi_xhat_k st \<and>
       grad_hat_psi_k st' = grad_hat_psi_k st)"
proof -
  let ?s = "st\<lparr>anderson_accepted := False\<rparr>"
  from assms obtain sm where m: "anderson_minimize env ?s = Inr sm"
    and st': "st' = anderson_accept env \<Sigma> sm"
    by (auto simp: panoc_anderson_def Let_def split: sum.splits)
  note k = anderson_minimize_keeps [OF m]
  have y: "y_aa_k st' = y_aa_k sm"
    by (simp add: st' anderson_accept_def Let_def)
  from anderson_minimize_point [OF m] y have 1: "y_aa_k st' =
     snd (snd (snd (minimize_update_anderson env (qr st) (G_aa st)
       (vsub (vsub (x_k st) (scal (gamma_k st) (grad_psi_k st))) (y_aa_k st)) (r_aa_km1 st)
       (vsub (x_k st) (scal (gamma_k st) (grad_psi_k st))) (gamma_aa_LS st) (y_aa_k st))))"
    by simp
  have 2: "anderson_accepted st' =
      (fst (calc_psi_yhat env (project env (y_aa_k st')) (arg_y st) \<Sigma>) < psi_xhat_k st)"
    using k by (simp add: st' anderson_accept_def Let_def)
  have 3: "anderson_accepted st' \<Longrightarrow>
       xhat_k st' = project env (y_aa_k st') \<and>
       p_k st' = vsub (xhat_k st') (x_k st) \<and>
       psi_xhat_k st' = fst (calc_psi_yhat env (xhat_k st') (arg_y st) \<Sigma>) \<and>
       grad_hat_psi_k st' =
         calc_grad_psi_from_yhat env (xhat_k st')
           (snd (calc_psi_yhat env (xhat_k st') (arg_y st) \<Sigma>)) \<and>
       psi_xhat_k st' < psi_xhat_k st"
    using k by (simp add: st' anderson_accept_def Let_def split: if_splits)
  have 4: "\<not> anderson_accepted st' \<Longrightarrow>
       xhat_k st' = xhat_k st \<and> p_k st' = p_k st \<and> psi_xhat_k st' = psi_xhat_k st \<and>
       grad_hat_psi_k st' = grad_hat_psi_k st"
    using k by (simp add: st' anderson_accept_def Let_def split: if_splits)
  from 1 2 3 4 show ?thesis by blast
qed


section \<open>The states of the example\<close>

lemma example_first_eq:
  "example_first =
     \<lparr>arg_x = [Fin (- 1)], arg_y = [Fin 1], arg_err_z = [Fin 7],
      stats = \<lparr>iterations = 0, final_eps = PInf, elapsed_time = 0, status = Unknown,
               linesearch_failures = 0, lbfgs_failures = 0, lbfgs_rejected = 0\<rparr>,
      x_k = [Fin (- 1)], xhat_k = [Fin (- (1 / 2))], p_k = [Fin (1 / 2)],
      grad_psi_k = [Fin (- 1)], psi_k = Fin (1 / 4), L_k = Fin 1,
      gamma_k = Fin (1 / 2), no_progress = 0, psi_xhat_k = Fin (1 / 64),
      grad_psi_kTp_k = Fin (- (1 / 2)), norm_sq_p_k = Fin (1 / 4),
      eps_k = NaN, x_k1 = [Fin 0], xhat_k1 = [NaN], yhat_xhat_k = [Fin 0],
      yhat_xhat_k1 = [NaN], p_k1 = [NaN], q_k = [NaN],
      grad_hat_psi_k = [NaN], grad_psi_k1 = [Fin 0],
      direction_provider = (), r_aa_km1 = [NaN], r_aa_k = [NaN],
      y_aa_k = [NaN], x_aa_k = [NaN], g_aa_k = [NaN], gamma_aa_LS = [NaN],
      yhat_aa_k = [NaN], G_aa = [[NaN]], qr = (), sigma_k = Fin (1 / 8),
      phi_k = Fin 0, old_gamma_k = NaN, anderson_accepted = False,
      tau = NaN, sigma_norm_gamma_inv_p_k = NaN, phi_k1 = NaN,
      psi_k1 = NaN, psi_xhat_k1 = NaN, grad_psi_k1Tp_k1 = NaN,
      norm_sq_p_k1 = NaN, L_k1 = NaN, sigma_k1 = NaN, gamma_k1 = NaN,
      ls_cond = NaN, norm_sq_p_k1_k = NaN\<rparr>"
  by (simp add: example_first_def common_defs panoc_block_defs example_defs Let_def vec_ops
        real_t_ops epsilon_def)

lemma example_second_eq:
  "example_second =
     \<lparr>arg_x = [Fin (- 1)], arg_y = [Fin 1], arg_err_z = [Fin 7],
      stats = \<lparr>iterations = 0, final_eps = PInf, elapsed_time = 0, status = Unknown,
               linesearch_failures = 0, lbfgs_failures = 0, lbfgs_rejected = 0\<rparr>,
      x_k = [Fin (- (7 / 8))], xhat_k = [Fin (- (3241 / 4096))],
      p_k = [Fin (343 / 4096)], grad_psi_k = [Fin (- (343 / 512))],
      psi_k = Fin (2401 / 16384), L_k = Fin 4, gamma_k = Fin (1 / 8),
      no_progress = 0,
      psi_xhat_k = Fin (110335717654561 / 1125899906842624),
      grad_psi_kTp_k = Fin (- (117649 / 2097152)),
      norm_sq_p_k = Fin (117649 / 16777216),
      eps_k = Fin (34043726521 / 68719476736), x_k1 = [Fin (- 1)],
      xhat_k1 = [Fin 0], yhat_xhat_k = [Fin 0], yhat_xhat_k1 = [Fin 0],
      p_k1 = [Fin (1 / 8)], q_k = [Fin (343 / 4096)],
      grad_hat_psi_k = [Fin (- (34043726521 / 68719476736))],
      grad_psi_k1 = [Fin (- 1)], direction_provider = (),
      r_aa_km1 = [Fin (1 / 8)], r_aa_k = [NaN], y_aa_k = [Fin (- (7 / 8))],
      x_aa_k = [NaN], g_aa_k = [NaN], gamma_aa_LS = [NaN],
      yhat_aa_k = [NaN], G_aa = [[Fin (- (7 / 8))]], qr = (),
      sigma_k = Fin (1 / 32), phi_k = Fin (497007 / 4194304),
      old_gamma_k = Fin (1 / 8), anderson_accepted = False, tau = Fin 0,
      sigma_norm_gamma_inv_p_k = Fin (1 / 32),
      phi_k1 = Fin (497007 / 4194304), psi_k1 = Fin (2401 / 16384),
      psi_xhat_k1 = Fin (110335717654561 / 1125899906842624),
      grad_psi_k1Tp_k1 = Fin (- (117649 / 2097152)),
      norm_sq_p_k1 = Fin (117649 / 16777216), L_k1 = Fin 4,
      sigma_k1 = Fin (1 / 32), gamma_k1 = Fin (1 / 8),
      ls_cond = Fin (628079 / 4194304),
      norm_sq_p_k1_k = Fin (117649 / 16777216)\<rparr>"
  unfolding example_second_def example_first_eq
  by (simp add: panoc_iterate_def linesearch_loop.simps panoc_qub_loop.simps
        panoc_qub_loop_k1.simps common_defs panoc_block_defs example_defs Let_def vec_ops
        real_t_ops epsilon_def)

text \<open>The example in its second iteration: the accelerated point is accepted.\<close>

lemma example_second_anderson:
  "\<exists>st'. panoc_anderson (example_env PInf 0 False)
            (example_params\<lparr>anderson_acceleration := 1\<rparr>) [Fin 1] 1 example_second
          = Inr st' \<and>
         y_aa_k st' = [Fin (- (1449 / 2048))]"
  unfolding example_second_eq
  by (simp add: common_defs panoc_block_defs example_defs Let_def vec_ops real_t_ops)

theorem anderson_acceptance_witness:
  "map_sum id (\<lambda>st. (anderson_accepted st, xhat_k st, p_k st, psi_xhat_k st))
     (panoc_anderson (example_env PInf 0 False)
        (example_params\<lparr>anderson_acceleration := 1\<rparr>) [Fin 1] 1 example_second)
     = Inr (True, [Fin (- (1449 / 2048))], [Fin (343 / 2048)],
            Fin (4408324359201 / 70368744177664)) \<and>
   psi_xhat_k example_second = Fin (110335717654561 / 1125899906842624)"
proof -
  obtain st' where a: "panoc_anderson (example_env PInf 0 False)
        (example_params\<lparr>anderson_acceleration := 1\<rparr>) [Fin 1] 1 example_second = Inr st'"
    and y: "y_aa_k st' = [Fin (- (1449 / 2048))]"
    using example_second_anderson by blast
  have s: "x_k example_second = [Fin (- (7 / 8))]" "arg_y example_second = [Fin 1]"
    "psi_xhat_k example_second = Fin (110335717654561 / 1125899906842624)"
    by (simp_all add: example_second_eq)
  have h: "(1 :: u32) \<noteq> 0"
    "anderson_acceleration (example_params\<lparr>anderson_acceleration := 1\<rparr>) \<noteq> 0"
    by simp_all
  note T = anderson_acceptance [OF a h]
  from T [THEN conjunct2, THEN conjunct1] have acc: "anderson_accepted st'"
    by (simp add: s y example_defs real_t_ops)
  from T [THEN conjunct2, THEN conjunct2, THEN conjunct1, THEN mp, OF acc]
  have "xhat_k st' = [Fin (- (1449 / 2048))]" "p_k st' = [Fin (343 / 2048)]"
    "psi_xhat_k st' = Fin (4408324359201 / 70368744177664)"
    by (simp_all add: s y example_defs real_t_ops vsub_def)
  with a acc s(3) show ?thesis by simp
qed

section \<open>The line search\<close>

text \<open>A comparison that holds excludes the converse one, also for the values that are
  not numbers.\<close>

lemma r_less_not_le:
  fixes a b :: real_t
  shows "a < b \<Longrightarrow> \<not> b \<le> a"
  by (cases a; cases b) (simp_all add: real_t_ops)

text \<open>A pass halves \<open>\<tau>\<close>.\<close>

lemma linesearch_pass_tau:
  assumes "linesearch_pass env params \<Sigma> st = Some st'"
  shows "tau st' = tau st / Fin 2"
proof -
  from assms obtain s where
    q: "linesearch_qub env params \<Sigma> (linesearch_candidate env params \<Sigma> st) = Some s"
    and st': "st' = linesearch_condition params s"
    by (auto simp: linesearch_pass_def split: Option.bind_splits)
  have "tau s = tau (linesearch_candidate env params \<Sigma> st)"
    by (rule linesearch_qub_frame [OF q])
       (simp_all add: panoc_qub_body_k1_def anderson_changed_gamma_def Let_def)
  then show ?thesis
    by (simp add: st' linesearch_condition_def linesearch_candidate_def Let_def)
qed

text \<open>The candidate of a pass is the one that \<open>linesearch_candidate\<close> chooses.\<close>

lemma linesearch_pass_candidate:
  assumes "linesearch_pass env params \<Sigma> st = Some st'"
  shows "x_k1 st' = x_k1 (linesearch_candidate env params \<Sigma> st)"
    and "psi_k1 st' = psi_k1 (linesearch_candidate env params \<Sigma> st)"
    and "grad_psi_k1 st' = grad_psi_k1 (linesearch_candidate env params \<Sigma> st)"
    and "xhat_k st' = xhat_k (linesearch_candidate env params \<Sigma> st)"
    and "psi_xhat_k st' = psi_xhat_k (linesearch_candidate env params \<Sigma> st)"
    and "grad_hat_psi_k st' = grad_hat_psi_k (linesearch_candidate env params \<Sigma> st)"
proof -
  from assms obtain s where
    q: "linesearch_qub env params \<Sigma> (linesearch_candidate env params \<Sigma> st) = Some s"
    and st': "st' = linesearch_condition params s"
    by (auto simp: linesearch_pass_def split: Option.bind_splits)
  have "x_k1 s = x_k1 (linesearch_candidate env params \<Sigma> st)"
    by (rule linesearch_qub_frame [OF q])
       (simp_all add: panoc_qub_body_k1_def anderson_changed_gamma_def Let_def)
  then show "x_k1 st' = x_k1 (linesearch_candidate env params \<Sigma> st)"
    by (simp add: st' linesearch_condition_def Let_def)
  have "psi_k1 s = psi_k1 (linesearch_candidate env params \<Sigma> st)"
    by (rule linesearch_qub_frame [OF q])
       (simp_all add: panoc_qub_body_k1_def anderson_changed_gamma_def Let_def)
  then show "psi_k1 st' = psi_k1 (linesearch_candidate env params \<Sigma> st)"
    by (simp add: st' linesearch_condition_def Let_def)
  have "grad_psi_k1 s = grad_psi_k1 (linesearch_candidate env params \<Sigma> st)"
    by (rule linesearch_qub_frame [OF q])
       (simp_all add: panoc_qub_body_k1_def anderson_changed_gamma_def Let_def)
  then show "grad_psi_k1 st' = grad_psi_k1 (linesearch_candidate env params \<Sigma> st)"
    by (simp add: st' linesearch_condition_def Let_def)
  have "xhat_k s = xhat_k (linesearch_candidate env params \<Sigma> st)"
    by (rule linesearch_qub_frame [OF q])
       (simp_all add: panoc_qub_body_k1_def anderson_changed_gamma_def Let_def)
  then show "xhat_k st' = xhat_k (linesearch_candidate env params \<Sigma> st)"
    by (simp add: st' linesearch_condition_def Let_def)
  have "psi_xhat_k s = psi_xhat_k (linesearch_candidate env params \<Sigma> st)"
    by (rule linesearch_qub_frame [OF q])
       (simp_all add: panoc_qub_body_k1_def anderson_changed_gamma_def Let_def)
  then show "psi_xhat_k st' = psi_xhat_k (linesearch_candidate env params \<Sigma> st)"
    by (simp add: st' linesearch_condition_def Let_def)
  have "grad_hat_psi_k s = grad_hat_psi_k (linesearch_candidate env params \<Sigma> st)"
    by (rule linesearch_qub_frame [OF q])
       (simp_all add: panoc_qub_body_k1_def anderson_changed_gamma_def Let_def)
  then show "grad_hat_psi_k st' = grad_hat_psi_k (linesearch_candidate env params \<Sigma> st)"
    by (simp add: st' linesearch_condition_def Let_def)
qed

text \<open>The pass that takes the proximal step is the last one: the passes before it leave
  \<open>x\<^sub>k\<close> hat and what is cached of it as they were when the line search began.\<close>

lemma linesearch_passes_xhat:
  assumes "linesearch_passes env params \<Sigma> s0 s"
  shows "xhat_k s = xhat_k s0 \<and> psi_xhat_k s = psi_xhat_k s0 \<and>
         grad_hat_psi_k s = grad_hat_psi_k s0"
  using assms
proof (induction rule: linesearch_passes.induct)
  case first_pass
  show ?case by simp
next
  case (next_pass s s')
  from next_pass.hyps(3) have "tau_min params \<le> tau s'"
    by (simp add: linesearch_again_def)
  with linesearch_pass_tau [OF next_pass.hyps(2)] r_less_not_le [of "tau s / Fin 2" "tau_min params"]
  have n: "\<not> tau s / Fin 2 < tau_min params"
    by auto
  from linesearch_pass_candidate(4-6) [OF next_pass.hyps(2)] n next_pass.IH
  show ?case
    by (simp add: linesearch_candidate_def Let_def)
qed

lemma linesearch_passes_keeps:
  assumes "linesearch_passes env params \<Sigma> s0 s"
  shows "x_k s = x_k s0" and "p_k s = p_k s0" and "q_k s = q_k s0" and "stats s = stats s0"
    and "arg_y s = arg_y s0"
  by (rule linesearch_passes_frame [OF assms];
      simp add: linesearch_candidate_def panoc_qub_body_k1_def anderson_changed_gamma_def
        linesearch_condition_def Let_def)+

text \<open>The loop continues from every pass that it reaches.\<close>

lemma linesearch_passes_loop:
  assumes "linesearch_passes env params \<Sigma> s0 s"
  shows "linesearch_loop env params \<Sigma> s0 = linesearch_loop env params \<Sigma> s"
  using assms
proof (induction rule: linesearch_passes.induct)
  case first_pass
  show ?case by simp
next
  case (next_pass s s')
  have "linesearch_loop env params \<Sigma> s = linesearch_loop env params \<Sigma> s'"
    by (subst linesearch_loop.simps) (simp add: next_pass.hyps)
  with next_pass.IH show ?case by simp
qed

lemma linesearch_init_keeps:
  "x_k (linesearch_init env k st) = x_k st"
  "p_k (linesearch_init env k st) = p_k st"
  "q_k (linesearch_init env k st) = q_k st"
  "xhat_k (linesearch_init env k st) = xhat_k st"
  "psi_xhat_k (linesearch_init env k st) = psi_xhat_k st"
  "grad_hat_psi_k (linesearch_init env k st) = grad_hat_psi_k st"
  "arg_y (linesearch_init env k st) = arg_y st"
  "linesearch_failures (stats (linesearch_init env k st)) = linesearch_failures (stats st)"
  by (simp_all add: linesearch_init_def Let_def)

text \<open>
  Claim C5. In iteration \<open>k\<close> of PANOC, with \<open>st\<close> the state when the line search is
  initialised (line 299), \<open>s\<close> the state at the head of any pass of the \<open>do\<close> loop and
  \<open>s'\<close> the state at the end of that pass: \<open>\<tau>\<close> starts from 1, or from 0 when \<open>k = 0\<close> or
  \<open>q\<^sub>k\<close> is not finite, and the pass halves it. When \<open>\<tau> / 2 < \<tau>_min\<close> at the head of the
  pass, the candidate \<open>x\<^sub>k\<^sub>+\<^sub>1\<close> is the \<open>x\<^sub>k\<close> hat of the iteration, with the value and the
  gradient that the iteration holds for it, and the pass is the last one; otherwise
  \<open>x\<^sub>k\<^sub>+\<^sub>1 = x\<^sub>k + (1 - \<tau>) p\<^sub>k + \<tau> q\<^sub>k\<close>, with the value and the gradient computed in it. When
  the loop ends, \<open>linesearch_failures\<close> is one more than before if \<open>\<tau> < \<tau>_min\<close> and
  \<open>k \<noteq> 0\<close>, and is unchanged otherwise.
\<close>

theorem linesearch_candidates:
  assumes "linesearch_passes env params \<Sigma> (linesearch_init env k st) s"
    and "linesearch_pass env params \<Sigma> s = Some s'"
  shows "tau (linesearch_init env k st) =
           (if k = 0 \<or> \<not> allFinite (q_k st) then Fin 0 else Fin 1) \<and>
         tau s' = tau s / Fin 2 \<and>
         (tau s / Fin 2 < tau_min params \<longrightarrow>
            x_k1 s' = xhat_k st \<and> psi_k1 s' = psi_xhat_k st \<and>
            grad_psi_k1 s' = grad_hat_psi_k st \<and> \<not> linesearch_again params s') \<and>
         (\<not> tau s / Fin 2 < tau_min params \<longrightarrow>
            x_k1 s' = vadd (vadd (x_k st) (scal (Fin 1 - tau s) (p_k st)))
                        (scal (tau s) (q_k st)) \<and>
            psi_k1 s' = fst (calc_psi_grad_psi env (x_k1 s') (arg_y st) \<Sigma>) \<and>
            grad_psi_k1 s' = snd (calc_psi_grad_psi env (x_k1 s') (arg_y st) \<Sigma>)) \<and>
         (\<not> linesearch_again params s' \<longrightarrow>
            linesearch_loop env params \<Sigma> (linesearch_init env k st) = Some s' \<and>
            linesearch_failures (stats (linesearch_failed params k s')) =
              linesearch_failures (stats st) +
                (if tau s' < tau_min params \<and> k \<noteq> 0 then 1 else 0))"
proof -
  note t = linesearch_pass_tau [OF assms(2)]
  note c = linesearch_pass_candidate [OF assms(2)]
  note x = linesearch_passes_xhat [OF assms(1), unfolded linesearch_init_keeps]
  note kp = linesearch_passes_keeps [OF assms(1), unfolded linesearch_init_keeps]
  have 1: "tau (linesearch_init env k st) =
           (if k = 0 \<or> \<not> allFinite (q_k st) then Fin 0 else Fin 1)"
    by (simp add: linesearch_init_def Let_def)
  have 3: "x_k1 s' = xhat_k st \<and> psi_k1 s' = psi_xhat_k st \<and>
            grad_psi_k1 s' = grad_hat_psi_k st \<and> \<not> linesearch_again params s'"
    if f: "tau s / Fin 2 < tau_min params"
  proof -
    from f t r_less_not_le [of "tau s'" "tau_min params"]
    have "\<not> linesearch_again params s'"
      by (simp add: linesearch_again_def)
    moreover from f have "x_k1 (linesearch_candidate env params \<Sigma> s) = xhat_k s"
      "psi_k1 (linesearch_candidate env params \<Sigma> s) = psi_xhat_k s"
      "grad_psi_k1 (linesearch_candidate env params \<Sigma> s) = grad_hat_psi_k s"
      by (simp_all add: linesearch_candidate_def Let_def)
    ultimately show ?thesis
      using c(1-3) x by simp
  qed
  have 4: "x_k1 s' = vadd (vadd (x_k st) (scal (Fin 1 - tau s) (p_k st)))
                        (scal (tau s) (q_k st)) \<and>
            psi_k1 s' = fst (calc_psi_grad_psi env (x_k1 s') (arg_y st) \<Sigma>) \<and>
            grad_psi_k1 s' = snd (calc_psi_grad_psi env (x_k1 s') (arg_y st) \<Sigma>)"
    if f: "\<not> tau s / Fin 2 < tau_min params"
  proof -
    from f have "x_k1 (linesearch_candidate env params \<Sigma> s) =
        vadd (vadd (x_k s) (scal (Fin 1 - tau s) (p_k s))) (scal (tau s) (q_k s))"
      "psi_k1 (linesearch_candidate env params \<Sigma> s) =
        fst (calc_psi_grad_psi env (x_k1 (linesearch_candidate env params \<Sigma> s)) (arg_y s) \<Sigma>)"
      "grad_psi_k1 (linesearch_candidate env params \<Sigma> s) =
        snd (calc_psi_grad_psi env (x_k1 (linesearch_candidate env params \<Sigma> s)) (arg_y s) \<Sigma>)"
      by (simp_all add: linesearch_candidate_def Let_def)
    with c(1-3) kp show ?thesis by simp
  qed
  have 5: "linesearch_loop env params \<Sigma> (linesearch_init env k st) = Some s' \<and>
            linesearch_failures (stats (linesearch_failed params k s')) =
              linesearch_failures (stats st) +
                (if tau s' < tau_min params \<and> k \<noteq> 0 then 1 else 0)"
    if f: "\<not> linesearch_again params s'"
  proof -
    have "linesearch_loop env params \<Sigma> s = Some s'"
      by (subst linesearch_loop.simps) (simp add: assms(2) f)
    with linesearch_passes_loop [OF assms(1)]
    have l: "linesearch_loop env params \<Sigma> (linesearch_init env k st) = Some s'"
      by simp
    from linesearch_loop_keeps [OF l] have "stats s' = stats (linesearch_init env k st)"
      by simp
    then have "linesearch_failures (stats s') = linesearch_failures (stats st)"
      by (simp add: linesearch_init_keeps)
    then have "linesearch_failures (stats (linesearch_failed params k s')) =
              linesearch_failures (stats st) +
                (if tau s' < tau_min params \<and> k \<noteq> 0 then 1 else 0)"
      by (simp add: linesearch_failed_def)
    with l show ?thesis by simp
  qed
  from 1 t 3 4 5 show ?thesis by blast
qed

text \<open>The example in its second iteration, where the accelerated point has been accepted.
  With \<open>\<tau>_min = 1\<close> the first pass takes the proximal step and the failure is counted; with
  \<open>\<tau>_min = 1 / 256\<close> the first pass tries the quasi-Newton step.\<close>

lemma example_search_eq:
  "example_search =
     \<lparr>arg_x = [Fin (- 1)], arg_y = [Fin 1], arg_err_z = [Fin 7],
      stats = \<lparr>iterations = 0, final_eps = PInf, elapsed_time = 0, status = Unknown,
               linesearch_failures = 0, lbfgs_failures = 0, lbfgs_rejected = 0\<rparr>,
      x_k = [Fin (- (7 / 8))], xhat_k = [Fin (- (1449 / 2048))],
      p_k = [Fin (343 / 2048)], grad_psi_k = [Fin (- (343 / 512))],
      psi_k = Fin (2401 / 16384), L_k = Fin 4, gamma_k = Fin (1 / 8),
      no_progress = 0, psi_xhat_k = Fin (4408324359201 / 70368744177664),
      grad_psi_kTp_k = Fin (- (117649 / 2097152)),
      norm_sq_p_k = Fin (117649 / 16777216),
      eps_k = Fin (34043726521 / 68719476736), x_k1 = [Fin (- 1)],
      xhat_k1 = [Fin 0], yhat_xhat_k = [Fin 0], yhat_xhat_k1 = [Fin 0],
      p_k1 = [Fin (1 / 8)], q_k = [Fin (343 / 4096)],
      grad_hat_psi_k = [Fin (- (3042321849 / 8589934592))],
      grad_psi_k1 = [Fin (- 1)], direction_provider = (),
      r_aa_km1 = [Fin (1 / 8)], r_aa_k = [Fin (343 / 4096)],
      y_aa_k = [Fin (- (1449 / 2048))], x_aa_k = [Fin (- (3241 / 4096))],
      g_aa_k = [Fin (- (3241 / 4096))], gamma_aa_LS = [NaN],
      yhat_aa_k = [Fin 0], G_aa = [[Fin (- (3241 / 4096))]], qr = (),
      sigma_k = Fin (1 / 32), phi_k = Fin (497007 / 4194304),
      old_gamma_k = Fin (1 / 8), anderson_accepted = True, tau = Fin 0,
      sigma_norm_gamma_inv_p_k = Fin (1 / 32),
      phi_k1 = Fin (497007 / 4194304), psi_k1 = Fin (2401 / 16384),
      psi_xhat_k1 = Fin (110335717654561 / 1125899906842624),
      grad_psi_k1Tp_k1 = Fin (- (117649 / 2097152)),
      norm_sq_p_k1 = Fin (117649 / 16777216), L_k1 = Fin 4,
      sigma_k1 = Fin (1 / 32), gamma_k1 = Fin (1 / 8),
      ls_cond = Fin (628079 / 4194304),
      norm_sq_p_k1_k = Fin (117649 / 16777216)\<rparr>"
  unfolding example_search_def example_second_eq
  by (simp add: common_defs panoc_block_defs example_defs Let_def vec_ops real_t_ops)

lemma linesearch_pass_no_update:
  "\<not> update_lipschitz_in_linesearch params \<Longrightarrow>
   linesearch_pass env params \<Sigma> st =
     Some (linesearch_condition params (linesearch_candidate env params \<Sigma> st))"
  by (simp add: linesearch_pass_def linesearch_qub_def)

theorem linesearch_candidates_witness:
  "map_option (\<lambda>s. (tau s, x_k1 s, psi_k1 s, grad_psi_k1 s,
                    linesearch_failures
                      (stats (linesearch_failed
                         (example_params\<lparr>anderson_acceleration := 1, tau_min := Fin 1\<rparr>) 1 s))))
     (linesearch_loop (example_env PInf 0 False)
        (example_params\<lparr>anderson_acceleration := 1, tau_min := Fin 1\<rparr>) [Fin 1]
        (linesearch_init (example_env PInf 0 False) 1 example_search))
     = Some (Fin (1 / 2), [Fin (- (1449 / 2048))], Fin (4408324359201 / 70368744177664),
             [Fin (- (3042321849 / 8589934592))], 1) \<and>
   map_option (\<lambda>s. (tau s, x_k1 s))
     (linesearch_pass (example_env PInf 0 False)
        (example_params\<lparr>anderson_acceleration := 1\<rparr>) [Fin 1]
        (linesearch_init (example_env PInf 0 False) 1 example_search))
     = Some (Fin (1 / 2), [Fin (- (3241 / 4096))])"
proof -
  let ?E = "example_env PInf 0 False"
  let ?P = "example_params\<lparr>anderson_acceleration := 1, tau_min := Fin 1\<rparr>"
  let ?Q = "example_params\<lparr>anderson_acceleration := 1\<rparr>"
  let ?s = "linesearch_init ?E 1 example_search"
  let ?u = "linesearch_condition ?P (linesearch_candidate ?E ?P [Fin 1] ?s)"
  let ?v = "linesearch_condition ?Q (linesearch_candidate ?E ?Q [Fin 1] ?s)"
  have f: "q_k example_search = [Fin (343 / 4096)]" "x_k example_search = [Fin (- (7 / 8))]"
    "p_k example_search = [Fin (343 / 2048)]"
    "xhat_k example_search = [Fin (- (1449 / 2048))]"
    "psi_xhat_k example_search = Fin (4408324359201 / 70368744177664)"
    "grad_hat_psi_k example_search = [Fin (- (3042321849 / 8589934592))]"
    "linesearch_failures (stats example_search) = 0"
    by (simp_all add: example_search_eq)
  have tm: "tau_min ?P = Fin 1" "tau_min ?Q = Fin (1 / 256)"
    by (simp_all add: example_params_def)
  have fp: "linesearch_passes ?E ?P [Fin 1] ?s ?s" "linesearch_passes ?E ?Q [Fin 1] ?s ?s"
    by (rule first_pass)+
  have lp: "linesearch_pass ?E ?P [Fin 1] ?s = Some ?u"
    by (rule linesearch_pass_no_update) (simp add: example_params_def)
  have lq: "linesearch_pass ?E ?Q [Fin 1] ?s = Some ?v"
    by (rule linesearch_pass_no_update) (simp add: example_params_def)
  note T = linesearch_candidates [OF fp(1) lp]
  note U = linesearch_candidates [OF fp(2) lq]
  from T [THEN conjunct1] have t0: "tau ?s = Fin 1"
    by (simp add: f allFinite_def)
  from T [THEN conjunct2, THEN conjunct1] t0 have t1: "tau ?u = Fin (1 / 2)"
    by (simp add: real_t_ops)
  from U [THEN conjunct2, THEN conjunct1] t0 have t2: "tau ?v = Fin (1 / 2)"
    by (simp add: real_t_ops)
  have l1: "tau ?s / Fin 2 < tau_min ?P"
    by (simp add: t0 tm real_t_ops)
  have l2: "\<not> tau ?s / Fin 2 < tau_min ?Q"
    by (simp add: t0 tm real_t_ops)
  note C = T [THEN conjunct2, THEN conjunct2, THEN conjunct1, THEN mp, OF l1, unfolded f]
  have c: "x_k1 ?u = [Fin (- (1449 / 2048))]"
    "psi_k1 ?u = Fin (4408324359201 / 70368744177664)"
    "grad_psi_k1 ?u = [Fin (- (3042321849 / 8589934592))]"
    and n: "\<not> linesearch_again ?P ?u"
    using C by blast+
  have i: "tau ?u < tau_min ?P \<and> (1 :: u32) \<noteq> 0"
    by (simp add: t1 tm real_t_ops)
  note D = T [THEN conjunct2, THEN conjunct2, THEN conjunct2, THEN conjunct2, THEN mp, OF n,
              unfolded f if_P [OF i] add_0]
  have e: "linesearch_loop ?E ?P [Fin 1] ?s = Some ?u"
    "linesearch_failures (stats (linesearch_failed ?P 1 ?u)) = 1"
    using D by blast+
  from U [THEN conjunct2, THEN conjunct2, THEN conjunct2, THEN conjunct1, THEN mp, OF l2,
          THEN conjunct1]
  have d: "x_k1 ?v = [Fin (- (3241 / 4096))]"
    by (simp add: f t0 vec_ops real_t_ops)
  show ?thesis
    by (simp only: e lp lq option.map prod.inject c t1 t2 d simp_thms)
qed

section \<open>The quadratic upper bound\<close>

text \<open>A comparison \<open>a > b\<close> that is false leaves \<open>a \<le> b\<close>, unless an operand is not a
  number.\<close>

lemma r_not_greater:
  fixes a b :: real_t
  shows "(\<not> a > b) = (a \<le> b \<or> is_nan a \<or> is_nan b)"
  by (cases a; cases b) (auto simp: real_t_ops is_nan_def)

lemma panoc_qub_cond_spec:
  "(\<not> panoc_qub_cond params st) = (panoc_spec_qub params st \<or> panoc_qub_is_nan params st)"
  unfolding panoc_qub_cond_def panoc_spec_qub_def panoc_qub_is_nan_def spec_qub_def
    qub_is_nan_def de_Morgan_conj r_not_greater
  by blast

lemma panoc_qub_cond_k1_spec:
  "(\<not> panoc_qub_cond_k1 params st) =
     (panoc_spec_qub_k1 params st \<or> panoc_qub_is_nan_k1 params st)"
  unfolding panoc_qub_cond_k1_def panoc_spec_qub_k1_def panoc_qub_is_nan_k1_def spec_qub_def
    qub_is_nan_def de_Morgan_conj r_not_greater
  by blast

text \<open>What follows the loop in a pass of the line search changes none of the values that
  the loop has compared.\<close>

lemma linesearch_pass_qub:
  assumes "linesearch_pass env params \<Sigma> s = Some s'"
    and "update_lipschitz_in_linesearch params"
  shows "\<exists>u. panoc_qub_loop_k1 env params \<Sigma> (linesearch_candidate env params \<Sigma> s) = Some u \<and>
             psi_xhat_k1 s' = psi_xhat_k1 u \<and> psi_k1 s' = psi_k1 u \<and>
             grad_psi_k1Tp_k1 s' = grad_psi_k1Tp_k1 u \<and> L_k1 s' = L_k1 u \<and>
             norm_sq_p_k1 s' = norm_sq_p_k1 u \<and> gamma_k1 s' = gamma_k1 u"
proof -
  from assms(1) obtain s1 where
    q: "linesearch_qub env params \<Sigma> (linesearch_candidate env params \<Sigma> s) = Some s1"
    and s': "s' = linesearch_condition params s1"
    by (auto simp: linesearch_pass_def split: Option.bind_splits)
  from q assms(2) obtain u where
    loop: "panoc_qub_loop_k1 env params \<Sigma> (linesearch_candidate env params \<Sigma> s) = Some u"
    and s1: "s1 = u \<or> (\<exists>g old_g. s1 = anderson_changed_gamma env params g old_g
                      (u\<lparr>direction_provider :=
                            dir_changed_gamma env (direction_provider u) g old_g\<rparr>))"
    by (auto simp: linesearch_qub_def Let_def split: Option.bind_splits if_splits)
  from s1 have "psi_xhat_k1 s1 = psi_xhat_k1 u \<and> psi_k1 s1 = psi_k1 u \<and>
             grad_psi_k1Tp_k1 s1 = grad_psi_k1Tp_k1 u \<and> L_k1 s1 = L_k1 u \<and>
             norm_sq_p_k1 s1 = norm_sq_p_k1 u \<and> gamma_k1 s1 = gamma_k1 u"
    by (auto simp: anderson_changed_gamma_def)
  then have "psi_xhat_k1 s' = psi_xhat_k1 u \<and> psi_k1 s' = psi_k1 u \<and>
             grad_psi_k1Tp_k1 s' = grad_psi_k1Tp_k1 u \<and> L_k1 s' = L_k1 u \<and>
             norm_sq_p_k1 s' = norm_sq_p_k1 u \<and> gamma_k1 s' = gamma_k1 u"
    by (simp add: s' linesearch_condition_def Let_def)
  with loop show ?thesis by blast
qed

text \<open>
  Claim C4. In every iteration \<open>k\<close> of a PANOC solve, with \<open>st\<close> the state at the head of
  the iteration: when the loop of lines 174 to 189 has run (\<open>k = 0\<close>, or
  \<open>update_lipschitz_in_linesearch\<close> is false) and has left the state \<open>st'\<close>, then
  \<open>\<psi>(x\<^sub>k hat) - \<psi>(x\<^sub>k) \<le> \<langle>\<nabla>\<psi>(x\<^sub>k), p\<^sub>k\<rangle> + L\<^sub>k \<parallel>p\<^sub>k\<parallel>\<^sup>2 / 2\<close>, or
  \<open>|\<langle>\<nabla>\<psi>(x\<^sub>k), p\<^sub>k\<rangle> / \<psi>(x\<^sub>k)| \<le> \<theta>\<close>, or one of the values compared is not a number; and the
  values compared are those of the projected gradient step from \<open>x\<^sub>k\<close> with the step size
  that the loop has left. When \<open>update_lipschitz_in_linesearch\<close> is true, the same holds of
  the variables of \<open>k + 1\<close> at the end \<open>s'\<close> of every pass of the line search.
\<close>

theorem quadratic_upper_bound:
  assumes "panoc_iterates env params \<Sigma> \<epsilon> (panoc_entry env params dp \<Sigma> x y err_z) k st"
  shows "(k = 0 \<or> \<not> update_lipschitz_in_linesearch params \<longrightarrow>
            panoc_qub env params \<Sigma> k st = Some st' \<longrightarrow>
            (panoc_spec_qub params st' \<or> panoc_qub_is_nan params st') \<and>
            panoc_cached env \<Sigma> st') \<and>
         (update_lipschitz_in_linesearch params \<longrightarrow>
            linesearch_pass env params \<Sigma> s = Some s' \<longrightarrow>
            (panoc_spec_qub_k1 params s' \<or> panoc_qub_is_nan_k1 params s') \<and>
            panoc_cached_k1 env \<Sigma> s')"
proof -
  have 1: "(panoc_spec_qub params st' \<or> panoc_qub_is_nan params st') \<and>
            panoc_cached env \<Sigma> st'"
    if c: "k = 0 \<or> \<not> update_lipschitz_in_linesearch params"
      and q: "panoc_qub env params \<Sigma> k st = Some st'"
  proof -
    from c q have "panoc_qub_loop env params \<Sigma> (st\<lparr>old_gamma_k := gamma_k st\<rparr>) = Some st'"
      by (auto simp: panoc_qub_def Let_def)
    from panoc_qub_loop_points [OF this] have "\<not> panoc_qub_cond params st'"
      by simp
    then have "panoc_spec_qub params st' \<or> panoc_qub_is_nan params st'"
      by (simp only: panoc_qub_cond_spec)
    moreover from panoc_iterates_cached [OF assms panoc_entry_cached(1)]
    have "panoc_cached env \<Sigma> st'"
      by (blast intro: panoc_qub_cached [OF q])
    ultimately show ?thesis by simp
  qed
  have 2: "(panoc_spec_qub_k1 params s' \<or> panoc_qub_is_nan_k1 params s') \<and>
            panoc_cached_k1 env \<Sigma> s'"
    if u: "update_lipschitz_in_linesearch params"
      and l: "linesearch_pass env params \<Sigma> s = Some s'"
  proof -
    from linesearch_pass_qub [OF l u] obtain u where
      loop: "panoc_qub_loop_k1 env params \<Sigma> (linesearch_candidate env params \<Sigma> s) = Some u"
      and e: "psi_xhat_k1 s' = psi_xhat_k1 u" "psi_k1 s' = psi_k1 u"
        "grad_psi_k1Tp_k1 s' = grad_psi_k1Tp_k1 u" "L_k1 s' = L_k1 u"
        "norm_sq_p_k1 s' = norm_sq_p_k1 u"
      by blast
    from panoc_qub_loop_k1_points [OF loop] have "\<not> panoc_qub_cond_k1 params u"
      by simp
    then have "panoc_spec_qub_k1 params u \<or> panoc_qub_is_nan_k1 params u"
      by (simp only: panoc_qub_cond_k1_spec)
    then have "panoc_spec_qub_k1 params s' \<or> panoc_qub_is_nan_k1 params s'"
      by (simp add: panoc_spec_qub_k1_def panoc_qub_is_nan_k1_def e)
    with linesearch_pass_cached_k1(1) [OF l] show ?thesis by simp
  qed
  from 1 2 show ?thesis by blast
qed

text \<open>The example with \<open>update_lipschitz_in_linesearch\<close>, in its first iteration: the loop
  before the exit check doubles \<open>L\<close> twice, the loop of the first pass of the line search
  leaves it as it is, and both end with the inequality.\<close>

lemma example_update_qub:
  "\<exists>st'. panoc_qub (example_env PInf 0 False)
      (example_params\<lparr>update_lipschitz_in_linesearch := True\<rparr>) [Fin 1] 0
      (panoc_entry (example_env PInf 0 False)
        (example_params\<lparr>update_lipschitz_in_linesearch := True\<rparr>) ()
        [Fin 1] [Fin (- 1)] [Fin 1] [Fin 7]) = Some st' \<and>
     L_k st' = Fin 4 \<and>
     \<not> panoc_qub_is_nan (example_params\<lparr>update_lipschitz_in_linesearch := True\<rparr>) st'"
  by (simp add: panoc_qub_loop.simps common_defs panoc_block_defs example_defs Let_def vec_ops
        real_t_ops epsilon_def panoc_qub_is_nan_def qub_is_nan_def is_nan_def)

lemma example_update_pass:
  "\<exists>s'. linesearch_pass (example_env PInf 0 False)
      (example_params\<lparr>update_lipschitz_in_linesearch := True\<rparr>) [Fin 1]
      (linesearch_init (example_env PInf 0 False) 0
        ((panoc_stop_crit (example_env PInf 0 False)
            (example_params\<lparr>update_lipschitz_in_linesearch := True\<rparr>) 0
            (the (panoc_qub (example_env PInf 0 False)
                    (example_params\<lparr>update_lipschitz_in_linesearch := True\<rparr>) [Fin 1] 0
                    (panoc_entry (example_env PInf 0 False)
                       (example_params\<lparr>update_lipschitz_in_linesearch := True\<rparr>) ()
                       [Fin 1] [Fin (- 1)] [Fin 1] [Fin 7]))))
         \<lparr>anderson_accepted := False\<rparr>)) = Some s' \<and>
     L_k1 s' = Fin 4 \<and>
     \<not> panoc_qub_is_nan_k1 (example_params\<lparr>update_lipschitz_in_linesearch := True\<rparr>) s'"
  by (simp add: panoc_qub_loop.simps panoc_qub_loop_k1.simps common_defs panoc_block_defs
        example_defs Let_def vec_ops real_t_ops epsilon_def panoc_qub_is_nan_k1_def
        qub_is_nan_def is_nan_def)

theorem quadratic_upper_bound_witness:
  "map_option (panoc_spec_qub (example_params\<lparr>update_lipschitz_in_linesearch := True\<rparr>))
     (panoc_qub (example_env PInf 0 False)
        (example_params\<lparr>update_lipschitz_in_linesearch := True\<rparr>) [Fin 1] 0
        (panoc_entry (example_env PInf 0 False)
        (example_params\<lparr>update_lipschitz_in_linesearch := True\<rparr>) ()
        [Fin 1] [Fin (- 1)] [Fin 1] [Fin 7])) = Some True \<and>
   map_option (panoc_spec_qub_k1 (example_params\<lparr>update_lipschitz_in_linesearch := True\<rparr>))
     (linesearch_pass (example_env PInf 0 False)
        (example_params\<lparr>update_lipschitz_in_linesearch := True\<rparr>) [Fin 1]
        (linesearch_init (example_env PInf 0 False) 0
        ((panoc_stop_crit (example_env PInf 0 False)
            (example_params\<lparr>update_lipschitz_in_linesearch := True\<rparr>) 0
            (the (panoc_qub (example_env PInf 0 False)
                    (example_params\<lparr>update_lipschitz_in_linesearch := True\<rparr>) [Fin 1] 0
                    (panoc_entry (example_env PInf 0 False)
                       (example_params\<lparr>update_lipschitz_in_linesearch := True\<rparr>) ()
                       [Fin 1] [Fin (- 1)] [Fin 1] [Fin 7]))))
         \<lparr>anderson_accepted := False\<rparr>))) = Some True"
proof -
  let ?P = "example_params\<lparr>update_lipschitz_in_linesearch := True\<rparr>"
  from example_update_qub obtain st' where
    q: "panoc_qub (example_env PInf 0 False) ?P [Fin 1] 0
      (panoc_entry (example_env PInf 0 False)
        (example_params\<lparr>update_lipschitz_in_linesearch := True\<rparr>) ()
        [Fin 1] [Fin (- 1)] [Fin 1] [Fin 7]) = Some st'"
    and n: "\<not> panoc_qub_is_nan ?P st'"
    by blast
  from example_update_pass obtain s' where
    l: "linesearch_pass (example_env PInf 0 False) ?P [Fin 1]
      (linesearch_init (example_env PInf 0 False) 0
        ((panoc_stop_crit (example_env PInf 0 False)
            (example_params\<lparr>update_lipschitz_in_linesearch := True\<rparr>) 0
            (the (panoc_qub (example_env PInf 0 False)
                    (example_params\<lparr>update_lipschitz_in_linesearch := True\<rparr>) [Fin 1] 0
                    (panoc_entry (example_env PInf 0 False)
                       (example_params\<lparr>update_lipschitz_in_linesearch := True\<rparr>) ()
                       [Fin 1] [Fin (- 1)] [Fin 1] [Fin 7]))))
         \<lparr>anderson_accepted := False\<rparr>)) = Some s'"
    and m: "\<not> panoc_qub_is_nan_k1 ?P s'"
    by blast
  have k: "(0 :: u32) = 0 \<or> \<not> update_lipschitz_in_linesearch ?P"
    and u: "update_lipschitz_in_linesearch ?P"
    by simp_all
  from quadratic_upper_bound [OF panoc_first, THEN conjunct1, THEN mp, OF k, THEN mp, OF q] n
  have 1: "panoc_spec_qub ?P st'"
    by blast
  from quadratic_upper_bound [OF panoc_first, THEN conjunct2, THEN mp, OF u, THEN mp, OF l] m
  have 2: "panoc_spec_qub_k1 ?P s'"
    by blast
  from 1 have a: "map_option (panoc_spec_qub ?P) (Some st') = Some True"
    by simp
  from 2 have b: "map_option (panoc_spec_qub_k1 ?P) (Some s') = Some True"
    by simp
  from a [folded q] b [folded l] show ?thesis
    by (rule conjI)
qed

text \<open>The example with an objective that has no value beyond \<open>- 3 / 4\<close>: the objective
  in \<open>x\<^sub>0\<close> hat is not a number, the loop of the first iteration ends at once, and neither
  the inequality nor the guard holds.\<close>

theorem quadratic_upper_bound_counterexample:
  "map_option (panoc_spec_qub example_params)
     (panoc_qub (example_env (Fin (- (3 / 4))) 0 False) example_params [Fin 1] 0
        (panoc_entry (example_env (Fin (- (3 / 4))) 0 False) example_params ()
           [Fin 1] [Fin (- 1)] [Fin 1] [Fin 7]))
   = Some False"
  by (simp add: panoc_qub_loop.simps common_defs panoc_block_defs example_defs Let_def vec_ops
        real_t_ops epsilon_def panoc_spec_qub_def spec_qub_def)

section \<open>The step size and the Lipschitz estimate\<close>

lemma r_le_trans:
  fixes a b c :: real_t
  shows "a \<le> b \<Longrightarrow> b \<le> c \<Longrightarrow> a \<le> c"
  by (cases a; cases b; cases c) (auto simp: real_t_ops)

text \<open>Halving a step size that is not negative and doubling an estimate that is not
  negative keep the bounds.\<close>

lemma halve_double:
  fixes g g0 l l0 :: real_t
  assumes "Fin 0 \<le> l0" and "Fin 0 \<le> g \<and> g \<le> g0 \<and> l0 \<le> l"
  shows "Fin 0 \<le> g / Fin 2 \<and> g / Fin 2 \<le> g0 \<and> l0 \<le> l * Fin 2"
proof -
  from assms(2) have "Fin 0 \<le> g / Fin 2"
    by (cases g) (auto simp: real_t_ops)
  moreover from assms(2) have "g / Fin 2 \<le> g0"
    by (cases g; cases g0) (auto simp: real_t_ops)
  moreover from assms have "l0 \<le> l * Fin 2"
    by (cases l; cases l0) (auto simp: real_t_ops r_inf_def)
  ultimately show ?thesis by simp
qed

text \<open>The estimate that the main loop is entered with is a positive number, and the
  step size from a factor that is not negative is not negative.\<close>

lemma entered_estimate:
  fixes L :: real_t
  assumes "L < epsilon \<or> isfinite L"
  shows "Fin 0 < (if L < epsilon then epsilon else L) \<and>
         isfinite (if L < epsilon then epsilon else L)"
proof (cases L)
  case (Fin a)
  have "(0 :: real) < 1 / 2 ^ 52" by simp
  then have "\<not> a < 1 / 2 ^ 52 \<Longrightarrow> 0 < a" by linarith
  with Fin show ?thesis by (auto simp: real_t_ops epsilon_def)
qed (use assms in \<open>auto simp: real_t_ops epsilon_def\<close>)

lemma first_step_size:
  fixes f L :: real_t
  assumes "Fin 0 \<le> f" and "Fin 0 < L \<and> isfinite L"
  shows "Fin 0 \<le> f / L \<and> f / L \<le> f / L \<and> L \<le> L \<and> Fin 0 \<le> L"
  using assms by (cases f; cases L) (auto simp: real_t_ops)

subsection \<open>PANOC\<close>

lemma panoc_entry_bounds:
  assumes "Fin 0 \<le> Lgamma_factor (Lipschitz params)"
    and "L_k (panoc_estimated env params dp \<Sigma> x y err_z) < epsilon \<or>
         isfinite (L_k (panoc_estimated env params dp \<Sigma> x y err_z))"
  shows "gamma_k (panoc_entry env params dp \<Sigma> x y err_z) =
           Lgamma_factor (Lipschitz params) / L_k (panoc_entry env params dp \<Sigma> x y err_z)"
    and "Fin 0 \<le> gamma_k (panoc_entry env params dp \<Sigma> x y err_z) \<and>
         gamma_k (panoc_entry env params dp \<Sigma> x y err_z) \<le>
           gamma_k (panoc_entry env params dp \<Sigma> x y err_z) \<and>
         L_k (panoc_entry env params dp \<Sigma> x y err_z) \<le>
           L_k (panoc_entry env params dp \<Sigma> x y err_z) \<and>
         Fin 0 \<le> L_k (panoc_entry env params dp \<Sigma> x y err_z)"
proof -
  show g: "gamma_k (panoc_entry env params dp \<Sigma> x y err_z) =
           Lgamma_factor (Lipschitz params) / L_k (panoc_entry env params dp \<Sigma> x y err_z)"
    by (simp add: panoc_entry_def panoc_first_step_def Let_def)
  from entered_estimate [OF assms(2)]
  have "Fin 0 < L_k (panoc_entry env params dp \<Sigma> x y err_z) \<and>
        isfinite (L_k (panoc_entry env params dp \<Sigma> x y err_z))"
    by (simp only: panoc_entry_L_k)
  from first_step_size [OF assms(1) this] g
  show "Fin 0 \<le> gamma_k (panoc_entry env params dp \<Sigma> x y err_z) \<and>
         gamma_k (panoc_entry env params dp \<Sigma> x y err_z) \<le>
           gamma_k (panoc_entry env params dp \<Sigma> x y err_z) \<and>
         L_k (panoc_entry env params dp \<Sigma> x y err_z) \<le>
           L_k (panoc_entry env params dp \<Sigma> x y err_z) \<and>
         Fin 0 \<le> L_k (panoc_entry env params dp \<Sigma> x y err_z)"
    by simp
qed

lemma panoc_qub_points_bounds:
  assumes "loop_points (panoc_qub_cond params) (panoc_qub_body env \<Sigma>) s0 u"
    and "Fin 0 \<le> l0"
    and "Fin 0 \<le> gamma_k s0 \<and> gamma_k s0 \<le> g0 \<and> l0 \<le> L_k s0"
  shows "Fin 0 \<le> gamma_k u \<and> gamma_k u \<le> g0 \<and> l0 \<le> L_k u"
proof (rule loop_points_invariant [OF assms(1), of "\<lambda>u. Fin 0 \<le> gamma_k u \<and> gamma_k u \<le> g0 \<and> l0 \<le> L_k u"])
  show "Fin 0 \<le> gamma_k s0 \<and> gamma_k s0 \<le> g0 \<and> l0 \<le> L_k s0" by (rule assms(3))
next
  fix s :: "('a, 'b) panoc_state"
  assume "Fin 0 \<le> gamma_k s \<and> gamma_k s \<le> g0 \<and> l0 \<le> L_k s"
  from halve_double [OF assms(2) this]
  show "Fin 0 \<le> gamma_k (panoc_qub_body env \<Sigma> s) \<and> gamma_k (panoc_qub_body env \<Sigma> s) \<le> g0
        \<and> l0 \<le> L_k (panoc_qub_body env \<Sigma> s)"
    by (simp add: panoc_qub_body_def Let_def)
qed

lemma panoc_qub_bounds:
  assumes "panoc_qub env params \<Sigma> k st = Some st1"
    and "Fin 0 \<le> l0"
    and "Fin 0 \<le> gamma_k st \<and> gamma_k st \<le> g0 \<and> l0 \<le> L_k st"
  shows "Fin 0 \<le> gamma_k st1 \<and> gamma_k st1 \<le> g0 \<and> l0 \<le> L_k st1"
proof (cases "k = 0 \<or> \<not> update_lipschitz_in_linesearch params")
  case True
  with assms(1) have "panoc_qub_loop env params \<Sigma> (st\<lparr>old_gamma_k := gamma_k st\<rparr>) = Some st1"
    by (auto simp: panoc_qub_def Let_def)
  from panoc_qub_loop_points [OF this, THEN conjunct1] assms(2) show ?thesis
    by (rule panoc_qub_points_bounds) (simp add: assms(3))
next
  case False
  with assms(1) have "st1 = st\<lparr>old_gamma_k := gamma_k st\<rparr>"
    by (auto simp: panoc_qub_def Let_def)
  with assms(3) show ?thesis by simp
qed

lemma panoc_qub_k1_points_bounds:
  assumes "loop_points (panoc_qub_cond_k1 params) (panoc_qub_body_k1 env \<Sigma>) s0 u"
    and "Fin 0 \<le> l0"
    and "Fin 0 \<le> gamma_k1 s0 \<and> gamma_k1 s0 \<le> g0 \<and> l0 \<le> L_k1 s0"
  shows "Fin 0 \<le> gamma_k1 u \<and> gamma_k1 u \<le> g0 \<and> l0 \<le> L_k1 u"
    and "gamma_k u = gamma_k s0" and "L_k u = L_k s0"
proof -
  show "Fin 0 \<le> gamma_k1 u \<and> gamma_k1 u \<le> g0 \<and> l0 \<le> L_k1 u"
  proof (rule loop_points_invariant [OF assms(1), of "\<lambda>u. Fin 0 \<le> gamma_k1 u \<and> gamma_k1 u \<le> g0 \<and> l0 \<le> L_k1 u"])
    show "Fin 0 \<le> gamma_k1 s0 \<and> gamma_k1 s0 \<le> g0 \<and> l0 \<le> L_k1 s0" by (rule assms(3))
  next
    fix s :: "('a, 'b) panoc_state"
    assume "Fin 0 \<le> gamma_k1 s \<and> gamma_k1 s \<le> g0 \<and> l0 \<le> L_k1 s"
    from halve_double [OF assms(2) this]
    show "Fin 0 \<le> gamma_k1 (panoc_qub_body_k1 env \<Sigma> s) \<and>
          gamma_k1 (panoc_qub_body_k1 env \<Sigma> s) \<le> g0 \<and>
          l0 \<le> L_k1 (panoc_qub_body_k1 env \<Sigma> s)"
      by (simp add: panoc_qub_body_k1_def Let_def)
  qed
  show "gamma_k u = gamma_k s0"
    by (rule loop_points_frame [OF assms(1)]) (simp add: panoc_qub_body_k1_def Let_def)
  show "L_k u = L_k s0"
    by (rule loop_points_frame [OF assms(1)]) (simp add: panoc_qub_body_k1_def Let_def)
qed

lemma linesearch_candidate_bounds:
  "gamma_k1 (linesearch_candidate env params \<Sigma> s) = gamma_k s"
  "L_k1 (linesearch_candidate env params \<Sigma> s) = L_k s"
  "gamma_k (linesearch_candidate env params \<Sigma> s) = gamma_k s"
  "L_k (linesearch_candidate env params \<Sigma> s) = L_k s"
  by (cases "tau s / Fin 2 < tau_min params"; simp add: linesearch_candidate_def Let_def)+

lemma linesearch_condition_bounds:
  "gamma_k1 (linesearch_condition params s) = gamma_k1 s"
  "L_k1 (linesearch_condition params s) = L_k1 s"
  by (simp_all add: linesearch_condition_def Let_def)

lemma linesearch_pass_bounds:
  assumes "linesearch_pass env params \<Sigma> s = Some s'"
    and "Fin 0 \<le> l0"
    and "Fin 0 \<le> gamma_k s \<and> gamma_k s \<le> g0 \<and> l0 \<le> L_k s"
  shows "Fin 0 \<le> gamma_k1 s' \<and> gamma_k1 s' \<le> g0 \<and> l0 \<le> L_k1 s'"
proof (cases "update_lipschitz_in_linesearch params")
  case True
  from linesearch_pass_qub [OF assms(1) True] obtain u where
    loop: "panoc_qub_loop_k1 env params \<Sigma> (linesearch_candidate env params \<Sigma> s) = Some u"
    and e: "L_k1 s' = L_k1 u" "gamma_k1 s' = gamma_k1 u"
    by blast
  from panoc_qub_loop_k1_points [OF loop, THEN conjunct1] assms(2)
  have "Fin 0 \<le> gamma_k1 u \<and> gamma_k1 u \<le> g0 \<and> l0 \<le> L_k1 u"
    by (rule panoc_qub_k1_points_bounds(1)) (simp add: linesearch_candidate_bounds assms(3))
  with e show ?thesis by simp
next
  case False
  from linesearch_pass_no_update [OF False, of env \<Sigma> s] assms(1)
  have "s' = linesearch_condition params (linesearch_candidate env params \<Sigma> s)"
    by simp
  then have "gamma_k1 s' = gamma_k s" "L_k1 s' = L_k s"
    by (simp_all only: linesearch_condition_bounds linesearch_candidate_bounds)
  with assms(3) show ?thesis by simp
qed

lemma linesearch_passes_step:
  assumes "linesearch_passes env params \<Sigma> s0 s"
  shows "gamma_k s = gamma_k s0" and "L_k s = L_k s0"
  by (rule linesearch_passes_frame [OF assms];
      simp add: linesearch_candidate_def panoc_qub_body_k1_def anderson_changed_gamma_def
        linesearch_condition_def Let_def)+

lemma panoc_blocks_step:
  "gamma_k (panoc_stop_crit env params k s) = gamma_k s"
  "L_k (panoc_stop_crit env params k s) = L_k s"
  "gamma_k (panoc_apply env k s) = gamma_k s"
  "L_k (panoc_apply env k s) = L_k s"
  "gamma_k (linesearch_init env k s) = gamma_k s"
  "L_k (linesearch_init env k s) = L_k s"
  by (simp_all add: panoc_stop_crit_def anderson_changed_gamma_def panoc_apply_def
        linesearch_init_def Let_def)

lemma panoc_anderson_step:
  assumes "panoc_anderson env params \<Sigma> k s = Inr s'"
  shows "gamma_k s' = gamma_k s" and "L_k s' = L_k s"
  by (rule panoc_anderson_frame [OF assms]; simp)+

lemma panoc_search_step:
  assumes "panoc_anderson env params \<Sigma> k (panoc_apply env k (panoc_stop_crit env params k st1))
           = Inr st2"
  shows "gamma_k (linesearch_init env k st2) = gamma_k st1"
    and "L_k (linesearch_init env k st2) = L_k st1"
  by (simp_all only: panoc_blocks_step panoc_anderson_step [OF assms])

lemma panoc_after_search_step:
  assumes "panoc_no_progress params k
             (panoc_update_direction env (linesearch_failed params k sl)) = Inr sn"
  shows "gamma_k (panoc_advance (anderson_update params k sn)) = gamma_k1 sl"
    and "L_k (panoc_advance (anderson_update params k sn)) = L_k1 sl"
proof -
  let ?u = "panoc_update_direction env (linesearch_failed params k sl)"
  have u: "gamma_k1 ?u = gamma_k1 sl" "L_k1 ?u = L_k1 sl"
    by (simp_all add: panoc_update_direction_def linesearch_failed_def Let_def)
  from assms have n: "gamma_k1 sn = gamma_k1 ?u" "L_k1 sn = L_k1 ?u"
    by (auto simp: panoc_no_progress_def split: if_splits)
  have "gamma_k (panoc_advance (anderson_update params k sn)) = gamma_k1 sn"
    "L_k (panoc_advance (anderson_update params k sn)) = L_k1 sn"
    by (simp_all add: panoc_advance_def anderson_update_def Let_def)
  with u n show "gamma_k (panoc_advance (anderson_update params k sn)) = gamma_k1 sl"
    and "L_k (panoc_advance (anderson_update params k sn)) = L_k1 sl"
    by simp_all
qed

lemma panoc_step_bounds:
  assumes "panoc_step env params \<Sigma> k st = Some (Inr st')"
    and "Fin 0 \<le> l0"
    and "Fin 0 \<le> gamma_k st \<and> gamma_k st \<le> g0 \<and> l0 \<le> L_k st"
  shows "Fin 0 \<le> gamma_k st' \<and> gamma_k st' \<le> g0 \<and> l0 \<le> L_k st'"
proof -
  from assms(1) obtain sa sl sn where
    a: "panoc_anderson env params \<Sigma> k (panoc_apply env k st) = Inr sa"
    and l: "linesearch_loop env params \<Sigma> (linesearch_init env k sa) = Some sl"
    and n: "panoc_no_progress params k
              (panoc_update_direction env (linesearch_failed params k sl)) = Inr sn"
    and st': "st' = panoc_advance (anderson_update params k sn)"
    by (auto simp: panoc_step_def split: sum.splits Option.bind_splits)
  have sa: "gamma_k (linesearch_init env k sa) = gamma_k st"
    "L_k (linesearch_init env k sa) = L_k st"
    by (simp_all only: panoc_blocks_step panoc_anderson_step [OF a])
  from linesearch_loop_passes [OF l] obtain s where
    p: "linesearch_passes env params \<Sigma> (linesearch_init env k sa) s"
    and q: "linesearch_pass env params \<Sigma> s = Some sl"
    by blast
  from linesearch_passes_step [OF p] sa assms(3)
  have "Fin 0 \<le> gamma_k s \<and> gamma_k s \<le> g0 \<and> l0 \<le> L_k s"
    by simp
  from linesearch_pass_bounds [OF q assms(2) this]
  have sl: "Fin 0 \<le> gamma_k1 sl \<and> gamma_k1 sl \<le> g0 \<and> l0 \<le> L_k1 sl" .
  from panoc_after_search_step [OF n] sl show ?thesis
    by (simp add: st')
qed

lemma panoc_iterates_bounds:
  assumes "panoc_iterates env params \<Sigma> \<epsilon> st0 k st"
    and "Fin 0 \<le> l0"
    and "Fin 0 \<le> gamma_k st0 \<and> gamma_k st0 \<le> g0 \<and> l0 \<le> L_k st0"
  shows "Fin 0 \<le> gamma_k st \<and> gamma_k st \<le> g0 \<and> l0 \<le> L_k st"
  using assms(1)
proof (induction rule: panoc_iterates.induct)
  case panoc_first
  show ?case by (rule assms(3))
next
  case (panoc_next k st st1 st2)
  from panoc_qub_bounds [OF panoc_next.hyps(3) assms(2) panoc_next.IH]
  have "Fin 0 \<le> gamma_k (panoc_stop_crit env params k st1) \<and>
        gamma_k (panoc_stop_crit env params k st1) \<le> g0 \<and>
        l0 \<le> L_k (panoc_stop_crit env params k st1)"
    by (simp only: panoc_blocks_step)
  from panoc_step_bounds [OF panoc_next.hyps(5) assms(2) this]
  show ?case .
qed

subsection \<open>PGA\<close>

lemma pga_entry_bounds:
  assumes "Fin 0 \<le> Lgamma_factor (Lipschitz params)"
    and "L_k (pga_estimated env params \<Sigma> x y err_z) < epsilon \<or>
         isfinite (L_k (pga_estimated env params \<Sigma> x y err_z))"
  shows "gamma_k (pga_entry env params \<Sigma> x y err_z) =
           Lgamma_factor (Lipschitz params) / L_k (pga_entry env params \<Sigma> x y err_z)"
    and "Fin 0 \<le> gamma_k (pga_entry env params \<Sigma> x y err_z) \<and>
         gamma_k (pga_entry env params \<Sigma> x y err_z) \<le>
           gamma_k (pga_entry env params \<Sigma> x y err_z) \<and>
         L_k (pga_entry env params \<Sigma> x y err_z) \<le> L_k (pga_entry env params \<Sigma> x y err_z) \<and>
         Fin 0 \<le> L_k (pga_entry env params \<Sigma> x y err_z)"
proof -
  show g: "gamma_k (pga_entry env params \<Sigma> x y err_z) =
           Lgamma_factor (Lipschitz params) / L_k (pga_entry env params \<Sigma> x y err_z)"
    by (simp add: pga_entry_def Let_def)
  from entered_estimate [OF assms(2)]
  have "Fin 0 < L_k (pga_entry env params \<Sigma> x y err_z) \<and>
        isfinite (L_k (pga_entry env params \<Sigma> x y err_z))"
    by (simp only: pga_entry_L_k)
  from first_step_size [OF assms(1) this] g
  show "Fin 0 \<le> gamma_k (pga_entry env params \<Sigma> x y err_z) \<and>
         gamma_k (pga_entry env params \<Sigma> x y err_z) \<le>
           gamma_k (pga_entry env params \<Sigma> x y err_z) \<and>
         L_k (pga_entry env params \<Sigma> x y err_z) \<le> L_k (pga_entry env params \<Sigma> x y err_z) \<and>
         Fin 0 \<le> L_k (pga_entry env params \<Sigma> x y err_z)"
    by simp
qed

lemma pga_qub_points_bounds:
  assumes "loop_points pga_qub_cond (pga_qub_body env \<Sigma>) (pga_prox env \<Sigma> st) u"
    and "Fin 0 \<le> l0"
    and "Fin 0 \<le> gamma_k st \<and> gamma_k st \<le> g0 \<and> l0 \<le> L_k st"
  shows "Fin 0 \<le> gamma_k u \<and> gamma_k u \<le> g0 \<and> l0 \<le> L_k u"
proof (rule loop_points_invariant [OF assms(1), of "\<lambda>u. Fin 0 \<le> gamma_k u \<and> gamma_k u \<le> g0 \<and> l0 \<le> L_k u"])
  from assms(3)
  show "Fin 0 \<le> gamma_k (pga_prox env \<Sigma> st) \<and> gamma_k (pga_prox env \<Sigma> st) \<le> g0 \<and>
        l0 \<le> L_k (pga_prox env \<Sigma> st)"
    by (simp add: pga_prox_def Let_def)
next
  fix s :: pga_state
  assume "Fin 0 \<le> gamma_k s \<and> gamma_k s \<le> g0 \<and> l0 \<le> L_k s"
  from halve_double [OF assms(2) this]
  show "Fin 0 \<le> gamma_k (pga_qub_body env \<Sigma> s) \<and> gamma_k (pga_qub_body env \<Sigma> s) \<le> g0
        \<and> l0 \<le> L_k (pga_qub_body env \<Sigma> s)"
    by (simp add: pga_qub_body_def pga_prox_def Let_def)
qed

lemma pga_iterates_bounds:
  assumes "pga_iterates env params \<Sigma> \<epsilon> st0 k st"
    and "Fin 0 \<le> l0"
    and "Fin 0 \<le> gamma_k st0 \<and> gamma_k st0 \<le> g0 \<and> l0 \<le> L_k st0"
  shows "Fin 0 \<le> gamma_k st \<and> gamma_k st \<le> g0 \<and> l0 \<le> L_k st"
  using assms(1)
proof (induction rule: pga_iterates.induct)
  case pga_first
  show ?case by (rule assms(3))
next
  case (pga_next k st st1)
  from pga_qub_points_bounds [OF pga_qub_loop_points [OF pga_next.hyps(3), THEN conjunct1]
      assms(2) pga_next.IH]
  show ?case
    by (simp add: pga_advance_def pga_stop_crit_def Let_def)
qed

subsection \<open>The bounds at the points of a solve\<close>

lemma panoc_exit_block_step:
  "gamma_k (panoc_exit_block env params \<Sigma> \<epsilon> ow k s) = gamma_k s"
  "L_k (panoc_exit_block env params \<Sigma> \<epsilon> ow k s) = L_k s"
  by (simp_all add: panoc_exit_block_def Let_def)

lemma pga_exit_block_step:
  "gamma_k (pga_exit_block env params \<Sigma> \<epsilon> k s) = gamma_k s"
  "L_k (pga_exit_block env params \<Sigma> \<epsilon> k s) = L_k s"
  "gamma_k (pga_stop_crit env s) = gamma_k s"
  "L_k (pga_stop_crit env s) = L_k s"
  by (simp_all add: pga_exit_block_def pga_stop_crit_def Let_def)

lemma panoc_points_bounds:
  assumes f: "Fin 0 \<le> Lgamma_factor (Lipschitz params)"
    and e: "isfinite (L_k (panoc_estimated env params dp \<Sigma> x y err_z))"
    and it: "panoc_iterates env params \<Sigma> \<epsilon> (panoc_entry env params dp \<Sigma> x y err_z) k st"
  shows "loop_points (panoc_qub_cond params) (panoc_qub_body env \<Sigma>)
           (st\<lparr>old_gamma_k := gamma_k st\<rparr>) u \<Longrightarrow>
         gamma_k u \<le> gamma_k (panoc_entry env params dp \<Sigma> x y err_z) \<and>
         L_k (panoc_entry env params dp \<Sigma> x y err_z) \<le> L_k u"
    and "panoc_qub env params \<Sigma> k st = Some st1 \<Longrightarrow>
         gamma_k st1 \<le> gamma_k (panoc_entry env params dp \<Sigma> x y err_z) \<and>
         L_k (panoc_entry env params dp \<Sigma> x y err_z) \<le> L_k st1"
    and "panoc_qub env params \<Sigma> k st = Some st1 \<Longrightarrow>
         panoc_anderson env params \<Sigma> k
           (panoc_apply env k (panoc_stop_crit env params k st1)) = Inr st2 \<Longrightarrow>
         linesearch_passes env params \<Sigma> (linesearch_init env k st2) s \<Longrightarrow>
         loop_points (panoc_qub_cond_k1 params) (panoc_qub_body_k1 env \<Sigma>)
           (linesearch_candidate env params \<Sigma> s) v \<Longrightarrow>
         gamma_k v \<le> gamma_k (panoc_entry env params dp \<Sigma> x y err_z) \<and>
         L_k (panoc_entry env params dp \<Sigma> x y err_z) \<le> L_k v \<and>
         gamma_k1 v \<le> gamma_k (panoc_entry env params dp \<Sigma> x y err_z) \<and>
         L_k (panoc_entry env params dp \<Sigma> x y err_z) \<le> L_k1 v"
proof -
  let ?g0 = "gamma_k (panoc_entry env params dp \<Sigma> x y err_z)"
  let ?l0 = "L_k (panoc_entry env params dp \<Sigma> x y err_z)"
  from e have "L_k (panoc_estimated env params dp \<Sigma> x y err_z) < epsilon \<or>
      isfinite (L_k (panoc_estimated env params dp \<Sigma> x y err_z))"
    by simp
  note b = panoc_entry_bounds(2) [OF f this]
  from b have l0: "Fin 0 \<le> ?l0" and b0: "Fin 0 \<le> ?g0 \<and> ?g0 \<le> ?g0 \<and> ?l0 \<le> ?l0"
    by simp_all
  note st = panoc_iterates_bounds [OF it l0 b0]
  {
    assume lp: "loop_points (panoc_qub_cond params) (panoc_qub_body env \<Sigma>)
           (st\<lparr>old_gamma_k := gamma_k st\<rparr>) u"
    from st have "Fin 0 \<le> gamma_k (st\<lparr>old_gamma_k := gamma_k st\<rparr>) \<and>
        gamma_k (st\<lparr>old_gamma_k := gamma_k st\<rparr>) \<le> ?g0 \<and>
        ?l0 \<le> L_k (st\<lparr>old_gamma_k := gamma_k st\<rparr>)"
      by simp
    from panoc_qub_points_bounds [OF lp l0 this]
    show "gamma_k u \<le> ?g0 \<and> ?l0 \<le> L_k u" by simp
  }
  {
    assume q: "panoc_qub env params \<Sigma> k st = Some st1"
    note st1 = panoc_qub_bounds [OF q l0 st]
    then show "gamma_k st1 \<le> ?g0 \<and> ?l0 \<le> L_k st1" by simp
    assume a: "panoc_anderson env params \<Sigma> k
           (panoc_apply env k (panoc_stop_crit env params k st1)) = Inr st2"
      and p: "linesearch_passes env params \<Sigma> (linesearch_init env k st2) s"
      and lp: "loop_points (panoc_qub_cond_k1 params) (panoc_qub_body_k1 env \<Sigma>)
           (linesearch_candidate env params \<Sigma> s) v"
    from st1 have c: "Fin 0 \<le> gamma_k1 (linesearch_candidate env params \<Sigma> s) \<and>
        gamma_k1 (linesearch_candidate env params \<Sigma> s) \<le> ?g0 \<and>
        ?l0 \<le> L_k1 (linesearch_candidate env params \<Sigma> s)"
      by (simp only: linesearch_candidate_bounds linesearch_passes_step [OF p]
            panoc_search_step [OF a])
    from panoc_qub_k1_points_bounds [OF lp l0 c] st1
    show "gamma_k v \<le> ?g0 \<and> ?l0 \<le> L_k v \<and> gamma_k1 v \<le> ?g0 \<and> ?l0 \<le> L_k1 v"
      by (simp only: linesearch_candidate_bounds linesearch_passes_step [OF p]
            panoc_search_step [OF a] simp_thms)
  }
qed

lemma panoc_return_bounds:
  assumes f: "Fin 0 \<le> Lgamma_factor (Lipschitz params)"
    and e: "isfinite (L_k (panoc_estimated env params dp \<Sigma> x y err_z))"
    and r: "PANOC_call env params dp \<Sigma> \<epsilon> ow x y err_z = Some (Inr st')"
  shows "gamma_k st' \<le> gamma_k (panoc_entry env params dp \<Sigma> x y err_z) \<and>
         L_k (panoc_entry env params dp \<Sigma> x y err_z) \<le> L_k st'"
proof -
  from r e have "panoc_loop env params \<Sigma> \<epsilon> ow 0 (panoc_entry env params dp \<Sigma> x y err_z)
      = Some (Inr st')"
    by (simp add: PANOC_call_cases)
  then obtain k s s1 where
    it: "panoc_iterates env params \<Sigma> \<epsilon> (panoc_entry env params dp \<Sigma> x y err_z) k s"
    and q: "panoc_qub env params \<Sigma> k s = Some s1"
    and st': "st' = panoc_exit_block env params \<Sigma> \<epsilon> ow k (panoc_stop_crit env params k s1)"
    by (rule panoc_loop_exit)
  from panoc_points_bounds(2) [OF f e it q] show ?thesis
    by (simp only: st' panoc_exit_block_step panoc_blocks_step)
qed

lemma pga_points_bounds:
  assumes f: "Fin 0 \<le> Lgamma_factor (Lipschitz params)"
    and e: "isfinite (L_k (pga_estimated env params \<Sigma> x y err_z))"
    and it: "pga_iterates env params \<Sigma> \<epsilon> (pga_entry env params \<Sigma> x y err_z) k st"
    and lp: "loop_points pga_qub_cond (pga_qub_body env \<Sigma>) (pga_prox env \<Sigma> st) u"
  shows "gamma_k u \<le> gamma_k (pga_entry env params \<Sigma> x y err_z) \<and>
         L_k (pga_entry env params \<Sigma> x y err_z) \<le> L_k u"
proof -
  let ?g0 = "gamma_k (pga_entry env params \<Sigma> x y err_z)"
  let ?l0 = "L_k (pga_entry env params \<Sigma> x y err_z)"
  from e have "L_k (pga_estimated env params \<Sigma> x y err_z) < epsilon \<or>
      isfinite (L_k (pga_estimated env params \<Sigma> x y err_z))"
    by simp
  note b = pga_entry_bounds(2) [OF f this]
  from b have l0: "Fin 0 \<le> ?l0" and b0: "Fin 0 \<le> ?g0 \<and> ?g0 \<le> ?g0 \<and> ?l0 \<le> ?l0"
    by simp_all
  from pga_qub_points_bounds [OF lp l0 pga_iterates_bounds [OF it l0 b0]]
  show ?thesis by simp
qed

lemma pga_return_bounds:
  assumes f: "Fin 0 \<le> Lgamma_factor (Lipschitz params)"
    and e: "isfinite (L_k (pga_estimated env params \<Sigma> x y err_z))"
    and r: "PGA_call env params \<Sigma> \<epsilon> x y err_z = Some (Inr st')"
  shows "gamma_k st' \<le> gamma_k (pga_entry env params \<Sigma> x y err_z) \<and>
         L_k (pga_entry env params \<Sigma> x y err_z) \<le> L_k st'"
proof -
  from r e have "pga_loop env params \<Sigma> \<epsilon> 0 (pga_entry env params \<Sigma> x y err_z)
      = Some (Inr st')"
    by (simp add: PGA_call_cases)
  then obtain k s s1 where
    it: "pga_iterates env params \<Sigma> \<epsilon> (pga_entry env params \<Sigma> x y err_z) k s"
    and q: "pga_qub_loop env \<Sigma> (pga_prox env \<Sigma> s) = Some s1"
    and st': "st' = pga_exit_block env params \<Sigma> \<epsilon> k (pga_stop_crit env s1)"
    by (rule pga_loop_exit)
  from pga_points_bounds [OF f e it pga_qub_loop_points [OF q, THEN conjunct1]] show ?thesis
    by (simp only: st' pga_exit_block_step)
qed

text \<open>
  Claim C9. With a factor \<open>L\<gamma>_factor\<close> that is not negative (and is a number), in every
  solve that enters the main loop, \<open>\<gamma>\<^sub>0\<close> and \<open>L\<^sub>0\<close> being the step size and the estimate that
  the loop is entered with: \<open>\<gamma>\<^sub>0 = L\<gamma>_factor / L\<^sub>0\<close>; at the head of every iteration of
  PANOC and at every point of its quadratic upper bound loop, \<open>\<gamma>\<^sub>k \<le> \<gamma>\<^sub>0\<close> and \<open>L\<^sub>0 \<le> L\<^sub>k\<close>; at
  every point of the quadratic upper bound loop of every pass of its line search the same
  holds, and \<open>\<gamma>\<^sub>k\<^sub>+\<^sub>1 \<le> \<gamma>\<^sub>0\<close> and \<open>L\<^sub>0 \<le> L\<^sub>k\<^sub>+\<^sub>1\<close>; and the same holds when PANOC returns. In
  PGA, \<open>\<gamma>\<^sub>k \<le> \<gamma>\<^sub>0\<close> and \<open>L\<^sub>0 \<le> L\<^sub>k\<close> at every point of the quadratic upper bound loop of every
  iteration, and when PGA returns.
\<close>

theorem step_size_monotone:
  "(let st0 = panoc_entry env params dp \<Sigma> x y err_z; \<gamma>0 = gamma_k st0; L0 = L_k st0
    in Fin 0 \<le> Lgamma_factor (Lipschitz params) \<longrightarrow>
       isfinite (L_k (panoc_estimated env params dp \<Sigma> x y err_z)) \<longrightarrow>
         \<gamma>0 = Lgamma_factor (Lipschitz params) / L0 \<and>
         (panoc_iterates env params \<Sigma> \<epsilon> st0 k st \<longrightarrow>
            (loop_points (panoc_qub_cond params) (panoc_qub_body env \<Sigma>)
               (st\<lparr>old_gamma_k := gamma_k st\<rparr>) u \<longrightarrow>
             gamma_k u \<le> \<gamma>0 \<and> L0 \<le> L_k u) \<and>
            (panoc_qub env params \<Sigma> k st = Some sq \<longrightarrow>
             panoc_anderson env params \<Sigma> k
               (panoc_apply env k (panoc_stop_crit env params k sq)) = Inr sa \<longrightarrow>
             linesearch_passes env params \<Sigma> (linesearch_init env k sa) s \<longrightarrow>
             loop_points (panoc_qub_cond_k1 params) (panoc_qub_body_k1 env \<Sigma>)
               (linesearch_candidate env params \<Sigma> s) v \<longrightarrow>
             gamma_k v \<le> \<gamma>0 \<and> L0 \<le> L_k v \<and> gamma_k1 v \<le> \<gamma>0 \<and> L0 \<le> L_k1 v)) \<and>
         (PANOC_call env params dp \<Sigma> \<epsilon> ow x y err_z = Some (Inr st') \<longrightarrow>
            gamma_k st' \<le> \<gamma>0 \<and> L0 \<le> L_k st')) \<and>
   (let st0 = pga_entry penv pparams \<Sigma> x y err_z; \<gamma>0 = gamma_k st0; L0 = L_k st0
    in Fin 0 \<le> Lgamma_factor (Lipschitz pparams) \<longrightarrow>
       isfinite (L_k (pga_estimated penv pparams \<Sigma> x y err_z)) \<longrightarrow>
         \<gamma>0 = Lgamma_factor (Lipschitz pparams) / L0 \<and>
         (pga_iterates penv pparams \<Sigma> \<epsilon> st0 k pst \<longrightarrow>
          loop_points pga_qub_cond (pga_qub_body penv \<Sigma>) (pga_prox penv \<Sigma> pst) pu \<longrightarrow>
          gamma_k pu \<le> \<gamma>0 \<and> L0 \<le> L_k pu) \<and>
         (PGA_call penv pparams \<Sigma> \<epsilon> x y err_z = Some (Inr pst') \<longrightarrow>
            gamma_k pst' \<le> \<gamma>0 \<and> L0 \<le> L_k pst'))"
proof -
  have 1: "gamma_k (panoc_entry env params dp \<Sigma> x y err_z) =
      Lgamma_factor (Lipschitz params) / L_k (panoc_entry env params dp \<Sigma> x y err_z)"
    by (simp add: panoc_entry_def panoc_first_step_def Let_def)
  have 2: "gamma_k (pga_entry penv pparams \<Sigma> x y err_z) =
      Lgamma_factor (Lipschitz pparams) / L_k (pga_entry penv pparams \<Sigma> x y err_z)"
    by (simp add: pga_entry_def Let_def)
  show ?thesis
    unfolding Let_def
    using 1 2 panoc_points_bounds(1,3) [of params env dp \<Sigma> x y err_z \<epsilon> k st]
      panoc_return_bounds [of params env dp \<Sigma> x y err_z \<epsilon> ow st']
      pga_points_bounds [of pparams penv \<Sigma> x y err_z \<epsilon> k pst pu]
      pga_return_bounds [of pparams penv \<Sigma> x y err_z \<epsilon> pst']
    by blast
qed

text \<open>The example from \<open>x\<^sub>0 = -1\<close> with \<open>\<epsilon> = 10\<close>: both solvers enter the main loop with
  \<open>\<gamma>\<^sub>0 = 1 / 2\<close> and \<open>L\<^sub>0 = 1\<close>, and return with \<open>\<gamma> = 1 / 8\<close> and \<open>L = 4\<close>.\<close>

lemma example_monotone_run:
  "\<exists>st'. (PANOC_call (example_env PInf 0 False) example_params () [Fin 1] (Fin 10) False [Fin (- 1)] [Fin 1] [Fin 7]) = Some (Inr st')"
  "\<exists>st1. (panoc_qub (example_env PInf 0 False) example_params [Fin 1] 0 (panoc_entry (example_env PInf 0 False) example_params () [Fin 1] [Fin (- 1)] [Fin 1] [Fin 7])) = Some st1"
  "isfinite (L_k (panoc_estimated (example_env PInf 0 False) example_params () [Fin 1]
     [Fin (- 1)] [Fin 1] [Fin 7]))"
  by (simp_all add: PANOC_call_def panoc_loop.simps[of _ _ _ _ _ 0] panoc_qub_loop.simps
        common_defs panoc_block_defs example_defs Let_def vec_ops real_t_ops epsilon_def
        flag_defs)

lemma example_pga_monotone_run:
  "\<exists>st'. (PGA_call (example_env PInf 0 False) example_pga_params [Fin 1] (Fin 10) [Fin (- 1)] [Fin 1] [Fin 7]) = Some (Inr st')"
  "\<exists>st1. (pga_qub_loop (example_env PInf 0 False) [Fin 1] (pga_prox (example_env PInf 0 False) [Fin 1] (pga_entry (example_env PInf 0 False) example_pga_params [Fin 1] [Fin (- 1)] [Fin 1] [Fin 7]))) = Some st1"
  "isfinite (L_k (pga_estimated (example_env PInf 0 False) example_pga_params [Fin 1]
     [Fin (- 1)] [Fin 1] [Fin 7]))"
  by (simp_all add: PGA_call_def pga_loop.simps[of _ _ _ _ 0] pga_qub_loop.simps
        common_defs pga_block_defs pga_entry_def pga_estimated_def example_defs Let_def vec_ops
        real_t_ops epsilon_def flag_defs)

theorem step_size_monotone_witness:
  "map_option (map_sum id (\<lambda>s. gamma_k s \<le> gamma_k (panoc_entry (example_env PInf 0 False) example_params () [Fin 1] [Fin (- 1)] [Fin 1] [Fin 7]) \<and> L_k (panoc_entry (example_env PInf 0 False) example_params () [Fin 1] [Fin (- 1)] [Fin 1] [Fin 7]) \<le> L_k s)) (PANOC_call (example_env PInf 0 False) example_params () [Fin 1] (Fin 10) False [Fin (- 1)] [Fin 1] [Fin 7])
     = Some (Inr True) \<and>
   map_option (\<lambda>s. gamma_k s \<le> gamma_k (panoc_entry (example_env PInf 0 False) example_params () [Fin 1] [Fin (- 1)] [Fin 1] [Fin 7]) \<and> L_k (panoc_entry (example_env PInf 0 False) example_params () [Fin 1] [Fin (- 1)] [Fin 1] [Fin 7]) \<le> L_k s) (panoc_qub (example_env PInf 0 False) example_params [Fin 1] 0 (panoc_entry (example_env PInf 0 False) example_params () [Fin 1] [Fin (- 1)] [Fin 1] [Fin 7])) = Some True \<and>
   (gamma_k1 (linesearch_candidate (example_env PInf 0 False) example_params [Fin 1] (linesearch_init (example_env PInf 0 False) 0 ((panoc_apply (example_env PInf 0 False) 0 (panoc_stop_crit (example_env PInf 0 False) example_params 0 (the (panoc_qub (example_env PInf 0 False) example_params [Fin 1] 0 (panoc_entry (example_env PInf 0 False) example_params () [Fin 1] [Fin (- 1)] [Fin 1] [Fin 7])))))\<lparr>anderson_accepted := False\<rparr>))) \<le> gamma_k (panoc_entry (example_env PInf 0 False) example_params () [Fin 1] [Fin (- 1)] [Fin 1] [Fin 7]) \<and> L_k (panoc_entry (example_env PInf 0 False) example_params () [Fin 1] [Fin (- 1)] [Fin 1] [Fin 7]) \<le> L_k1 (linesearch_candidate (example_env PInf 0 False) example_params [Fin 1] (linesearch_init (example_env PInf 0 False) 0 ((panoc_apply (example_env PInf 0 False) 0 (panoc_stop_crit (example_env PInf 0 False) example_params 0 (the (panoc_qub (example_env PInf 0 False) example_params [Fin 1] 0 (panoc_entry (example_env PInf 0 False) example_params () [Fin 1] [Fin (- 1)] [Fin 1] [Fin 7])))))\<lparr>anderson_accepted := False\<rparr>)))) \<and>
   map_option (map_sum id (\<lambda>s. gamma_k s \<le> gamma_k (pga_entry (example_env PInf 0 False) example_pga_params [Fin 1] [Fin (- 1)] [Fin 1] [Fin 7]) \<and> L_k (pga_entry (example_env PInf 0 False) example_pga_params [Fin 1] [Fin (- 1)] [Fin 1] [Fin 7]) \<le> L_k s)) (PGA_call (example_env PInf 0 False) example_pga_params [Fin 1] (Fin 10) [Fin (- 1)] [Fin 1] [Fin 7])
     = Some (Inr True) \<and>
   map_option (\<lambda>s. gamma_k s \<le> gamma_k (pga_entry (example_env PInf 0 False) example_pga_params [Fin 1] [Fin (- 1)] [Fin 1] [Fin 7]) \<and> L_k (pga_entry (example_env PInf 0 False) example_pga_params [Fin 1] [Fin (- 1)] [Fin 1] [Fin 7]) \<le> L_k s) (pga_qub_loop (example_env PInf 0 False) [Fin 1] (pga_prox (example_env PInf 0 False) [Fin 1] (pga_entry (example_env PInf 0 False) example_pga_params [Fin 1] [Fin (- 1)] [Fin 1] [Fin 7]))) = Some True"
proof -
  let ?E = "example_env PInf 0 False"
  from example_monotone_run obtain st' st1 where
    r: "(PANOC_call (example_env PInf 0 False) example_params () [Fin 1] (Fin 10) False [Fin (- 1)] [Fin 1] [Fin 7]) = Some (Inr st')"
    and q: "(panoc_qub (example_env PInf 0 False) example_params [Fin 1] 0 (panoc_entry (example_env PInf 0 False) example_params () [Fin 1] [Fin (- 1)] [Fin 1] [Fin 7])) = Some st1"
    and i: "isfinite (L_k (panoc_estimated ?E example_params () [Fin 1]
              [Fin (- 1)] [Fin 1] [Fin 7]))"
    by blast
  from example_pga_monotone_run obtain pst' pst1 where
    pr: "(PGA_call (example_env PInf 0 False) example_pga_params [Fin 1] (Fin 10) [Fin (- 1)] [Fin 1] [Fin 7]) = Some (Inr pst')"
    and pq: "(pga_qub_loop (example_env PInf 0 False) [Fin 1] (pga_prox (example_env PInf 0 False) [Fin 1] (pga_entry (example_env PInf 0 False) example_pga_params [Fin 1] [Fin (- 1)] [Fin 1] [Fin 7]))) = Some pst1"
    and ip: "isfinite (L_k (pga_estimated ?E example_pga_params [Fin 1]
              [Fin (- 1)] [Fin 1] [Fin 7]))"
    by blast
  have f: "Fin 0 \<le> Lgamma_factor (Lipschitz example_params)"
    "Fin 0 \<le> Lgamma_factor (Lipschitz example_pga_params)"
    by (simp_all add: example_params_def example_pga_params_def real_t_ops)
  let ?st2 = "(panoc_apply ?E 0 (panoc_stop_crit ?E example_params 0 st1))
                \<lparr>anderson_accepted := False\<rparr>"
  let ?s = "linesearch_init ?E 0 ?st2"
  let ?v = "linesearch_candidate ?E example_params [Fin 1] ?s"
  have a: "panoc_anderson ?E example_params [Fin 1] 0
             (panoc_apply ?E 0 (panoc_stop_crit ?E example_params 0 st1)) = Inr ?st2"
    by (simp add: panoc_anderson_def example_params_def)
  from q have "panoc_qub_loop ?E example_params [Fin 1]
      ((panoc_entry (example_env PInf 0 False) example_params () [Fin 1] [Fin (- 1)] [Fin 1] [Fin 7])\<lparr>old_gamma_k := gamma_k (panoc_entry (example_env PInf 0 False) example_params () [Fin 1] [Fin (- 1)] [Fin 1] [Fin 7])\<rparr>) = Some st1"
    by (simp add: panoc_qub_def Let_def)
  note lp = panoc_qub_loop_points [OF this, THEN conjunct1]
  note plp = pga_qub_loop_points [OF pq, THEN conjunct1]
  note T = step_size_monotone [where env = ?E and params = example_params and dp = "()"
      and \<Sigma> = "[Fin 1]" and x = "[Fin (- 1)]" and y = "[Fin 1]" and err_z = "[Fin 7]"
      and \<epsilon> = "Fin 10" and k = "0" and ow = False and penv = ?E
      and pparams = example_pga_params and st = "(panoc_entry (example_env PInf 0 False) example_params () [Fin 1] [Fin (- 1)] [Fin 1] [Fin 7])" and u = st1 and sq = st1
      and sa = ?st2 and s = ?s and v = ?v and st' = st'
      and pst = "(pga_entry (example_env PInf 0 False) example_pga_params [Fin 1] [Fin (- 1)] [Fin 1] [Fin 7])" and pu = pst1 and pst' = pst', unfolded Let_def]
  note A = T [THEN conjunct1, THEN mp, OF f(1), THEN mp, OF i, THEN conjunct2]
  note B = T [THEN conjunct2, THEN mp, OF f(2), THEN mp, OF ip, THEN conjunct2]
  note A1 = A [THEN conjunct1, THEN mp, OF panoc_first]
  from A1 [THEN conjunct1, THEN mp, OF lp]
  have 1: "gamma_k st1 \<le> gamma_k (panoc_entry (example_env PInf 0 False) example_params () [Fin 1] [Fin (- 1)] [Fin 1] [Fin 7]) \<and> L_k (panoc_entry (example_env PInf 0 False) example_params () [Fin 1] [Fin (- 1)] [Fin 1] [Fin 7]) \<le> L_k st1" .
  from A1 [THEN conjunct2, THEN mp, OF q, THEN mp, OF a, THEN mp, OF first_pass, THEN mp,
           OF loop_points.entry]
  have 2: "gamma_k1 ?v \<le> gamma_k (panoc_entry (example_env PInf 0 False) example_params () [Fin 1] [Fin (- 1)] [Fin 1] [Fin 7]) \<and> L_k (panoc_entry (example_env PInf 0 False) example_params () [Fin 1] [Fin (- 1)] [Fin 1] [Fin 7]) \<le> L_k1 ?v"
    by simp
  from A [THEN conjunct2, THEN mp, OF r]
  have 3: "gamma_k st' \<le> gamma_k (panoc_entry (example_env PInf 0 False) example_params () [Fin 1] [Fin (- 1)] [Fin 1] [Fin 7]) \<and> L_k (panoc_entry (example_env PInf 0 False) example_params () [Fin 1] [Fin (- 1)] [Fin 1] [Fin 7]) \<le> L_k st'" .
  from B [THEN conjunct1, THEN mp, OF pga_first, THEN mp, OF plp]
  have 4: "gamma_k pst1 \<le> gamma_k (pga_entry (example_env PInf 0 False) example_pga_params [Fin 1] [Fin (- 1)] [Fin 1] [Fin 7]) \<and> L_k (pga_entry (example_env PInf 0 False) example_pga_params [Fin 1] [Fin (- 1)] [Fin 1] [Fin 7]) \<le> L_k pst1" .
  from B [THEN conjunct2, THEN mp, OF pr]
  have 5: "gamma_k pst' \<le> gamma_k (pga_entry (example_env PInf 0 False) example_pga_params [Fin 1] [Fin (- 1)] [Fin 1] [Fin 7]) \<and> L_k (pga_entry (example_env PInf 0 False) example_pga_params [Fin 1] [Fin (- 1)] [Fin 1] [Fin 7]) \<le> L_k pst'" .
  have c1: "map_option (map_sum id (\<lambda>s. gamma_k s \<le> gamma_k (panoc_entry (example_env PInf 0 False) example_params () [Fin 1] [Fin (- 1)] [Fin 1] [Fin 7]) \<and> L_k (panoc_entry (example_env PInf 0 False) example_params () [Fin 1] [Fin (- 1)] [Fin 1] [Fin 7]) \<le> L_k s)) (PANOC_call (example_env PInf 0 False) example_params () [Fin 1] (Fin 10) False [Fin (- 1)] [Fin 1] [Fin 7])
     = Some (Inr True)"
    unfolding r using 3 by simp
  have c2: "map_option (\<lambda>s. gamma_k s \<le> gamma_k (panoc_entry (example_env PInf 0 False) example_params () [Fin 1] [Fin (- 1)] [Fin 1] [Fin 7]) \<and> L_k (panoc_entry (example_env PInf 0 False) example_params () [Fin 1] [Fin (- 1)] [Fin 1] [Fin 7]) \<le> L_k s) (panoc_qub (example_env PInf 0 False) example_params [Fin 1] 0 (panoc_entry (example_env PInf 0 False) example_params () [Fin 1] [Fin (- 1)] [Fin 1] [Fin 7])) = Some True"
    unfolding q using 1 by simp
  have c3: "(gamma_k1 (linesearch_candidate (example_env PInf 0 False) example_params [Fin 1] (linesearch_init (example_env PInf 0 False) 0 ((panoc_apply (example_env PInf 0 False) 0 (panoc_stop_crit (example_env PInf 0 False) example_params 0 (the (panoc_qub (example_env PInf 0 False) example_params [Fin 1] 0 (panoc_entry (example_env PInf 0 False) example_params () [Fin 1] [Fin (- 1)] [Fin 1] [Fin 7])))))\<lparr>anderson_accepted := False\<rparr>))) \<le> gamma_k (panoc_entry (example_env PInf 0 False) example_params () [Fin 1] [Fin (- 1)] [Fin 1] [Fin 7]) \<and> L_k (panoc_entry (example_env PInf 0 False) example_params () [Fin 1] [Fin (- 1)] [Fin 1] [Fin 7]) \<le> L_k1 (linesearch_candidate (example_env PInf 0 False) example_params [Fin 1] (linesearch_init (example_env PInf 0 False) 0 ((panoc_apply (example_env PInf 0 False) 0 (panoc_stop_crit (example_env PInf 0 False) example_params 0 (the (panoc_qub (example_env PInf 0 False) example_params [Fin 1] 0 (panoc_entry (example_env PInf 0 False) example_params () [Fin 1] [Fin (- 1)] [Fin 1] [Fin 7])))))\<lparr>anderson_accepted := False\<rparr>))))"
    unfolding q using 2 by simp
  have c4: "map_option (map_sum id (\<lambda>s. gamma_k s \<le> gamma_k (pga_entry (example_env PInf 0 False) example_pga_params [Fin 1] [Fin (- 1)] [Fin 1] [Fin 7]) \<and> L_k (pga_entry (example_env PInf 0 False) example_pga_params [Fin 1] [Fin (- 1)] [Fin 1] [Fin 7]) \<le> L_k s)) (PGA_call (example_env PInf 0 False) example_pga_params [Fin 1] (Fin 10) [Fin (- 1)] [Fin 1] [Fin 7])
     = Some (Inr True)"
    unfolding pr using 5 by simp
  have c5: "map_option (\<lambda>s. gamma_k s \<le> gamma_k (pga_entry (example_env PInf 0 False) example_pga_params [Fin 1] [Fin (- 1)] [Fin 1] [Fin 7]) \<and> L_k (pga_entry (example_env PInf 0 False) example_pga_params [Fin 1] [Fin (- 1)] [Fin 1] [Fin 7]) \<le> L_k s) (pga_qub_loop (example_env PInf 0 False) [Fin 1] (pga_prox (example_env PInf 0 False) [Fin 1] (pga_entry (example_env PInf 0 False) example_pga_params [Fin 1] [Fin (- 1)] [Fin 1] [Fin 7]))) = Some True"
    unfolding pq using 4 by simp
  show ?thesis
    by (rule c1 c2 c3 c4 c5 conjI)+
qed

text \<open>The example with \<open>L\<gamma>_factor = - 1 / 2\<close>: both solvers enter the main loop with
  \<open>\<gamma>\<^sub>0 = - 1 / 2\<close>, halve the step size twice in the first iteration and return with
  \<open>\<gamma> = - 1 / 8\<close>, which is above \<open>\<gamma>\<^sub>0\<close>.\<close>

theorem step_size_monotone_counterexample:
  "map_option (map_sum id gamma_k)
     (PANOC_call (example_env PInf 0 False)
        (example_params\<lparr>Lipschitz := \<lparr>L_eps = Fin (1 / 10 ^ 6), L_delta = Fin 1, Lgamma_factor = Fin (- (1 / 2))\<rparr>\<rparr>) ()
        [Fin 1] (Fin 10) False [Fin (- 1)] [Fin 1] [Fin 7])
     = Some (Inr (Fin (- (1 / 8)))) \<and>
   gamma_k (panoc_entry (example_env PInf 0 False)
        (example_params\<lparr>Lipschitz := \<lparr>L_eps = Fin (1 / 10 ^ 6), L_delta = Fin 1, Lgamma_factor = Fin (- (1 / 2))\<rparr>\<rparr>) ()
        [Fin 1] [Fin (- 1)] [Fin 1] [Fin 7]) = Fin (- (1 / 2)) \<and>
   map_option (map_sum id gamma_k)
     (PGA_call (example_env PInf 0 False)
        (example_pga_params\<lparr>Lipschitz := \<lparr>L_eps = Fin (1 / 10 ^ 6), L_delta = Fin 1, Lgamma_factor = Fin (- (1 / 2))\<rparr>\<rparr>)
        [Fin 1] (Fin 10) [Fin (- 1)] [Fin 1] [Fin 7])
     = Some (Inr (Fin (- (1 / 8)))) \<and>
   gamma_k (pga_entry (example_env PInf 0 False)
        (example_pga_params\<lparr>Lipschitz := \<lparr>L_eps = Fin (1 / 10 ^ 6), L_delta = Fin 1, Lgamma_factor = Fin (- (1 / 2))\<rparr>\<rparr>)
        [Fin 1] [Fin (- 1)] [Fin 1] [Fin 7]) = Fin (- (1 / 2)) \<and>
   \<not> Fin (- (1 / 8)) \<le> Fin (- (1 / 2))"
  by (simp add: PANOC_call_def PGA_call_def panoc_loop.simps[of _ _ _ _ _ 0]
        pga_loop.simps[of _ _ _ _ 0] panoc_qub_loop.simps pga_qub_loop.simps
        common_defs panoc_block_defs pga_block_defs pga_entry_def pga_estimated_def
        example_defs Let_def vec_ops real_t_ops epsilon_def flag_defs)

end
